theory Spec2Isabelle
  imports Complex_Main
begin

section \<open>Geometric data\<close>

text \<open>
  \<^verbatim>\<open>Real\<close> is modelled by the mathematical reals: the engine copies and compares these
  numbers (against the sentinel \<open>-1\<close>), and the few products it forms are the rigid
  transforms of the glossary. Rounding is outside the model.
\<close>

type_synonym Vec3 = "real \<times> real \<times> real"
type_synonym Vec4 = "real \<times> real \<times> real \<times> real"
type_synonym Mat33 = "Vec3 \<times> Vec3 \<times> Vec3"

record Transform =
  R :: Mat33
  T :: Vec3

fun Vec3_plus :: "Vec3 \<Rightarrow> Vec3 \<Rightarrow> Vec3" where
  "Vec3_plus (a, b, c) (x, y, z) = (a + x, b + y, c + z)"

fun Vec3_dot :: "Vec3 \<Rightarrow> Vec3 \<Rightarrow> real" where
  "Vec3_dot (a, b, c) (x, y, z) = a * x + b * y + c * z"

definition Vec3_norm :: "Vec3 \<Rightarrow> real" where
  "Vec3_norm v = sqrt (Vec3_dot v v)"

fun Mat33_transpose :: "Mat33 \<Rightarrow> Mat33" where
  "Mat33_transpose ((a, b, c), (d, e, f), (g, h, i)) = ((a, d, g), (b, e, h), (c, f, i))"

fun Mat33_times_Vec3 :: "Mat33 \<Rightarrow> Vec3 \<Rightarrow> Vec3" where
  "Mat33_times_Vec3 (r1, r2, r3) v = (Vec3_dot r1 v, Vec3_dot r2 v, Vec3_dot r3 v)"

fun Mat33_times :: "Mat33 \<Rightarrow> Mat33 \<Rightarrow> Mat33" where
  "Mat33_times (r1, r2, r3) n =
     (let nt = Mat33_transpose n
      in (Mat33_times_Vec3 nt r1, Mat33_times_Vec3 nt r2, Mat33_times_Vec3 nt r3))"

definition Mat33_one :: Mat33 where
  "Mat33_one = ((1, 0, 0), (0, 1, 0), (0, 0, 1))"

definition Vec3_zero :: Vec3 where
  "Vec3_zero = (0, 0, 0)"

text \<open>
  Modelled from the spec: the \<^verbatim>\<open>Transform\<close> class of SimTKcommon is not among the
  sources. The glossary gives it as a rigid rotation and translation mapping a local
  frame to the ground frame; \<open>Transform_times\<close> is the \<^verbatim>\<open>X*Y\<close> of two transforms and
  \<open>Transform_apply\<close> the \<^verbatim>\<open>X*p\<close> of a transform and a station.
\<close>

definition Transform_times :: "Transform \<Rightarrow> Transform \<Rightarrow> Transform" where
  "Transform_times X Y =
     \<lparr>R = Mat33_times (R X) (R Y), T = Vec3_plus (T X) (Mat33_times_Vec3 (R X) (T Y))\<rparr>"

definition Transform_apply :: "Transform \<Rightarrow> Vec3 \<Rightarrow> Vec3" where
  "Transform_apply X p = Vec3_plus (T X) (Mat33_times_Vec3 (R X) p)"

definition Transform_identity :: Transform where
  "Transform_identity = \<lparr>R = Mat33_one, T = Vec3_zero\<rparr>"

definition Transform_of_Vec3 :: "Vec3 \<Rightarrow> Transform" where
  "Transform_of_Vec3 p = \<lparr>R = Mat33_one, T = p\<rparr>"

definition RadiansToDegrees :: real where
  "RadiansToDegrees = 180 / pi"

section \<open>Geometry descriptors\<close>

text \<open>
  Modelled from the spec: \<^verbatim>\<open>DecorativeGeometry\<close> is declared in a header that is not among
  the sources. A descriptor carries its owning body, its placement, the four style
  fields and its shape; an unset style field holds the sentinel \<open>-1\<close> (\<open>DrawDefault\<close>
  for the representation), which is what the engine tests.
\<close>

datatype Representation = DrawDefault | DrawPoints | DrawWireframe | DrawSurface

datatype Shape =
    LineShape Vec3 Vec3
  | FrameShape real
  | SphereShape real
  | BrickShape Vec3

record DecorativeGeometry =
  bodyId :: int
  transform :: Transform
  colorRGB :: Vec3
  opacity :: real
  lineThickness :: real
  representation :: Representation
  shape :: Shape

definition newGeometry :: "Shape \<Rightarrow> DecorativeGeometry" where
  "newGeometry sh =
     \<lparr>bodyId = 0, transform = Transform_identity, colorRGB = (-1, -1, -1), opacity = -1,
      lineThickness = -1, representation = DrawDefault, shape = sh\<rparr>"

definition DecorativeFrame :: "real \<Rightarrow> DecorativeGeometry" where
  "DecorativeFrame len = newGeometry (FrameShape len)"

definition DecorativeLine :: "Vec3 \<Rightarrow> Vec3 \<Rightarrow> DecorativeGeometry" where
  "DecorativeLine p1 p2 = newGeometry (LineShape p1 p2)"

definition DecorativeSphere :: "real \<Rightarrow> DecorativeGeometry" where
  "DecorativeSphere r = newGeometry (SphereShape r)"

definition setEndpoints :: "Vec3 \<Rightarrow> Vec3 \<Rightarrow> DecorativeGeometry \<Rightarrow> DecorativeGeometry" where
  "setEndpoints p1 p2 dline = dline\<lparr>shape := LineShape p1 p2\<rparr>"

definition Black :: Vec3 where "Black = (0, 0, 0)"
definition Gray :: Vec3 where "Gray = (1/2, 1/2, 1/2)"
definition Red :: Vec3 where "Red = (1, 0, 0)"
definition Green :: Vec3 where "Green = (0, 1, 0)"
definition Purple :: Vec3 where "Purple = (1/2, 0, 1/2)"

definition DefaultGroundBodyColor :: Vec3 where "DefaultGroundBodyColor = Green"
definition DefaultBaseBodyColor :: Vec3 where "DefaultBaseBodyColor = Red"
definition DefaultBodyColor :: Vec3 where "DefaultBodyColor = Gray"

section \<open>The simulation collaborator\<close>

text \<open>
  Modelled from the spec: the computation stages, an enumerable sequence declared in
  SimTKcommon. The engine names \<open>Topology\<close> (mined once, at construction), \<open>Model\<close>
  (where the per-frame mining starts) and \<open>Position\<close> (what \<open>report\<close> realizes).
\<close>

datatype Stage =
  Empty | Topology | Model | Instance | Time | Position | Velocity | Dynamics
  | Acceleration | Report

fun stageLevel :: "Stage \<Rightarrow> nat" where
  "stageLevel Empty = 0"
| "stageLevel Topology = 1"
| "stageLevel Model = 2"
| "stageLevel Instance = 3"
| "stageLevel Time = 4"
| "stageLevel Position = 5"
| "stageLevel Velocity = 6"
| "stageLevel Dynamics = 7"
| "stageLevel Acceleration = 8"
| "stageLevel Report = 9"

definition allStages :: "Stage list" where
  "allStages =
     [Empty, Topology, Model, Instance, Time, Position, Velocity, Dynamics, Acceleration, Report]"

text \<open>
  What the engine reads from the \<^verbatim>\<open>MultibodySystem\<close> and its matter subsystem, as
  parameters; \<open>'s\<close> is the type of a \<^verbatim>\<open>State\<close>. \<open>realize\<close> returns the state with its
  cache advanced. \<open>convertToAngleAxis\<close> is the method of SimTKcommon's rotation class.
\<close>

record 's MultibodySystem =
  systemTopologyHasBeenRealized :: bool
  getNBodies :: nat
  getParentMobilizedBodyId :: "int \<Rightarrow> int"
  getDefaultOutboardFrame :: "int \<Rightarrow> Transform"
  getDefaultInboardFrame :: "int \<Rightarrow> Transform"
  getMassCenter :: "int \<Rightarrow> Vec3"
  defaultState :: 's
  realize :: "'s \<Rightarrow> Stage \<Rightarrow> 's"
  getSystemStage :: "'s \<Rightarrow> Stage"
  getBodyTransform :: "'s \<Rightarrow> int \<Rightarrow> Transform"
  calcDecorativeGeometry :: "'s \<Rightarrow> Stage \<Rightarrow> DecorativeGeometry list"
  convertToAngleAxis :: "Mat33 \<Rightarrow> Vec4"

section \<open>Outcomes\<close>

text \<open>
  An operation of the engine mutates the engine and the backend in place. It returns
  normally (\<open>Ok\<close>), or leaves by an exception or a failed assertion with the state as
  mutated so far (\<open>Raised\<close>), or runs into behaviour C++ leaves undefined: an unchecked
  index into a \<^verbatim>\<open>std::vector\<close> out of its range, a call through a null pointer.
\<close>

datatype error = RangeError | AssertionFailed | Cant

datatype 'a outcome = Ok 'a | Raised error 'a | Undefined

fun forEach :: "('i \<Rightarrow> 'a \<Rightarrow> 'a outcome) \<Rightarrow> 'i list \<Rightarrow> 'a \<Rightarrow> 'a outcome" where
  "forEach body [] st = Ok st"
| "forEach body (i # rest) st =
     (case body i st of
        Ok st' \<Rightarrow> forEach body rest st'
      | Raised e st' \<Rightarrow> Raised e st'
      | Undefined \<Rightarrow> Undefined)"

definition andThen :: "'a outcome \<Rightarrow> ('a \<Rightarrow> 'a outcome) \<Rightarrow> 'a outcome" where
  "andThen m f = (case m of Ok st \<Rightarrow> f st | Raised e st \<Rightarrow> Raised e st | Undefined \<Rightarrow> Undefined)"

section \<open>The rendering backend\<close>

text \<open>
  Modelled from the spec: the backend is an external collaborator of which the engine
  uses a fixed set of capabilities. This is the resource-accounting stub of the spec's
  teardown property: every proxy ever created stays in \<open>actors\<close>, at the index that is
  its address, with the number of \<^verbatim>\<open>Delete()\<close> calls it has received. The polygons
  generated for a descriptor (\<^verbatim>\<open>VTKDecorativeGeometry\<close>) are represented by the
  descriptor they were generated from. An orientation is the list of the rotations
  applied since the last reset.
\<close>

datatype polydata = PolyData DecorativeGeometry

datatype vtkMapper = NoMapper | Mapper "polydata option"

record vtkActor =
  position :: Vec3
  orientation :: "Vec4 list"
  propColor :: Vec3
  propOpacity :: real
  propLineWidth :: real
  propRepresentation :: int
  mapper :: vtkMapper
  deleteCalls :: nat

record vtkWorld =
  actors :: "vtkActor list"
  sceneActors :: "nat list"
  cameraResets :: nat
  renders :: nat
  rendererDeletes :: nat
  renWinDeletes :: nat

definition VTK_POINTS :: int where "VTK_POINTS = 0"
definition VTK_WIREFRAME :: int where "VTK_WIREFRAME = 1"
definition VTK_SURFACE :: int where "VTK_SURFACE = 2"

definition newActor :: vtkActor where
  "newActor =
     \<lparr>position = (0, 0, 0), orientation = [], propColor = (1, 1, 1), propOpacity = 1,
      propLineWidth = 1, propRepresentation = VTK_SURFACE, mapper = NoMapper,
      deleteCalls = 0\<rparr>"

definition newWorld :: vtkWorld where
  "newWorld =
     \<lparr>actors = [], sceneActors = [], cameraResets = 0, renders = 0, rendererDeletes = 0,
      renWinDeletes = 0\<rparr>"

definition vtkActor_New :: "vtkWorld \<Rightarrow> nat \<times> vtkWorld" where
  "vtkActor_New w = (length (actors w), w\<lparr>actors := actors w @ [newActor]\<rparr>)"

definition updActor :: "nat \<Rightarrow> (vtkActor \<Rightarrow> vtkActor) \<Rightarrow> vtkWorld \<Rightarrow> vtkWorld" where
  "updActor a f w = w\<lparr>actors := (actors w)[a := f (actors w ! a)]\<rparr>"

definition SetPosition :: "nat \<Rightarrow> Vec3 \<Rightarrow> vtkWorld \<Rightarrow> vtkWorld" where
  "SetPosition a p = updActor a (\<lambda>x. x\<lparr>position := p\<rparr>)"

definition SetOrientation000 :: "nat \<Rightarrow> vtkWorld \<Rightarrow> vtkWorld" where
  "SetOrientation000 a = updActor a (\<lambda>x. x\<lparr>orientation := []\<rparr>)"

definition RotateWXYZ :: "nat \<Rightarrow> Vec4 \<Rightarrow> vtkWorld \<Rightarrow> vtkWorld" where
  "RotateWXYZ a wxyz = updActor a (\<lambda>x. x\<lparr>orientation := orientation x @ [wxyz]\<rparr>)"

definition SetColor :: "nat \<Rightarrow> Vec3 \<Rightarrow> vtkWorld \<Rightarrow> vtkWorld" where
  "SetColor a c = updActor a (\<lambda>x. x\<lparr>propColor := c\<rparr>)"

definition SetOpacity :: "nat \<Rightarrow> real \<Rightarrow> vtkWorld \<Rightarrow> vtkWorld" where
  "SetOpacity a v = updActor a (\<lambda>x. x\<lparr>propOpacity := v\<rparr>)"

definition SetLineWidth :: "nat \<Rightarrow> real \<Rightarrow> vtkWorld \<Rightarrow> vtkWorld" where
  "SetLineWidth a v = updActor a (\<lambda>x. x\<lparr>propLineWidth := v\<rparr>)"

definition SetRepresentation :: "nat \<Rightarrow> int \<Rightarrow> vtkWorld \<Rightarrow> vtkWorld" where
  "SetRepresentation a v = updActor a (\<lambda>x. x\<lparr>propRepresentation := v\<rparr>)"

definition SetMapper :: "nat \<Rightarrow> vtkMapper \<Rightarrow> vtkWorld \<Rightarrow> vtkWorld" where
  "SetMapper a m = updActor a (\<lambda>x. x\<lparr>mapper := m\<rparr>)"

definition Delete :: "nat \<Rightarrow> vtkWorld \<Rightarrow> vtkWorld" where
  "Delete a = updActor a (\<lambda>x. x\<lparr>deleteCalls := Suc (deleteCalls x)\<rparr>)"

definition AddActor :: "nat \<Rightarrow> vtkWorld \<Rightarrow> vtkWorld" where
  "AddActor a w = (if a \<in> set (sceneActors w) then w else w\<lparr>sceneActors := sceneActors w @ [a]\<rparr>)"

definition RemoveActor :: "nat \<Rightarrow> vtkWorld \<Rightarrow> vtkWorld" where
  "RemoveActor a w = w\<lparr>sceneActors := removeAll a (sceneActors w)\<rparr>"

definition ResetCamera :: "vtkWorld \<Rightarrow> vtkWorld" where
  "ResetCamera w = w\<lparr>cameraResets := Suc (cameraResets w)\<rparr>"

definition Render :: "vtkWorld \<Rightarrow> vtkWorld" where
  "Render w = w\<lparr>renders := Suc (renders w)\<rparr>"

definition implementGeometry :: "DecorativeGeometry \<Rightarrow> polydata" where
  "implementGeometry dgeom = PolyData dgeom"

section \<open>The engine's data\<close>

record PerBodyInfo =
  aList :: "nat list"
  gList :: "DecorativeGeometry list"
  defaultColorRGB :: Vec3
  scale :: real

definition newPerBodyInfo :: PerBodyInfo where
  "newPerBodyInfo = \<lparr>aList = [], gList = [], defaultColorRGB = Black, scale = 1\<rparr>"

record PerDynamicGeomInfo =
  actor :: nat
  line :: DecorativeGeometry
  body1 :: int
  body2 :: int
  station1 :: Vec3
  station2 :: Vec3

text \<open>
  \<^verbatim>\<open>VTKReporterRep\<close>. A proxy is held by its address in the backend; an entry of
  \<open>ephemeralActors\<close> may be null (\<open>None\<close>), since the vector is resized before it is
  filled. \<open>renWin\<close> and \<open>renderer\<close> say whether the pointer of that name is non-null
  (the backend has one window and one renderer). The reference \<^verbatim>\<open>mbs\<close> is the
  \<open>MultibodySystem\<close> argument of the operations below.
\<close>

record VTKReporterRep =
  myHandle :: "nat option"
  cameraNeedsToBeReset :: bool
  defaultBodyScaleForAutoGeometry :: real
  bodies :: "PerBodyInfo list"
  dynamicGeom :: "PerDynamicGeomInfo list"
  ephemeralGeometry :: "DecorativeGeometry list"
  ephemeralActors :: "nat option list"
  renWin :: bool
  renderer :: bool

type_synonym engine = "VTKReporterRep \<times> vtkWorld"

definition onRep :: "(VTKReporterRep \<Rightarrow> VTKReporterRep outcome) \<Rightarrow> engine \<Rightarrow> engine outcome" where
  "onRep f st =
     (case f (fst st) of
        Ok r \<Rightarrow> Ok (r, snd st)
      | Raised e r \<Rightarrow> Raised e (r, snd st)
      | Undefined \<Rightarrow> Undefined)"

section \<open>The body registry\<close>

text \<open>
  \<^verbatim>\<open>bodies[bodyNum]\<close> is the unchecked index of \<^verbatim>\<open>std::vector\<close>: defined exactly when
  \<open>bodyNum\<close> is in the vector's range.
\<close>

definition inRange :: "VTKReporterRep \<Rightarrow> int \<Rightarrow> bool" where
  "inRange rep bodyNum \<longleftrightarrow> 0 \<le> bodyNum \<and> bodyNum < int (length (bodies rep))"

definition setDefaultBodyColor :: "int \<Rightarrow> Vec3 \<Rightarrow> VTKReporterRep \<Rightarrow> VTKReporterRep outcome" where
  "setDefaultBodyColor bodyNum rgb rep =
     (if inRange rep bodyNum
      then Ok (rep\<lparr>bodies := (bodies rep)
                 [nat bodyNum := (bodies rep ! nat bodyNum)\<lparr>defaultColorRGB := rgb\<rparr>]\<rparr>)
      else Undefined)"

definition getDefaultBodyColor :: "VTKReporterRep \<Rightarrow> int \<Rightarrow> Vec3 outcome" where
  "getDefaultBodyColor rep body =
     (if inRange rep body then Ok (defaultColorRGB (bodies rep ! nat body)) else Undefined)"

definition setBodyScale :: "int \<Rightarrow> real \<Rightarrow> VTKReporterRep \<Rightarrow> VTKReporterRep outcome" where
  "setBodyScale bodyNum sc rep =
     (if inRange rep bodyNum
      then Ok (rep\<lparr>bodies := (bodies rep)[nat bodyNum := (bodies rep ! nat bodyNum)\<lparr>scale := sc\<rparr>]\<rparr>)
      else Undefined)"

definition disableDefaultGeometry :: "VTKReporterRep \<Rightarrow> VTKReporterRep" where
  "disableDefaultGeometry rep = rep\<lparr>defaultBodyScaleForAutoGeometry := 0\<rparr>"

definition resetCamera :: "VTKReporterRep \<Rightarrow> VTKReporterRep" where
  "resetCamera rep = rep\<lparr>cameraNeedsToBeReset := True\<rparr>"

section \<open>Style resolution and the three stores\<close>

text \<open>The \<^verbatim>\<open>default:\<close> branch is the failed assertion.\<close>

fun convertToVTKRepresentation :: "Representation \<Rightarrow> int option" where
  "convertToVTKRepresentation DrawPoints = Some VTK_POINTS"
| "convertToVTKRepresentation DrawWireframe = Some VTK_WIREFRAME"
| "convertToVTKRepresentation DrawSurface = Some VTK_SURFACE"
| "convertToVTKRepresentation DrawDefault = None"

text \<open>
  The block "Now apply the actor-level properties from the geometry", which the source
  repeats in \<^verbatim>\<open>addDecoration\<close>, \<^verbatim>\<open>addRubberBandLine\<close> and
  \<^verbatim>\<open>displayEphemeralGeometry\<close>. The colour comes in resolved: its fallback differs.
\<close>

definition applyProperties :: "nat \<Rightarrow> Vec3 \<Rightarrow> DecorativeGeometry \<Rightarrow> engine \<Rightarrow> engine outcome" where
  "applyProperties a color dgeom st =
     (let w1 = SetColor a color (snd st);
          opacity' = (if opacity dgeom \<noteq> -1 then opacity dgeom else 1);
          w2 = SetOpacity a opacity' w1;
          lineWidth = (if lineThickness dgeom \<noteq> -1 then lineThickness dgeom else 1);
          w3 = SetLineWidth a lineWidth w2;
          representation' =
            (if representation dgeom \<noteq> DrawDefault then representation dgeom else DrawSurface)
      in case convertToVTKRepresentation representation' of
           None \<Rightarrow> Raised AssertionFailed (fst st, w3)
         | Some vtkDrawMode \<Rightarrow> Ok (fst st, SetRepresentation a vtkDrawMode w3))"

definition addDecoration :: "int \<Rightarrow> Transform \<Rightarrow> DecorativeGeometry \<Rightarrow> engine \<Rightarrow> engine outcome" where
  "addDecoration body X_GD g st =
     (let rep = fst st;
          (a, w1) = vtkActor_New (snd st)
      in if \<not> inRange rep body then Undefined
         else
           let b = bodies rep ! nat body;
               dgeom = g\<lparr>transform := Transform_times X_GD (transform g)\<rparr>;
               rep1 = rep\<lparr>bodies := (bodies rep)
                        [nat body := b\<lparr>aList := aList b @ [a], gList := gList b @ [dgeom]\<rparr>]\<rparr>;
               poly = implementGeometry dgeom
           in case (if fst (colorRGB dgeom) \<noteq> -1 then Ok (colorRGB dgeom)
                    else getDefaultBodyColor rep1 body) of
                Ok color \<Rightarrow>
                  andThen (applyProperties a color dgeom (rep1, w1))
                    (\<lambda>st2. if \<not> renderer (fst st2) then Undefined
                       else Ok ((fst st2)\<lparr>cameraNeedsToBeReset := True\<rparr>,
                                AddActor a (SetMapper a (Mapper (Some poly)) (snd st2))))
              | _ \<Rightarrow> Undefined)"

definition addRubberBandLine ::
  "int \<Rightarrow> Vec3 \<Rightarrow> int \<Rightarrow> Vec3 \<Rightarrow> DecorativeGeometry \<Rightarrow> engine \<Rightarrow> engine outcome" where
  "addRubberBandLine b1 st1 b2 st2 g st =
     (let rep = fst st;
          (a, w1) = vtkActor_New (snd st);
          info = \<lparr>actor = a, line = g, body1 = b1, body2 = b2, station1 = st1, station2 = st2\<rparr>;
          rep1 = rep\<lparr>dynamicGeom := dynamicGeom rep @ [info]\<rparr>;
          color = (if fst (colorRGB (line info)) \<noteq> -1 then colorRGB (line info) else Black)
      in andThen (applyProperties a color (line info) (rep1, w1))
           (\<lambda>st2. if \<not> renderer (fst st2) then Undefined
              else Ok ((fst st2)\<lparr>cameraNeedsToBeReset := True\<rparr>,
                       AddActor a (SetMapper a (Mapper None) (snd st2)))))"

definition addEphemeralDecoration :: "DecorativeGeometry \<Rightarrow> VTKReporterRep \<Rightarrow> VTKReporterRep" where
  "addEphemeralDecoration g rep = rep\<lparr>ephemeralGeometry := ephemeralGeometry rep @ [g]\<rparr>"

text \<open>
  Modelled from the spec: \<^verbatim>\<open>matter.getMobilizedBody(body).getBodyTransform(s)\<close>. The
  lookup is the collaborator's; the spec has an out-of-range body id met while applying
  a transform surfaced at once, as a range error (\<open>None\<close> here, raised by the caller).
\<close>

definition getMobilizedBodyTransform :: "'s MultibodySystem \<Rightarrow> 's \<Rightarrow> int \<Rightarrow> Transform option" where
  "getMobilizedBodyTransform mbs s body =
     (if 0 \<le> body \<and> body < int (getNBodies mbs) then Some (getBodyTransform mbs s body)
      else None)"

definition outWithTheOld :: "nat \<Rightarrow> engine \<Rightarrow> engine outcome" where
  "outWithTheOld i st =
     (if \<not> renderer (fst st) then Undefined
      else case ephemeralActors (fst st) ! i of
             None \<Rightarrow> Undefined
           | Some a \<Rightarrow> Ok (fst st, Delete a (RemoveActor a (snd st))))"

definition resize :: "nat \<Rightarrow> nat option list \<Rightarrow> nat option list" where
  "resize n xs = take n xs @ replicate (n - length xs) None"

definition inWithTheNew :: "'s MultibodySystem \<Rightarrow> 's \<Rightarrow> nat \<Rightarrow> engine \<Rightarrow> engine outcome" where
  "inWithTheNew mbs s i st =
     (let rep = fst st;
          dgeom = ephemeralGeometry rep ! i;
          (a, w1) = vtkActor_New (snd st);
          rep1 = rep\<lparr>ephemeralActors := (ephemeralActors rep)[i := Some a]\<rparr>;
          body = bodyId dgeom
      in case getMobilizedBodyTransform mbs s body of
           None \<Rightarrow> Raised RangeError (rep1, w1)
         | Some X_GB \<Rightarrow>
             let dgeom' = dgeom\<lparr>transform := Transform_times X_GB (transform dgeom)\<rparr>;
                 rep2 = rep1\<lparr>ephemeralGeometry := (ephemeralGeometry rep1)[i := dgeom']\<rparr>
             in case (if fst (colorRGB dgeom') \<noteq> -1 then Ok (colorRGB dgeom')
                      else getDefaultBodyColor rep2 body) of
                  Ok color \<Rightarrow>
                    andThen (applyProperties a color dgeom' (rep2, w1))
                      (\<lambda>st3. if \<not> renderer (fst st3) then Undefined
                         else Ok (fst st3,
                                  AddActor a (SetMapper a (Mapper (Some (implementGeometry dgeom')))
                                    (snd st3))))
                | _ \<Rightarrow> Undefined)"

definition displayEphemeralGeometry :: "'s MultibodySystem \<Rightarrow> 's \<Rightarrow> engine \<Rightarrow> engine outcome" where
  "displayEphemeralGeometry mbs s st =
     andThen (forEach outWithTheOld [0..<length (ephemeralActors (fst st))] st)
       (\<lambda>st1.
          let n = length (ephemeralGeometry (fst st1));
              rep2 = (fst st1)\<lparr>ephemeralActors := resize n (ephemeralActors (fst st1))\<rparr>
          in andThen (forEach (inWithTheNew mbs s) [0..<n] (rep2, snd st1))
               (\<lambda>st3. Ok ((fst st3)\<lparr>ephemeralGeometry := []\<rparr>, snd st3)))"

section \<open>The report cycle\<close>

definition setConfiguration :: "'s MultibodySystem \<Rightarrow> int \<Rightarrow> Transform \<Rightarrow> engine \<Rightarrow> engine outcome" where
  "setConfiguration mbs bodyNum X_GB st =
     (if \<not> inRange (fst st) bodyNum then Undefined
      else Ok (fst st,
        foldl (\<lambda>w a.
                 let w1 = SetPosition a (T X_GB) w;
                     (av0, av1, av2, av3) = convertToAngleAxis mbs (R X_GB);
                     w2 = SetOrientation000 a w1
                 in RotateWXYZ a (av0 * RadiansToDegrees, av1, av2, av3) w2)
          (snd st) (aList (bodies (fst st) ! nat bodyNum))))"

definition getMapper :: "nat \<Rightarrow> vtkWorld \<Rightarrow> vtkMapper" where
  "getMapper a w = (if a < length (actors w) then mapper (actors w ! a) else NoMapper)"

text \<open>\<^verbatim>\<open>actor->GetMapper()->SetInput(poly)\<close>: a call through null when no mapper is attached.\<close>

definition setRubberBandLine :: "nat \<Rightarrow> Vec3 \<Rightarrow> Vec3 \<Rightarrow> engine \<Rightarrow> engine outcome" where
  "setRubberBandLine dgeom p1 p2 st =
     (let info = dynamicGeom (fst st) ! dgeom;
          a = actor info;
          line' = setEndpoints p1 p2 (line info);
          rep1 = (fst st)\<lparr>dynamicGeom := (dynamicGeom (fst st))[dgeom := info\<lparr>line := line'\<rparr>]\<rparr>;
          poly = implementGeometry line'
      in case getMapper a (snd st) of
           NoMapper \<Rightarrow> Undefined
         | Mapper _ \<Rightarrow> Ok (rep1, SetMapper a (Mapper (Some poly)) (snd st)))"

definition bodyStep :: "'s MultibodySystem \<Rightarrow> 's \<Rightarrow> nat \<Rightarrow> engine \<Rightarrow> engine outcome" where
  "bodyStep mbs s i st =
     (case getMobilizedBodyTransform mbs s (int i) of
        None \<Rightarrow> Raised RangeError st
      | Some config \<Rightarrow> setConfiguration mbs (int i) config st)"

definition rubberBandStep :: "'s MultibodySystem \<Rightarrow> 's \<Rightarrow> nat \<Rightarrow> engine \<Rightarrow> engine outcome" where
  "rubberBandStep mbs s i st =
     (let info = dynamicGeom (fst st) ! i
      in case getMobilizedBodyTransform mbs s (body1 info) of
           None \<Rightarrow> Raised RangeError st
         | Some X_GB1 \<Rightarrow>
             (case getMobilizedBodyTransform mbs s (body2 info) of
                None \<Rightarrow> Raised RangeError st
              | Some X_GB2 \<Rightarrow>
                  setRubberBandLine i (Transform_apply X_GB1 (station1 info))
                    (Transform_apply X_GB2 (station2 info)) st))"

text \<open>
  \<^verbatim>\<open>for (Stage stage=Stage::Model; stage <= s.getSystemStage(); ++stage)\<close>: the stages the
  loop visits, in its order.
\<close>

definition stagesToMine :: "Stage \<Rightarrow> Stage list" where
  "stagesToMine current =
     filter (\<lambda>stage. stageLevel Model \<le> stageLevel stage \<and> stageLevel stage \<le> stageLevel current)
       allStages"

definition calcDecorativeGeometryAndAppend ::
  "'s MultibodySystem \<Rightarrow> 's \<Rightarrow> Stage \<Rightarrow> VTKReporterRep \<Rightarrow> VTKReporterRep" where
  "calcDecorativeGeometryAndAppend mbs s stage rep =
     rep\<lparr>ephemeralGeometry := ephemeralGeometry rep @ calcDecorativeGeometry mbs s stage\<rparr>"

text \<open>
  The window messages drained at the end of a cycle (the \<^verbatim>\<open>_WIN32\<close> block); on other
  platforms there are none. \<^verbatim>\<open>WM_QUIT\<close> releases the window and ends the loop.
\<close>

datatype MSG = WM_QUIT | OtherMessage

fun peekMessages :: "MSG list \<Rightarrow> engine \<Rightarrow> engine" where
  "peekMessages [] st = st"
| "peekMessages (WM_QUIT # rest) st =
     ((fst st)\<lparr>renWin := False\<rparr>, (snd st)\<lparr>renWinDeletes := Suc (renWinDeletes (snd st))\<rparr>)"
| "peekMessages (OtherMessage # rest) st = peekMessages rest st"

definition report :: "'s MultibodySystem \<Rightarrow> MSG list \<Rightarrow> 's \<Rightarrow> engine \<Rightarrow> engine outcome" where
  "report mbs msgs s0 st =
     (if \<not> renWin (fst st) then Ok st
      else
        let s = realize mbs s0 Position
        in andThen (forEach (bodyStep mbs s) [1..<getNBodies mbs] st)
          (\<lambda>st1. andThen (forEach (rubberBandStep mbs s) [0..<length (dynamicGeom (fst st1))] st1)
          (\<lambda>st2.
             let rep3 = foldl (\<lambda>rep stage. calcDecorativeGeometryAndAppend mbs s stage rep)
                          (fst st2) (stagesToMine (getSystemStage mbs s))
             in andThen (displayEphemeralGeometry mbs s (rep3, snd st2))
          (\<lambda>st4.
             if cameraNeedsToBeReset (fst st4) \<and> \<not> renderer (fst st4) then Undefined
             else
               let st5 = (if cameraNeedsToBeReset (fst st4)
                          then ((fst st4)\<lparr>cameraNeedsToBeReset := False\<rparr>, ResetCamera (snd st4))
                          else st4)
               in Ok (peekMessages msgs (fst st5, Render (snd st5)))))))"

section \<open>Copying and teardown\<close>

text \<open>
  \<^verbatim>\<open>clone\<close> runs the implicit copy constructor: every member is copied as it is, the
  pointers to backend objects included.
\<close>

definition clone :: "VTKReporterRep \<Rightarrow> VTKReporterRep" where
  "clone rep = rep\<lparr>myHandle := None\<rparr>"

text \<open>The copy constructor and the copy assignment of the handle: clone, then \<^verbatim>\<open>setMyHandle\<close>.\<close>

definition VTKReporter_copy :: "nat \<Rightarrow> VTKReporterRep \<Rightarrow> VTKReporterRep" where
  "VTKReporter_copy h src = (clone src)\<lparr>myHandle := Some h\<rparr>"

definition deleteEphemeral :: "VTKReporterRep \<Rightarrow> nat option \<Rightarrow> vtkWorld \<Rightarrow> vtkWorld outcome" where
  "deleteEphemeral rep p w =
     (if \<not> renderer rep then Undefined
      else case p of None \<Rightarrow> Undefined | Some a \<Rightarrow> Ok (Delete a (RemoveActor a w)))"

text \<open>
  \<^verbatim>\<open>deletePointers\<close>, which only the destructor calls: the engine is gone afterwards, what
  remains is the backend.
\<close>

definition deletePointers :: "engine \<Rightarrow> vtkWorld outcome" where
  "deletePointers st =
     (let rep = fst st;
          w1 = foldl (\<lambda>w a. Delete a w) (snd st) (concat (map aList (bodies rep)));
          w2 = foldl (\<lambda>w info. Delete (actor info) w) w1 (dynamicGeom rep)
      in andThen (forEach (deleteEphemeral rep) (ephemeralActors rep) w2)
           (\<lambda>w3.
              let w4 = (if renderer rep then w3\<lparr>rendererDeletes := Suc (rendererDeletes w3)\<rparr> else w3);
                  w5 = (if renWin rep then w4\<lparr>renWinDeletes := Suc (renWinDeletes w4)\<rparr> else w4)
              in Ok w5))"

section \<open>Construction\<close>

text \<open>
  The constructor. The window, the interactor, the camera and the lights it sets up are
  the backend's own; of the backend the model keeps the scene and the counters. The
  first loop gives each body its default colour and grows the scales to the joint
  frames; the second generates the default geometry, unless the scale is \<open>0\<close>.
\<close>

definition colorAndScaleStep :: "'s MultibodySystem \<Rightarrow> nat \<Rightarrow> engine \<Rightarrow> engine outcome" where
  "colorAndScaleStep mbs i st =
     (let parent = getParentMobilizedBodyId mbs (int i)
      in andThen
           (onRep (setDefaultBodyColor (int i)
                     (if parent = 0 then DefaultBaseBodyColor else DefaultBodyColor)) st)
           (\<lambda>st1.
              let rep1 = fst st1;
                  M = getDefaultOutboardFrame mbs (int i);
                  rep2 = (if Vec3_norm (T M) > scale (bodies rep1 ! i)
                          then rep1\<lparr>bodies := (bodies rep1)
                                 [i := (bodies rep1 ! i)\<lparr>scale := Vec3_norm (T M)\<rparr>]\<rparr>
                          else rep1);
                  Mb = getDefaultInboardFrame mbs (int i)
              in if \<not> inRange rep2 parent then Undefined
                 else Ok (if Vec3_norm (T Mb) > scale (bodies rep2 ! nat parent)
                          then rep2\<lparr>bodies := (bodies rep2)
                                 [nat parent := (bodies rep2 ! nat parent)\<lparr>scale := Vec3_norm (T Mb)\<rparr>]\<rparr>
                          else rep2, snd st1)))"

definition jointFramesStep :: "'s MultibodySystem \<Rightarrow> nat \<Rightarrow> real \<Rightarrow> engine \<Rightarrow> engine outcome" where
  "jointFramesStep mbs i sc st =
     (let parent = getParentMobilizedBodyId mbs (int i)
      in if \<not> inRange (fst st) parent then Undefined
         else
           let pscale = scale (bodies (fst st) ! nat parent);
               M = getDefaultOutboardFrame mbs (int i)
           in andThen
                (if T M \<noteq> Vec3_zero \<or> R M \<noteq> Mat33_one
                 then andThen (addDecoration (int i) M (DecorativeFrame (sc * 0.25)) st)
                        (\<lambda>st1. if T M \<noteq> Vec3_zero
                           then addDecoration (int i) Transform_identity
                                  (DecorativeLine Vec3_zero (T M)) st1
                           else Ok st1)
                 else Ok st)
                (\<lambda>st2.
                   let Mb = getDefaultInboardFrame mbs (int i)
                   in case getDefaultBodyColor (fst st2) (int i) of
                        Ok c \<Rightarrow>
                          andThen
                            (addDecoration parent Mb ((DecorativeFrame (pscale * 0.25))\<lparr>colorRGB := c\<rparr>) st2)
                            (\<lambda>st3. if T Mb \<noteq> Vec3_zero
                               then addDecoration parent Transform_identity
                                      (DecorativeLine Vec3_zero (T Mb)) st3
                               else Ok st3)
                      | _ \<Rightarrow> Undefined))"

definition defaultGeometryStep :: "'s MultibodySystem \<Rightarrow> nat \<Rightarrow> engine \<Rightarrow> engine outcome" where
  "defaultGeometryStep mbs i st =
     (if \<not> inRange (fst st) (int i) then Undefined
      else
        let sc = scale (bodies (fst st) ! i);
            axes = (DecorativeFrame (sc * 0.5))\<lparr>lineThickness := 2\<rparr>
        in andThen (addDecoration (int i) Transform_identity axes st)
          (\<lambda>st1. andThen (if i > 0 then jointFramesStep mbs i sc st1 else Ok st1)
          (\<lambda>st2.
             let com = (DecorativeSphere (sc * 0.05))\<lparr>colorRGB := Purple, representation := DrawPoints\<rparr>;
                 comPos_B = getMassCenter mbs (int i)
             in andThen (addDecoration (int i) (Transform_of_Vec3 comPos_B) com st2)
                  (\<lambda>st3. if comPos_B \<noteq> Vec3_zero
                     then addDecoration (int i) Transform_identity
                            (DecorativeLine Vec3_zero comPos_B) st3
                     else Ok st3))))"

definition VTKReporterRep_new :: "'s MultibodySystem \<Rightarrow> real \<Rightarrow> nat \<Rightarrow> engine outcome" where
  "VTKReporterRep_new mbs bodyScaleDefault reporter =
     (let rep0 = \<lparr>myHandle = None, cameraNeedsToBeReset = True,
                  defaultBodyScaleForAutoGeometry = bodyScaleDefault, bodies = [],
                  dynamicGeom = [], ephemeralGeometry = [], ephemeralActors = [],
                  renWin = False, renderer = False\<rparr>
      in if \<not> systemTopologyHasBeenRealized mbs then Raised Cant (rep0, newWorld)
         else
           let n = getNBodies mbs;
               rep1 = rep0\<lparr>myHandle := Some reporter, renWin := True, renderer := True,
                        bodies := replicate n (newPerBodyInfo\<lparr>scale := bodyScaleDefault\<rparr>)\<rparr>
           in andThen (onRep (setDefaultBodyColor 0 DefaultGroundBodyColor) (rep1, newWorld))
             (\<lambda>st2. andThen (forEach (colorAndScaleStep mbs) [1..<n] st2)
             (\<lambda>st3. andThen
                      (if defaultBodyScaleForAutoGeometry (fst st3) \<noteq> 0
                       then forEach (defaultGeometryStep mbs) [0..<n] st3 else Ok st3)
             (\<lambda>st4. andThen
                      (forEach (\<lambda>g. addDecoration (bodyId g) Transform_identity g)
                         (calcDecorativeGeometry mbs (defaultState mbs) Topology) st4)
             (\<lambda>st5. Ok (fst st5, Render (ResetCamera (snd st5))))))))"

section \<open>Notions of the proofs\<close>

text \<open>
  What follows is not code of the engine: the invariant of a live engine, and the
  functions and relations in which the lemmas describe what a loop has done.
  \<open>ownedActors\<close> are the proxies the engine holds; \<open>wellFormed\<close> says that they are
  distinct, live and unreleased, that every other proxy of the backend has been released
  once, and that the ground's proxies rest in the pose they were created in.
  \<open>posed\<close> is what \<open>setConfiguration\<close> does to one proxy, \<open>tracked\<close> what a cycle does
  to one rubber-band entry, \<open>placed\<close> and \<open>ephemeralProxy\<close> what the display pass makes of
  one pending item, \<open>released\<close> one \<^verbatim>\<open>Delete()\<close>. \<open>reported\<close> relates the engine and
  the backend before a cycle to what they are after it.
\<close>

text \<open>
  The proxy that the property block and the mapper set-up leave behind, from the colour
  as resolved, the descriptor and the mapper: a notion of the proofs below.
\<close>

definition styledActor :: "Vec3 \<Rightarrow> DecorativeGeometry \<Rightarrow> vtkMapper \<Rightarrow> vtkActor" where
  "styledActor color dgeom m =
     newActor\<lparr>propColor := color,
       propOpacity := (if opacity dgeom \<noteq> -1 then opacity dgeom else 1),
       propLineWidth := (if lineThickness dgeom \<noteq> -1 then lineThickness dgeom else 1),
       propRepresentation :=
         (case representation dgeom of
            DrawPoints \<Rightarrow> VTK_POINTS | DrawWireframe \<Rightarrow> VTK_WIREFRAME
          | DrawSurface \<Rightarrow> VTK_SURFACE | DrawDefault \<Rightarrow> VTK_SURFACE),
       mapper := m\<rparr>"


fun pointees :: "nat option list \<Rightarrow> nat list" where
  "pointees [] = []"
| "pointees (None # ps) = pointees ps"
| "pointees (Some a # ps) = a # pointees ps"

definition persistentActors :: "VTKReporterRep \<Rightarrow> nat list" where
  "persistentActors rep = concat (map aList (bodies rep))"

definition ownedActors :: "VTKReporterRep \<Rightarrow> nat list" where
  "ownedActors rep =
     persistentActors rep @ map actor (dynamicGeom rep) @ pointees (ephemeralActors rep)"

definition wellFormed :: "'s MultibodySystem \<Rightarrow> engine \<Rightarrow> bool" where
  "wellFormed mbs st \<longleftrightarrow>
     renderer (fst st) \<and> 0 < getNBodies mbs \<and> length (bodies (fst st)) = getNBodies mbs \<and>
     None \<notin> set (ephemeralActors (fst st)) \<and>
     distinct (ownedActors (fst st)) \<and>
     (\<forall>a \<in> set (ownedActors (fst st)).
        a < length (actors (snd st)) \<and> deleteCalls (actors (snd st) ! a) = 0) \<and>
     (\<forall>a < length (actors (snd st)).
        a \<notin> set (ownedActors (fst st)) \<longrightarrow> deleteCalls (actors (snd st) ! a) = 1) \<and>
     (\<forall>a \<in> set (sceneActors (snd st)). a < length (actors (snd st))) \<and>
     (\<forall>info \<in> set (dynamicGeom (fst st)). getMapper (actor info) (snd st) \<noteq> NoMapper) \<and>
     (\<forall>a \<in> set (aList (bodies (fst st) ! 0)).
        position (actors (snd st) ! a) = (0, 0, 0) \<and> orientation (actors (snd st) ! a) = [])"

definition posed :: "'s MultibodySystem \<Rightarrow> Transform \<Rightarrow> vtkActor \<Rightarrow> vtkActor" where
  "posed mbs X_GB x =
     (let (av0, av1, av2, av3) = convertToAngleAxis mbs (R X_GB)
      in x\<lparr>position := T X_GB, orientation := [(av0 * RadiansToDegrees, av1, av2, av3)]\<rparr>)"

definition tracked :: "'s MultibodySystem \<Rightarrow> 's \<Rightarrow> PerDynamicGeomInfo \<Rightarrow> PerDynamicGeomInfo" where
  "tracked mbs s info =
     info\<lparr>line := setEndpoints
       (Transform_apply (getBodyTransform mbs s (body1 info)) (station1 info))
       (Transform_apply (getBodyTransform mbs s (body2 info)) (station2 info)) (line info)\<rparr>"

definition validBodyId :: "'s MultibodySystem \<Rightarrow> int \<Rightarrow> bool" where
  "validBodyId mbs b \<longleftrightarrow> 0 \<le> b \<and> b < int (getNBodies mbs)"

definition sameButActors :: "vtkWorld \<Rightarrow> vtkWorld \<Rightarrow> bool" where
  "sameButActors w w' \<longleftrightarrow>
     sceneActors w' = sceneActors w \<and> cameraResets w' = cameraResets w \<and> renders w' = renders w \<and>
     rendererDeletes w' = rendererDeletes w \<and> renWinDeletes w' = renWinDeletes w"

definition posedWorld ::
  "'s MultibodySystem \<Rightarrow> 's \<Rightarrow> VTKReporterRep \<Rightarrow> nat \<Rightarrow> vtkWorld \<Rightarrow> vtkWorld \<Rightarrow> bool" where
  "posedWorld mbs s rep i w w1 \<longleftrightarrow>
     sameButActors w w1 \<and> length (actors w1) = length (actors w) \<and>
     (\<forall>j a. 1 \<le> j \<and> j < i \<and> a \<in> set (aList (bodies rep ! j)) \<longrightarrow>
        actors w1 ! a = posed mbs (getBodyTransform mbs s (int j)) (actors w ! a)) \<and>
     (\<forall>a. (\<forall>j. 1 \<le> j \<and> j < i \<longrightarrow> a \<notin> set (aList (bodies rep ! j))) \<longrightarrow>
        actors w1 ! a = actors w ! a)"

definition trackedWorld ::
  "'s MultibodySystem \<Rightarrow> 's \<Rightarrow> PerDynamicGeomInfo list \<Rightarrow> nat \<Rightarrow> vtkWorld \<Rightarrow> vtkWorld \<Rightarrow> bool" where
  "trackedWorld mbs s dg i w w2 \<longleftrightarrow>
     sameButActors w w2 \<and> length (actors w2) = length (actors w) \<and>
     (\<forall>j<i. actors w2 ! actor (dg ! j) =
        (actors w ! actor (dg ! j))\<lparr>mapper := Mapper (Some (PolyData (line (tracked mbs s (dg ! j)))))\<rparr>) \<and>
     (\<forall>a. a \<notin> actor ` set (take i dg) \<longrightarrow> actors w2 ! a = actors w ! a)"

definition validLines :: "'s MultibodySystem \<Rightarrow> PerDynamicGeomInfo list \<Rightarrow> bool" where
  "validLines mbs dg \<longleftrightarrow>
     (\<forall>info \<in> set dg. validBodyId mbs (body1 info) \<and> validBodyId mbs (body2 info))"

definition released :: "vtkActor \<Rightarrow> vtkActor" where
  "released x = x\<lparr>deleteCalls := Suc (deleteCalls x)\<rparr>"

definition releaseAll :: "nat list \<Rightarrow> vtkWorld \<Rightarrow> vtkWorld" where
  "releaseAll as w = foldl (\<lambda>w a. Delete a (RemoveActor a w)) w as"

definition placed :: "'s MultibodySystem \<Rightarrow> 's \<Rightarrow> DecorativeGeometry \<Rightarrow> DecorativeGeometry" where
  "placed mbs s d =
     d\<lparr>transform := Transform_times (getBodyTransform mbs s (bodyId d)) (transform d)\<rparr>"

definition ephemeralProxy ::
  "'s MultibodySystem \<Rightarrow> 's \<Rightarrow> VTKReporterRep \<Rightarrow> DecorativeGeometry \<Rightarrow> vtkActor" where
  "ephemeralProxy mbs s rep d =
     styledActor
       (if fst (colorRGB d) \<noteq> -1 then colorRGB d else defaultColorRGB (bodies rep ! nat (bodyId d)))
       d (Mapper (Some (PolyData (placed mbs s d))))"

definition validItems :: "'s MultibodySystem \<Rightarrow> DecorativeGeometry list \<Rightarrow> bool" where
  "validItems mbs q \<longleftrightarrow> (\<forall>d \<in> set q. validBodyId mbs (bodyId d))"

definition sameCounters :: "vtkWorld \<Rightarrow> vtkWorld \<Rightarrow> bool" where
  "sameCounters w w' \<longleftrightarrow>
     cameraResets w' = cameraResets w \<and> renders w' = renders w \<and>
     rendererDeletes w' = rendererDeletes w \<and> renWinDeletes w' = renWinDeletes w"

definition minedGeometry :: "'s MultibodySystem \<Rightarrow> 's \<Rightarrow> DecorativeGeometry list" where
  "minedGeometry mbs s =
     concat (map (calcDecorativeGeometry mbs s) (stagesToMine (getSystemStage mbs s)))"

definition reported ::
  "'s MultibodySystem \<Rightarrow> MSG list \<Rightarrow> 's \<Rightarrow> VTKReporterRep \<Rightarrow> vtkWorld \<Rightarrow> VTKReporterRep \<Rightarrow> vtkWorld \<Rightarrow> bool" where
  "reported mbs msgs s rep w rep' w' \<longleftrightarrow>
     (\<exists>w1 w2.
        posedWorld mbs s rep (getNBodies mbs) w w1 \<and>
        trackedWorld mbs s (dynamicGeom rep) (length (dynamicGeom rep)) w1 w2 \<and>
        rep' = rep\<lparr>dynamicGeom := map (tracked mbs s) (dynamicGeom rep),
                   ephemeralGeometry := [],
                   ephemeralActors := map Some
                     [length (actors w)..<
                      length (actors w) + length (ephemeralGeometry rep @ minedGeometry mbs s)],
                   cameraNeedsToBeReset := False,
                   renWin := WM_QUIT \<notin> set msgs\<rparr> \<and>
        actors w' = actors (releaseAll (pointees (ephemeralActors rep)) w2) @
          map (ephemeralProxy mbs s rep) (ephemeralGeometry rep @ minedGeometry mbs s) \<and>
        sceneActors w' =
          filter (\<lambda>b. b \<notin> set (pointees (ephemeralActors rep))) (sceneActors w) @
          [length (actors w)..<
           length (actors w) + length (ephemeralGeometry rep @ minedGeometry mbs s)] \<and>
        cameraResets w' =
          (if cameraNeedsToBeReset rep then Suc (cameraResets w) else cameraResets w) \<and>
        renders w' = Suc (renders w) \<and> rendererDeletes w' = rendererDeletes w \<and>
        renWinDeletes w' = (if WM_QUIT \<in> set msgs then Suc (renWinDeletes w) else renWinDeletes w))"

text \<open>
  The engines a program can hold: built by the constructor and driven through the
  interface, each call returning normally. A copy of an engine is not among them; it is
  taken up with the teardown.
\<close>

inductive reachable :: "'s MultibodySystem \<Rightarrow> engine \<Rightarrow> bool" for mbs :: "'s MultibodySystem" where
  constructed: "VTKReporterRep_new mbs bodyScaleDefault reporter = Ok st \<Longrightarrow> reachable mbs st"
| decorated: "reachable mbs st \<Longrightarrow> addDecoration body X_GD g st = Ok st' \<Longrightarrow> reachable mbs st'"
| banded: "reachable mbs st \<Longrightarrow> addRubberBandLine b1 p1 b2 p2 g st = Ok st' \<Longrightarrow> reachable mbs st'"
| queued: "reachable mbs (rep, w) \<Longrightarrow> reachable mbs (addEphemeralDecoration g rep, w)"
| coloured: "reachable mbs (rep, w) \<Longrightarrow> setDefaultBodyColor b rgb rep = Ok rep' \<Longrightarrow>
             reachable mbs (rep', w)"
| scaled: "reachable mbs (rep, w) \<Longrightarrow> setBodyScale b sc rep = Ok rep' \<Longrightarrow> reachable mbs (rep', w)"
| reframed: "reachable mbs (rep, w) \<Longrightarrow> reachable mbs (resetCamera rep, w)"
| plain: "reachable mbs (rep, w) \<Longrightarrow> reachable mbs (disableDefaultGeometry rep, w)"
| cycled: "reachable mbs st \<Longrightarrow> report mbs msgs s st = Ok st' \<Longrightarrow> reachable mbs st'"

text \<open>
  What an orientation is as a rotation. \<open>rotationAbout \<theta> axis\<close> is the matrix of the
  rotation by the angle \<open>\<theta>\<close>, in radians, about the axis, which is normalised first; about
  the null axis nothing turns. \<open>orientationMatrix\<close> is what the rotations of an orientation
  leave of a proxy that has been reset, each taken as \<^verbatim>\<open>RotateWXYZ\<close> takes it: its angle is
  in degrees. \<open>angleAxisOf convert m\<close> is the contract of \<^verbatim>\<open>convertToAngleAxis\<close> at the
  rotation \<open>m\<close>: the angle, in radians, and the axis that it returns give \<open>m\<close> back.
\<close>

definition rotationAbout :: "real \<Rightarrow> Vec3 \<Rightarrow> Mat33" where
  "rotationAbout \<theta> axis =
     (let n = Vec3_norm axis
      in if n = 0 then Mat33_one
         else
           (case axis of
              (x0, y0, z0) \<Rightarrow>
                let x = x0 / n; y = y0 / n; z = z0 / n;
                    c = cos \<theta>; s = sin \<theta>; t = 1 - c
                in ((t * x * x + c, t * x * y - s * z, t * x * z + s * y),
                    (t * x * y + s * z, t * y * y + c, t * y * z - s * x),
                    (t * x * z - s * y, t * y * z + s * x, t * z * z + c))))"

fun orientationMatrix :: "Vec4 list \<Rightarrow> Mat33" where
  "orientationMatrix [] = Mat33_one"
| "orientationMatrix ((w, x, y, z) # rest) =
     Mat33_times (orientationMatrix rest) (rotationAbout (w * pi / 180) (x, y, z))"

definition angleAxisOf :: "(Mat33 \<Rightarrow> Vec4) \<Rightarrow> Mat33 \<Rightarrow> bool" where
  "angleAxisOf convert m \<longleftrightarrow>
     (case convert m of (\<theta>, x, y, z) \<Rightarrow> rotationAbout \<theta> (x, y, z) = m)"

text \<open>
  \<open>resolved fallback d x\<close>: the style of the proxy \<open>x\<close> is the style of the descriptor \<open>d\<close>
  where \<open>d\<close> sets it, and else the colour \<open>fallback\<close>, opacity 1, line width 1 and the
  surface representation.
\<close>

definition resolved :: "Vec3 \<Rightarrow> DecorativeGeometry \<Rightarrow> vtkActor \<Rightarrow> bool" where
  "resolved fallback d x \<longleftrightarrow>
     propColor x = (if fst (colorRGB d) \<noteq> -1 then colorRGB d else fallback) \<and>
     propOpacity x = (if opacity d \<noteq> -1 then opacity d else 1) \<and>
     propLineWidth x = (if lineThickness d \<noteq> -1 then lineThickness d else 1) \<and>
     propRepresentation x =
       (case representation d of
          DrawPoints \<Rightarrow> VTK_POINTS | DrawWireframe \<Rightarrow> VTK_WIREFRAME
        | DrawSurface \<Rightarrow> VTK_SURFACE | DrawDefault \<Rightarrow> VTK_SURFACE)"

text \<open>
  \<open>mapOutcome f\<close> applies \<open>f\<close> to the state that an outcome carries; \<open>enqueued q\<close> is the
  engine with the items \<open>q\<close> behind its pending queue.
\<close>

fun mapOutcome :: "('a \<Rightarrow> 'a) \<Rightarrow> 'a outcome \<Rightarrow> 'a outcome" where
  "mapOutcome f (Ok st) = Ok (f st)"
| "mapOutcome f (Raised e st) = Raised e (f st)"
| "mapOutcome f Undefined = Undefined"

definition enqueued :: "DecorativeGeometry list \<Rightarrow> engine \<Rightarrow> engine" where
  "enqueued q st = ((fst st)\<lparr>ephemeralGeometry := ephemeralGeometry (fst st) @ q\<rparr>, snd st)"

text \<open>\<open>raises m e\<close>: the call left by the exception \<open>e\<close>.\<close>

fun raises :: "'a outcome \<Rightarrow> error \<Rightarrow> bool" where
  "raises (Raised e' st) e = (e' = e)"
| "raises (Ok st) e = False"
| "raises Undefined e = False"

fun resultOf :: "'a outcome \<Rightarrow> 'a option" where
  "resultOf (Ok st) = Some st"
| "resultOf (Raised e st) = None"
| "resultOf Undefined = None"

section \<open>An example system\<close>

text \<open>
  Ground and two bodies hanging off it; a state is a frame number. Body 1 moves along
  \<open>x\<close> with the frame, body 2 rests at \<open>(0, 2, 0)\<close>. The system contributes a frame on
  the ground at the topology stage and, in frame \<open>0\<close> only, a sphere on body 1 at the
  position stage.
\<close>

definition exampleSystem :: "nat MultibodySystem" where
  "exampleSystem =
     \<lparr>systemTopologyHasBeenRealized = True,
      getNBodies = 3,
      getParentMobilizedBodyId = (\<lambda>b. 0),
      getDefaultOutboardFrame = (\<lambda>b. Transform_identity),
      getDefaultInboardFrame = (\<lambda>b. Transform_identity),
      getMassCenter = (\<lambda>b. Vec3_zero),
      defaultState = 0,
      realize = (\<lambda>s stage. s),
      getSystemStage = (\<lambda>s. Position),
      getBodyTransform =
        (\<lambda>s b. if b = 1 then Transform_of_Vec3 (real s, 0, 0)
               else if b = 2 then Transform_of_Vec3 (0, 2, 0) else Transform_identity),
      calcDecorativeGeometry =
        (\<lambda>s stage. if stage = Topology then [DecorativeFrame 1]
                   else if stage = Position \<and> s = 0 then [(DecorativeSphere 1)\<lparr>bodyId := 1\<rparr>]
                   else []),
      convertToAngleAxis = (\<lambda>m. (0, 1, 0, 0))\<rparr>"

text \<open>The engine the constructor builds for the example system, default geometry off.\<close>

definition exampleEngine :: engine where
  "exampleEngine =
     (\<lparr>myHandle = Some 1, cameraNeedsToBeReset = True, defaultBodyScaleForAutoGeometry = 0,
       bodies =
         [\<lparr>aList = [0], gList = [DecorativeFrame 1], defaultColorRGB = Green, scale = 0\<rparr>,
          \<lparr>aList = [], gList = [], defaultColorRGB = Red, scale = 0\<rparr>,
          \<lparr>aList = [], gList = [], defaultColorRGB = Red, scale = 0\<rparr>],
       dynamicGeom = [], ephemeralGeometry = [], ephemeralActors = [],
       renWin = True, renderer = True\<rparr>,
      \<lparr>actors = [styledActor Green (DecorativeFrame 1) (Mapper (Some (PolyData (DecorativeFrame 1))))],
       sceneActors = [0], cameraResets = 1, renders = 1, rendererDeletes = 0,
       renWinDeletes = 0\<rparr>)"

text \<open>The same engine after a cycle in which the window was closed.\<close>

definition closedEngine :: engine where
  "closedEngine =
     ((fst exampleEngine)\<lparr>cameraNeedsToBeReset := False, renWin := False,
         ephemeralActors := [Some 1]\<rparr>,
      (snd exampleEngine)\<lparr>actors := actors (snd exampleEngine) @
         [styledActor Red ((DecorativeSphere 1)\<lparr>bodyId := 1\<rparr>)
            (Mapper (Some (PolyData ((DecorativeSphere 1)\<lparr>bodyId := 1\<rparr>))))],
         sceneActors := [0, 1], cameraResets := 2, renders := 2, renWinDeletes := 1\<rparr>)"

text \<open>
  A scene on the example engine, step by step; \<open>orElse\<close> takes the engine out of the
  outcome of a call that returned. A unit sphere is attached to body 1, one unit up its
  \<open>z\<close> axis, and a line with no colour of its own is spanned between the origins of
  bodies 1 and 2. Then frame \<open>0\<close> is reported, then frame \<open>3\<close>.
\<close>

fun orElse :: "'a outcome \<Rightarrow> 'a \<Rightarrow> 'a" where
  "orElse (Ok st) d = st"
| "orElse (Raised e st) d = d"
| "orElse Undefined d = d"

definition decoratedEngine :: engine where
  "decoratedEngine =
     orElse (addDecoration 1 (Transform_of_Vec3 (0, 0, 1)) (DecorativeSphere 1) exampleEngine)
       exampleEngine"

definition bandedEngine :: engine where
  "bandedEngine =
     orElse (addRubberBandLine 1 (0, 0, 0) 2 (0, 0, 0) (DecorativeLine Vec3_zero Vec3_zero)
               decoratedEngine)
       decoratedEngine"

definition reportedEngine :: engine where
  "reportedEngine = orElse (report exampleSystem [] 0 bandedEngine) bandedEngine"

definition reportedAgain :: engine where
  "reportedAgain = orElse (report exampleSystem [] 3 reportedEngine) reportedEngine"

text \<open>
  The example engine with a sphere on the ground, whose default colour is green: one
  with no colour of its own, one that is red.
\<close>

definition greenEngine :: engine where
  "greenEngine =
     orElse (addDecoration 0 Transform_identity (DecorativeSphere 1) exampleEngine) exampleEngine"

definition redEngine :: engine where
  "redEngine =
     orElse (addDecoration 0 Transform_identity ((DecorativeSphere 1)\<lparr>colorRGB := (1, 0, 0)\<rparr>)
               exampleEngine)
       exampleEngine"

text \<open>Frame \<open>3\<close> again, but with a sphere of radius 2 queued on the ground before.\<close>

definition queuedAgain :: engine where
  "queuedAgain =
     orElse (report exampleSystem [] 3
               (addEphemeralDecoration (DecorativeSphere 2) (fst reportedEngine), snd reportedEngine))
       reportedEngine"

text \<open>
  The example system again, but body 1 is turned a quarter about \<open>z\<close> while it moves, and
  the conversion knows the quarter turn; and the engine with the sphere alone after a
  report of frame \<open>3\<close> of this system.
\<close>

definition quarterTurn :: Mat33 where
  "quarterTurn = ((0, -1, 0), (1, 0, 0), (0, 0, 1))"

definition turningSystem :: "nat MultibodySystem" where
  "turningSystem =
     exampleSystem
       \<lparr>getBodyTransform :=
          (\<lambda>s b. if b = 1 then \<lparr>R = quarterTurn, T = (real s, 0, 0)\<rparr>
                 else if b = 2 then Transform_of_Vec3 (0, 2, 0) else Transform_identity),
        convertToAngleAxis := (\<lambda>m. if m = quarterTurn then (pi / 2, 0, 0, 1) else (0, 1, 0, 0))\<rparr>"

definition turnedEngine :: engine where
  "turnedEngine = orElse (report turningSystem [] 3 decoratedEngine) decoratedEngine"

text \<open>The engine with a sphere on the ground after the same report.\<close>

definition groundedEngine :: engine where
  "groundedEngine = orElse (report turningSystem [] 3 greenEngine) greenEngine"

text \<open>
  The same sphere, but the line runs from body 1 to a body 7 that the system does not
  have; and what a report of frame \<open>3\<close> leaves of that engine: the sphere has moved.
\<close>

definition strayEngine :: engine where
  "strayEngine =
     orElse (addRubberBandLine 1 (0, 0, 0) 7 (0, 0, 0) (DecorativeLine Vec3_zero Vec3_zero)
               decoratedEngine)
       decoratedEngine"

definition strayMoved :: engine where
  "strayMoved =
     (fst strayEngine,
      (snd strayEngine)\<lparr>actors := (actors (snd strayEngine))
         [1 := (actors (snd strayEngine) ! 1)\<lparr>position := (3, 0, 0), orientation := [(0, 1, 0, 0)]\<rparr>]\<rparr>)"

text \<open>
  The example engine with two spheres queued, the first on a body 7 that the system does
  not have, and what a report of frame \<open>1\<close> leaves of it; \<open>orRaised\<close> takes the engine out
  of the outcome of a call that an exception has left.
\<close>

fun orRaised :: "'a outcome \<Rightarrow> 'a \<Rightarrow> 'a" where
  "orRaised (Raised e st) d = st"
| "orRaised (Ok st) d = d"
| "orRaised Undefined d = d"

definition jamEngine :: engine where
  "jamEngine =
     (addEphemeralDecoration ((DecorativeSphere 1)\<lparr>bodyId := 2\<rparr>)
        (addEphemeralDecoration ((DecorativeSphere 1)\<lparr>bodyId := 7\<rparr>) (fst exampleEngine)),
      snd exampleEngine)"

definition jammedEngine :: engine where
  "jammedEngine = orRaised (report exampleSystem [] 1 jamEngine) jamEngine"

text \<open>The example engine after a report of frame \<open>1\<close>, in which the system's only
  contribution is the frame of the topology stage.\<close>

definition idleEngine :: engine where
  "idleEngine = orElse (report exampleSystem [] 1 exampleEngine) exampleEngine"

text \<open>
  The backend after the example engine has been destroyed, and after a copy of it, taken
  while it was alive, has been destroyed as well.
\<close>

definition afterOriginal :: vtkWorld where
  "afterOriginal = orElse (deletePointers exampleEngine) (snd exampleEngine)"

definition afterCopy :: vtkWorld where
  "afterCopy =
     orElse (deletePointers (VTKReporter_copy 2 (fst exampleEngine), afterOriginal)) afterOriginal"

text \<open>
  The stages from the lowest one up to the current one, in the words of the design
  notes; the loop of \<open>report\<close> visits \<open>stagesToMine\<close>.
\<close>

definition stagesFromLowest :: "Stage \<Rightarrow> Stage list" where
  "stagesFromLowest current = filter (\<lambda>stage. stageLevel stage \<le> stageLevel current) allStages"

section \<open>Properties: the backend and the loops\<close>

lemma andThen_simps:
  "andThen (Ok st) f = f st"
  "andThen (Raised e st) f = Raised e st"
  "andThen Undefined f = Undefined"
  by (simp_all add: andThen_def)

lemma andThen_Ok_iff:
  "andThen m f = Ok st' \<longleftrightarrow> (\<exists>st1. m = Ok st1 \<and> f st1 = Ok st')"
  by (cases m) (simp_all add: andThen_def)

subsection \<open>Backend operations\<close>

lemmas setter_defs = SetPosition_def SetOrientation000_def RotateWXYZ_def SetColor_def SetOpacity_def
  SetLineWidth_def SetRepresentation_def SetMapper_def Delete_def

lemma updActor_fields [simp]:
  "actors (updActor a f w) = (actors w)[a := f (actors w ! a)]"
  "sceneActors (updActor a f w) = sceneActors w"
  "cameraResets (updActor a f w) = cameraResets w"
  "renders (updActor a f w) = renders w"
  "rendererDeletes (updActor a f w) = rendererDeletes w"
  "renWinDeletes (updActor a f w) = renWinDeletes w"
  by (simp_all add: updActor_def)

lemma updActor_fresh:
  "updActor (length (actors w)) f (w\<lparr>actors := actors w @ [x]\<rparr>) = w\<lparr>actors := actors w @ [f x]\<rparr>"
  by (simp add: updActor_def)

lemma updActor_twice:
  "updActor a f (updActor a g w) = updActor a (\<lambda>x. f (g x)) w"
  by (cases "a < length (actors w)") (simp_all add: updActor_def list_update_beyond)

lemma AddActor_fields [simp]:
  "actors (AddActor a w) = actors w"
  "cameraResets (AddActor a w) = cameraResets w"
  "renders (AddActor a w) = renders w"
  "rendererDeletes (AddActor a w) = rendererDeletes w"
  "renWinDeletes (AddActor a w) = renWinDeletes w"
  "set (sceneActors (AddActor a w)) = insert a (set (sceneActors w))"
  by (auto simp: AddActor_def)

lemma AddActor_new:
  "a \<notin> set (sceneActors w) \<Longrightarrow> AddActor a w = w\<lparr>sceneActors := sceneActors w @ [a]\<rparr>"
  by (simp add: AddActor_def)

lemma RemoveActor_fields [simp]:
  "actors (RemoveActor a w) = actors w"
  "cameraResets (RemoveActor a w) = cameraResets w"
  "renders (RemoveActor a w) = renders w"
  "rendererDeletes (RemoveActor a w) = rendererDeletes w"
  "renWinDeletes (RemoveActor a w) = renWinDeletes w"
  "sceneActors (RemoveActor a w) = removeAll a (sceneActors w)"
  by (simp_all add: RemoveActor_def)

lemma pointees_append [simp]: "pointees (ps @ qs) = pointees ps @ pointees qs"
  by (induction ps rule: pointees.induct) simp_all

lemma pointees_map_Some [simp]: "pointees (map Some xs) = xs"
  by (induction xs) simp_all

lemma pointees_replicate_None [simp]: "pointees (replicate n None) = []"
  by (induction n) simp_all

lemma set_pointees: "a \<in> set (pointees ps) \<longleftrightarrow> Some a \<in> set ps"
  by (induction ps rule: pointees.induct) auto

lemma pointees_all_Some: "None \<notin> set ps \<Longrightarrow> map Some (pointees ps) = ps"
  by (induction ps rule: pointees.induct) auto

subsection \<open>Updating a list of proxies\<close>

lemma foldl_updActor_other [simp]:
  "sceneActors (foldl (\<lambda>w a. updActor a (f a) w) w as) = sceneActors w"
  "cameraResets (foldl (\<lambda>w a. updActor a (f a) w) w as) = cameraResets w"
  "renders (foldl (\<lambda>w a. updActor a (f a) w) w as) = renders w"
  "rendererDeletes (foldl (\<lambda>w a. updActor a (f a) w) w as) = rendererDeletes w"
  "renWinDeletes (foldl (\<lambda>w a. updActor a (f a) w) w as) = renWinDeletes w"
  "length (actors (foldl (\<lambda>w a. updActor a (f a) w) w as)) = length (actors w)"
  by (induction as arbitrary: w; simp)+

lemma foldl_updActor_notin:
  "b \<notin> set as \<Longrightarrow> actors (foldl (\<lambda>w a. updActor a (f a) w) w as) ! b = actors w ! b"
  by (induction as arbitrary: w) auto

lemma foldl_updActor_in:
  "distinct as \<Longrightarrow> b \<in> set as \<Longrightarrow> b < length (actors w) \<Longrightarrow>
   actors (foldl (\<lambda>w a. updActor a (f a) w) w as) ! b = f b (actors w ! b)"
proof (induction as arbitrary: w)
  case Nil
  then show ?case by simp
next
  case (Cons a as)
  show ?case
  proof (cases "a = b")
    case True
    with Cons.prems show ?thesis by (simp add: foldl_updActor_notin)
  next
    case False
    with Cons.prems have "actors (foldl (\<lambda>w a. updActor a (f a) w) (updActor a (f a) w) as) ! b =
        f b (actors (updActor a (f a) w) ! b)"
      by (intro Cons.IH) simp_all
    with False show ?thesis by simp
  qed
qed

lemma foldl_updActor_frame:
  "(\<And>a x. g (f a x) = g x) \<Longrightarrow>
   g (actors (foldl (\<lambda>w a. updActor a (f a) w) w as) ! b) = g (actors w ! b)"
proof (induction as arbitrary: w)
  case Nil
  then show ?case by simp
next
  case (Cons a as)
  have "g (actors (updActor a (f a) w) ! b) = g (actors w ! b)"
    by (cases "a = b"; cases "a < length (actors w)") (simp_all add: Cons.prems list_update_beyond)
  with Cons show ?case by simp
qed

subsection \<open>The operations as equations\<close>

lemma inRange_bodies_update [simp]:
  "inRange (rep\<lparr>bodies := (bodies rep)[i := b]\<rparr>) body = inRange rep body"
  by (simp add: inRange_def)

lemma inRange_nat: "inRange rep body \<Longrightarrow> nat body < length (bodies rep)"
  by (auto simp: inRange_def)

lemma inRange_int [simp]: "inRange rep (int i) \<longleftrightarrow> i < length (bodies rep)"
  by (auto simp: inRange_def)

lemma applyProperties_fresh:
  "applyProperties (length (actors w)) color dgeom (rep, w\<lparr>actors := actors w @ [x]\<rparr>) =
     Ok (rep, w\<lparr>actors := actors w @
       [x\<lparr>propColor := color,
          propOpacity := (if opacity dgeom \<noteq> -1 then opacity dgeom else 1),
          propLineWidth := (if lineThickness dgeom \<noteq> -1 then lineThickness dgeom else 1),
          propRepresentation :=
            (case representation dgeom of
               DrawPoints \<Rightarrow> VTK_POINTS | DrawWireframe \<Rightarrow> VTK_WIREFRAME
             | DrawSurface \<Rightarrow> VTK_SURFACE | DrawDefault \<Rightarrow> VTK_SURFACE)\<rparr>]\<rparr>)"
  by (cases "representation dgeom")
     (simp_all add: applyProperties_def Let_def setter_defs updActor_fresh)

lemma addDecoration_Ok:
  assumes "inRange rep body" "renderer rep"
  shows "addDecoration body X_GD g (rep, w) =
     Ok (rep\<lparr>bodies := (bodies rep)
             [nat body := (bodies rep ! nat body)
                \<lparr>aList := aList (bodies rep ! nat body) @ [length (actors w)],
                 gList := gList (bodies rep ! nat body) @
                   [g\<lparr>transform := Transform_times X_GD (transform g)\<rparr>]\<rparr>],
           cameraNeedsToBeReset := True\<rparr>,
         AddActor (length (actors w))
           (w\<lparr>actors := actors w @
              [styledActor
                 (if fst (colorRGB g) \<noteq> -1 then colorRGB g else defaultColorRGB (bodies rep ! nat body))
                 g (Mapper (Some (PolyData (g\<lparr>transform := Transform_times X_GD (transform g)\<rparr>))))]\<rparr>))"
  using assms inRange_nat[OF assms(1)]
  by (simp add: addDecoration_def vtkActor_New_def Let_def getDefaultBodyColor_def
      applyProperties_fresh andThen_def styledActor_def implementGeometry_def SetMapper_def
      updActor_fresh)

lemma addDecoration_Undefined:
  "\<not> inRange rep body \<or> \<not> renderer rep \<Longrightarrow> addDecoration body X_GD g (rep, w) = Undefined"
  by (auto simp: addDecoration_def vtkActor_New_def Let_def getDefaultBodyColor_def
      applyProperties_fresh andThen_def)

lemma addRubberBandLine_Ok:
  assumes "renderer rep"
  shows "addRubberBandLine b1 st1 b2 st2 g (rep, w) =
     Ok (rep\<lparr>dynamicGeom := dynamicGeom rep @
             [\<lparr>actor = length (actors w), line = g, body1 = b1, body2 = b2,
               station1 = st1, station2 = st2\<rparr>],
           cameraNeedsToBeReset := True\<rparr>,
         AddActor (length (actors w))
           (w\<lparr>actors := actors w @
              [styledActor (if fst (colorRGB g) \<noteq> -1 then colorRGB g else Black) g (Mapper None)]\<rparr>))"
  using assms
  by (simp add: addRubberBandLine_def vtkActor_New_def Let_def
      applyProperties_fresh andThen_def styledActor_def SetMapper_def updActor_fresh)

lemma addRubberBandLine_Undefined:
  "\<not> renderer rep \<Longrightarrow> addRubberBandLine b1 st1 b2 st2 g (rep, w) = Undefined"
  by (simp add: addRubberBandLine_def vtkActor_New_def Let_def applyProperties_fresh andThen_def)

lemma inWithTheNew_Ok:
  assumes "getMobilizedBodyTransform mbs s (bodyId (ephemeralGeometry rep ! i)) = Some X_GB"
    and "inRange rep (bodyId (ephemeralGeometry rep ! i))" and "renderer rep"
    and "i < length (ephemeralGeometry rep)"
  shows "inWithTheNew mbs s i (rep, w) =
     (let d = ephemeralGeometry rep ! i;
          d' = d\<lparr>transform := Transform_times X_GB (transform d)\<rparr>
      in Ok (rep\<lparr>ephemeralActors := (ephemeralActors rep)[i := Some (length (actors w))],
                ephemeralGeometry := (ephemeralGeometry rep)[i := d']\<rparr>,
             AddActor (length (actors w))
               (w\<lparr>actors := actors w @
                  [styledActor
                     (if fst (colorRGB d) \<noteq> -1 then colorRGB d
                      else defaultColorRGB (bodies rep ! nat (bodyId d)))
                     d (Mapper (Some (PolyData d')))]\<rparr>)))"
  using assms
  by (simp add: inWithTheNew_def vtkActor_New_def Let_def getDefaultBodyColor_def inRange_def
      applyProperties_fresh andThen_def styledActor_def implementGeometry_def SetMapper_def
      updActor_fresh)

lemma inWithTheNew_Raised:
  assumes "getMobilizedBodyTransform mbs s (bodyId (ephemeralGeometry rep ! i)) = None"
  shows "inWithTheNew mbs s i (rep, w) =
     Raised RangeError
       (rep\<lparr>ephemeralActors := (ephemeralActors rep)[i := Some (length (actors w))]\<rparr>,
        w\<lparr>actors := actors w @ [newActor]\<rparr>)"
  using assms by (simp add: inWithTheNew_def vtkActor_New_def Let_def)

lemma outWithTheOld_Ok:
  "renderer rep \<Longrightarrow> ephemeralActors rep ! i = Some a \<Longrightarrow>
   outWithTheOld i (rep, w) = Ok (rep, Delete a (RemoveActor a w))"
  by (simp add: outWithTheOld_def)

lemma setConfiguration_Ok:
  "inRange rep bodyNum \<Longrightarrow>
   setConfiguration mbs bodyNum X_GB (rep, w) =
     Ok (rep, foldl (\<lambda>w a. updActor a (\<lambda>x. posed mbs X_GB x) w) w (aList (bodies rep ! nat bodyNum)))"
proof -
  have "(\<lambda>w a. let w1 = SetPosition a (T X_GB) w;
                   (av0, av1, av2, av3) = convertToAngleAxis mbs (R X_GB);
                   w2 = SetOrientation000 a w1
               in RotateWXYZ a (av0 * RadiansToDegrees, av1, av2, av3) w2) =
        (\<lambda>w a. updActor a (\<lambda>x. posed mbs X_GB x) w)"
    by (intro ext)
       (simp add: Let_def SetPosition_def SetOrientation000_def RotateWXYZ_def updActor_twice
          posed_def split: prod.splits)
  then show "inRange rep bodyNum \<Longrightarrow> ?thesis"
    by (simp add: setConfiguration_def)
qed

lemma getMobilizedBodyTransform_valid:
  "validBodyId mbs b \<Longrightarrow> getMobilizedBodyTransform mbs s b = Some (getBodyTransform mbs s b)"
  by (simp add: getMobilizedBodyTransform_def validBodyId_def)

lemma getMobilizedBodyTransform_invalid:
  "\<not> validBodyId mbs b \<Longrightarrow> getMobilizedBodyTransform mbs s b = None"
  by (auto simp: getMobilizedBodyTransform_def validBodyId_def)

lemma bodyStep_Ok:
  "i < getNBodies mbs \<Longrightarrow> i < length (bodies rep) \<Longrightarrow>
   bodyStep mbs s i (rep, w) =
     Ok (rep, foldl (\<lambda>w a. updActor a (\<lambda>x. posed mbs (getBodyTransform mbs s (int i)) x) w) w
               (aList (bodies rep ! i)))"
  by (simp add: bodyStep_def getMobilizedBodyTransform_def setConfiguration_Ok)

lemma rubberBandStep_Ok:
  assumes "validBodyId mbs (body1 (dynamicGeom rep ! i))" "validBodyId mbs (body2 (dynamicGeom rep ! i))"
    and "getMapper (actor (dynamicGeom rep ! i)) w \<noteq> NoMapper"
  shows "rubberBandStep mbs s i (rep, w) =
     Ok (rep\<lparr>dynamicGeom := (dynamicGeom rep)[i := tracked mbs s (dynamicGeom rep ! i)]\<rparr>,
         updActor (actor (dynamicGeom rep ! i))
           (\<lambda>x. x\<lparr>mapper := Mapper (Some (PolyData (line (tracked mbs s (dynamicGeom rep ! i)))))\<rparr>) w)"
  using assms
  by (cases "getMapper (actor (dynamicGeom rep ! i)) w")
     (simp_all add: rubberBandStep_def getMobilizedBodyTransform_valid setRubberBandLine_def Let_def
        tracked_def implementGeometry_def SetMapper_def)

lemma rubberBandStep_Raised:
  assumes "\<not> validBodyId mbs (body1 (dynamicGeom rep ! i)) \<or> \<not> validBodyId mbs (body2 (dynamicGeom rep ! i))"
  shows "rubberBandStep mbs s i (rep, w) = Raised RangeError (rep, w)"
  using assms
  by (auto simp: rubberBandStep_def getMobilizedBodyTransform_def validBodyId_def Let_def
      split: option.splits)

subsection \<open>Loops\<close>

lemma forEach_append:
  "forEach body (xs @ ys) st = andThen (forEach body xs st) (forEach body ys)"
  by (induction xs arbitrary: st) (auto simp: andThen_def split: outcome.splits)

lemma forEach_upt_rule:
  assumes init: "I k st" and le: "k \<le> n"
    and step: "\<And>i st. k \<le> i \<Longrightarrow> i < n \<Longrightarrow> I i st \<Longrightarrow>
      (case body i st of Ok st1 \<Rightarrow> I (Suc i) st1 | Raised e st1 \<Rightarrow> Q e st1 | Undefined \<Rightarrow> False)"
  shows "case forEach body [k..<n] st of Ok st' \<Rightarrow> I n st' | Raised e st' \<Rightarrow> Q e st' | Undefined \<Rightarrow> False"
proof -
  have "k \<le> j \<Longrightarrow> j \<le> n \<Longrightarrow> I j st \<Longrightarrow>
        (case forEach body [j..<n] st of Ok st' \<Rightarrow> I n st' | Raised e st' \<Rightarrow> Q e st' | Undefined \<Rightarrow> False)"
    for j st
  proof (induction "n - j" arbitrary: j st)
    case 0
    then show ?case by simp
  next
    case (Suc d)
    then have lt: "j < n" by simp
    have s: "case body j st of Ok st1 \<Rightarrow> I (Suc j) st1 | Raised e st1 \<Rightarrow> Q e st1 | Undefined \<Rightarrow> False"
      by (rule step) (use Suc.prems lt in simp_all)
    show ?case
    proof (cases "body j st")
      case (Ok st1)
      have d: "d = n - Suc j" using Suc.hyps(2) by simp
      have "case forEach body [Suc j..<n] st1 of Ok st' \<Rightarrow> I n st' | Raised e st' \<Rightarrow> Q e st'
            | Undefined \<Rightarrow> False"
        by (rule Suc.hyps(1)[OF d]) (use s Ok lt Suc.prems in simp_all)
      with Ok lt show ?thesis by (simp add: upt_rec[of j n])
    next
      case (Raised e st1)
      with s lt show ?thesis by (simp add: upt_rec[of j n])
    next
      case Undefined
      with s show ?thesis by simp
    qed
  qed
  from this[of k st] init le show ?thesis by simp
qed

lemma forEach_preserves:
  assumes "forEach body xs st = Ok st'" and "P st"
    and "\<And>i st st1. i \<in> set xs \<Longrightarrow> P st \<Longrightarrow> body i st = Ok st1 \<Longrightarrow> P st1"
  shows "P st'"
  using assms
proof (induction xs arbitrary: st)
  case Nil
  then show ?case by simp
next
  case (Cons x xs)
  from Cons.prems(1) obtain st1 where b: "body x st = Ok st1" and r: "forEach body xs st1 = Ok st'"
    by (auto split: outcome.splits)
  have "P st1" using Cons.prems(3)[of x st st1] Cons.prems(2) b by simp
  show ?case
  proof (rule Cons.IH[OF r \<open>P st1\<close>])
    fix i st2 st3
    assume "i \<in> set xs" "P st2" "body i st2 = Ok st3"
    then show "P st3" using Cons.prems(3)[of i st2 st3] by simp
  qed
qed

lemma distinct_concat_nth_disjoint:
  "distinct (concat xss) \<Longrightarrow> i < length xss \<Longrightarrow> j < length xss \<Longrightarrow> i \<noteq> j \<Longrightarrow>
   set (xss ! i) \<inter> set (xss ! j) = {}"
proof (induction xss arbitrary: i j)
  case Nil
  then show ?case by simp
next
  case (Cons xs xss)
  show ?case
  proof (cases i)
    case 0
    with Cons.prems obtain j' where j: "j = Suc j'" "j' < length xss" by (cases j) auto
    then have "set (xss ! j') \<subseteq> set (concat xss)" by (auto intro: nth_mem)
    with Cons.prems(1) 0 j show ?thesis by auto
  next
    case (Suc i')
    show ?thesis
    proof (cases j)
      case 0
      from Suc Cons.prems have "set (xss ! i') \<subseteq> set (concat xss)" by (auto intro: nth_mem)
      with Cons.prems(1) 0 Suc show ?thesis by auto
    next
      case (Suc j')
      with \<open>i = Suc i'\<close> Cons.prems Cons.IH[of i' j'] show ?thesis by simp
    qed
  qed
qed

lemma distinct_concat_nth:
  "distinct (concat xss) \<Longrightarrow> i < length xss \<Longrightarrow> distinct (xss ! i)"
  by (induction xss arbitrary: i) (auto simp: nth_Cons split: nat.splits)

lemma world_actors_only:
  "sceneActors w' = sceneActors w \<Longrightarrow> cameraResets w' = cameraResets w \<Longrightarrow> renders w' = renders w \<Longrightarrow>
   rendererDeletes w' = rendererDeletes w \<Longrightarrow> renWinDeletes w' = renWinDeletes w \<Longrightarrow>
   w' = (w::vtkWorld)\<lparr>actors := actors w'\<rparr>"
  by (cases w, cases w') simp

lemma foldl_updActor_actors_only:
  "foldl (\<lambda>w a. updActor a (f a) w) w as =
     w\<lparr>actors := actors (foldl (\<lambda>w a. updActor a (f a) w) w as)\<rparr>"
  by (rule world_actors_only) simp_all

subsection \<open>The transform updates\<close>

lemma persistent_nth_subset:
  "j < length (bodies rep) \<Longrightarrow> set (aList (bodies rep ! j)) \<subseteq> set (persistentActors rep)"
  by (auto simp: persistentActors_def intro!: bexI[of _ "bodies rep ! j"])

lemma bodyLoop:
  assumes len: "length (bodies rep) = getNBodies mbs" and pos: "0 < getNBodies mbs"
    and dist: "distinct (persistentActors rep)"
    and bound: "\<forall>a \<in> set (persistentActors rep). a < length (actors w)"
  shows "\<exists>w1. forEach (bodyStep mbs s) [1..<getNBodies mbs] (rep, w) = Ok (rep, w1) \<and>
               posedWorld mbs s rep (getNBodies mbs) w w1"
proof -
  let ?n = "getNBodies mbs"
  let ?I = "\<lambda>i st. fst st = rep \<and> posedWorld mbs s rep i w (snd st)"
  have "case forEach (bodyStep mbs s) [1..<?n] (rep, w) of
          Ok st' \<Rightarrow> ?I ?n st' | Raised e st' \<Rightarrow> False | Undefined \<Rightarrow> False"
  proof (rule forEach_upt_rule[where I = ?I])
    show "?I 1 (rep, w)" by (simp add: posedWorld_def sameButActors_def)
    show "1 \<le> ?n" using pos by simp
  next
    fix i st
    assume i: "1 \<le> i" "i < ?n" and I: "?I i st"
    obtain w' where st: "st = (rep, w')" using I by (cases st) auto
    from I st have pw: "posedWorld mbs s rep i w w'" by simp
    let ?as = "aList (bodies rep ! i)"
    let ?X = "getBodyTransform mbs s (int i)"
    let ?w'' = "foldl (\<lambda>w a. updActor a (\<lambda>x. posed mbs ?X x) w) w' ?as"
    have step: "bodyStep mbs s i st = Ok (rep, ?w'')"
      using i len st by (simp add: bodyStep_Ok)
    have das: "distinct ?as"
      using distinct_concat_nth[of "map aList (bodies rep)" i] dist i len
      by (simp add: persistentActors_def)
    have disj: "\<And>j. j < ?n \<Longrightarrow> j \<noteq> i \<Longrightarrow> set (aList (bodies rep ! j)) \<inter> set ?as = {}"
      using distinct_concat_nth_disjoint[of "map aList (bodies rep)" _ i] dist i len
      by (simp add: persistentActors_def)
    have bnd: "\<And>a. a \<in> set ?as \<Longrightarrow> a < length (actors w')"
      using bound persistent_nth_subset[of i rep] i len pw by (auto simp: posedWorld_def)
    have "posedWorld mbs s rep (Suc i) w ?w''"
      unfolding posedWorld_def
    proof (intro conjI allI impI)
      show "sameButActors w ?w''" using pw by (simp add: posedWorld_def sameButActors_def)
      show "length (actors ?w'') = length (actors w)" using pw by (simp add: posedWorld_def)
    next
      fix j a
      assume ja: "1 \<le> j \<and> j < Suc i \<and> a \<in> set (aList (bodies rep ! j))"
      show "actors ?w'' ! a = posed mbs (getBodyTransform mbs s (int j)) (actors w ! a)"
      proof (cases "j = i")
        case True
        have "\<forall>j. 1 \<le> j \<and> j < i \<longrightarrow> a \<notin> set (aList (bodies rep ! j))"
          using disj ja True i by (metis disjoint_iff less_trans nat_neq_iff)
        then have "actors w' ! a = actors w ! a" using pw by (simp add: posedWorld_def)
        moreover have "actors ?w'' ! a = posed mbs ?X (actors w' ! a)"
          using das ja True bnd by (simp add: foldl_updActor_in)
        ultimately show ?thesis using True by simp
      next
        case False
        with ja have lt: "j < i" by simp
        then have "a \<notin> set ?as" using disj[of j] ja i by auto
        then have "actors ?w'' ! a = actors w' ! a" by (simp add: foldl_updActor_notin)
        also have "\<dots> = posed mbs (getBodyTransform mbs s (int j)) (actors w ! a)"
          using pw ja lt by (simp add: posedWorld_def)
        finally show ?thesis .
      qed
    next
      fix a
      assume un: "\<forall>j. 1 \<le> j \<and> j < Suc i \<longrightarrow> a \<notin> set (aList (bodies rep ! j))"
      then have "a \<notin> set ?as" using i by simp
      then have "actors ?w'' ! a = actors w' ! a" by (simp add: foldl_updActor_notin)
      also have "\<dots> = actors w ! a" using pw un by (simp add: posedWorld_def)
      finally show "actors ?w'' ! a = actors w ! a" .
    qed
    with step show "case bodyStep mbs s i st of Ok st1 \<Rightarrow> ?I (Suc i) st1
        | Raised e st1 \<Rightarrow> False | Undefined \<Rightarrow> False"
      by simp
  qed
  then show ?thesis
    by (cases "forEach (bodyStep mbs s) [1..<?n] (rep, w)") auto
qed

subsection \<open>The rubber-band updates\<close>

lemma map_take_update:
  "i < length xs \<Longrightarrow>
   (map f (take i xs) @ drop i xs)[i := f (xs ! i)] = map f (take (Suc i) xs) @ drop (Suc i) xs"
  by (simp add: take_Suc_conv_app_nth list_update_append flip: Cons_nth_drop_Suc)

lemma nth_map_take_drop: "i < length xs \<Longrightarrow> (map f (take i xs) @ drop i xs) ! i = xs ! i"
  by (simp add: nth_append)

lemma distinct_map_nth_notin_take:
  assumes "distinct (map f xs)" "i < length xs"
  shows "f (xs ! i) \<notin> f ` set (take i xs)"
proof -
  have "map f xs = map f (take i xs) @ f (xs ! i) # map f (drop (Suc i) xs)"
    using id_take_nth_drop[OF assms(2)] by (metis list.simps(9) map_append)
  with assms(1) show ?thesis by (metis distinct_append distinct.simps(2) disjoint_iff list.set_intros(1) set_map)
qed

lemma rubberBandLoop:
  assumes dist: "distinct (map actor (dynamicGeom rep))"
    and bound: "\<forall>info \<in> set (dynamicGeom rep). actor info < length (actors w)"
    and mapper: "\<forall>info \<in> set (dynamicGeom rep). getMapper (actor info) w \<noteq> NoMapper"
  shows "case forEach (rubberBandStep mbs s) [0..<length (dynamicGeom rep)] (rep, w) of
      Ok st' \<Rightarrow> validLines mbs (dynamicGeom rep) \<and>
        fst st' = rep\<lparr>dynamicGeom := map (tracked mbs s) (dynamicGeom rep)\<rparr> \<and>
        trackedWorld mbs s (dynamicGeom rep) (length (dynamicGeom rep)) w (snd st')
    | Raised e st' \<Rightarrow> e = RangeError \<and> \<not> validLines mbs (dynamicGeom rep) \<and>
        (\<exists>i < length (dynamicGeom rep).
           fst st' = rep\<lparr>dynamicGeom := map (tracked mbs s) (take i (dynamicGeom rep)) @
                                          drop i (dynamicGeom rep)\<rparr> \<and>
           trackedWorld mbs s (dynamicGeom rep) i w (snd st'))
    | Undefined \<Rightarrow> False"
proof -
  let ?dg = "dynamicGeom rep"
  let ?m = "length ?dg"
  let ?I = "\<lambda>i st. i \<le> ?m \<and> validLines mbs (take i ?dg) \<and>
      fst st = rep\<lparr>dynamicGeom := map (tracked mbs s) (take i ?dg) @ drop i ?dg\<rparr> \<and>
      trackedWorld mbs s ?dg i w (snd st)"
  let ?Q = "\<lambda>e st'. e = RangeError \<and> \<not> validLines mbs ?dg \<and>
        (\<exists>i < ?m. fst st' = rep\<lparr>dynamicGeom := map (tracked mbs s) (take i ?dg) @ drop i ?dg\<rparr> \<and>
           trackedWorld mbs s ?dg i w (snd st'))"
  have "case forEach (rubberBandStep mbs s) [0..<?m] (rep, w) of
          Ok st' \<Rightarrow> ?I ?m st' | Raised e st' \<Rightarrow> ?Q e st' | Undefined \<Rightarrow> False"
  proof (rule forEach_upt_rule[where I = ?I and Q = ?Q])
    show "?I 0 (rep, w)" by (simp add: trackedWorld_def sameButActors_def validLines_def)
    show "0 \<le> ?m" by simp
  next
    fix i st
    assume i: "0 \<le> i" "i < ?m" and I: "?I i st"
    obtain rep' w' where st: "st = (rep', w')" by (cases st)
    from I st have rep': "rep' = rep\<lparr>dynamicGeom := map (tracked mbs s) (take i ?dg) @ drop i ?dg\<rparr>"
      and tw: "trackedWorld mbs s ?dg i w w'" and vl: "validLines mbs (take i ?dg)" by simp_all
    let ?info = "?dg ! i"
    let ?a = "actor ?info"
    have nth: "dynamicGeom rep' ! i = ?info" using rep' i by (simp add: nth_map_take_drop)
    have notin: "?a \<notin> actor ` set (take i ?dg)" using distinct_map_nth_notin_take[OF dist i(2)] .
    have alt: "?a < length (actors w)" using bound i by simp
    have same: "actors w' ! ?a = actors w ! ?a" using tw notin by (simp add: trackedWorld_def)
    have len: "length (actors w') = length (actors w)" using tw by (simp add: trackedWorld_def)
    have "getMapper ?a w \<noteq> NoMapper" using mapper i by simp
    then have gm: "getMapper ?a w' \<noteq> NoMapper"
      using same len by (auto simp: getMapper_def split: if_splits)
    show "case rubberBandStep mbs s i st of Ok st1 \<Rightarrow> ?I (Suc i) st1
        | Raised e st1 \<Rightarrow> ?Q e st1 | Undefined \<Rightarrow> False"
    proof (cases "validBodyId mbs (body1 ?info) \<and> validBodyId mbs (body2 ?info)")
      case True
      let ?w'' = "updActor ?a (\<lambda>x. x\<lparr>mapper := Mapper (Some (PolyData (line (tracked mbs s ?info))))\<rparr>) w'"
      have step: "rubberBandStep mbs s i st =
          Ok (rep'\<lparr>dynamicGeom := (dynamicGeom rep')[i := tracked mbs s ?info]\<rparr>, ?w'')"
        using rubberBandStep_Ok[of mbs rep' i w' s] True gm nth st by simp
      have r: "rep'\<lparr>dynamicGeom := (dynamicGeom rep')[i := tracked mbs s ?info]\<rparr> =
          rep\<lparr>dynamicGeom := map (tracked mbs s) (take (Suc i) ?dg) @ drop (Suc i) ?dg\<rparr>"
        using rep' i by (simp add: map_take_update)
      have v: "validLines mbs (take (Suc i) ?dg)"
        using vl True i by (auto simp: validLines_def take_Suc_conv_app_nth)
      have "trackedWorld mbs s ?dg (Suc i) w ?w''"
        unfolding trackedWorld_def
      proof (intro conjI allI impI)
        show "sameButActors w ?w''" using tw by (simp add: trackedWorld_def sameButActors_def)
        show "length (actors ?w'') = length (actors w)" using len by simp
      next
        fix j assume j: "j < Suc i"
        show "actors ?w'' ! actor (?dg ! j) =
          (actors w ! actor (?dg ! j))\<lparr>mapper := Mapper (Some (PolyData (line (tracked mbs s (?dg ! j)))))\<rparr>"
        proof (cases "j = i")
          case True
          then show ?thesis using same alt len by simp
        next
          case False
          with j have lt: "j < i" by simp
          then have "?dg ! j \<in> set (take i ?dg)" using i by (auto simp: in_set_conv_nth)
          with notin have "actor (?dg ! j) \<noteq> ?a" by (metis imageI)
          then show ?thesis using tw lt by (simp add: trackedWorld_def)
        qed
      next
        fix a assume "a \<notin> actor ` set (take (Suc i) ?dg)"
        then have "a \<noteq> ?a" "a \<notin> actor ` set (take i ?dg)"
          using i by (auto simp: take_Suc_conv_app_nth)
        then show "actors ?w'' ! a = actors w ! a" using tw by (simp add: trackedWorld_def)
      qed
      with step r v i show ?thesis by simp
    next
      case False
      then have "rubberBandStep mbs s i st = Raised RangeError st"
        using rubberBandStep_Raised[of mbs rep' i s w'] nth st by auto
      moreover have "\<not> validLines mbs ?dg" using False i by (auto simp: validLines_def)
      ultimately show ?thesis using I i st by auto
    qed
  qed
  then show ?thesis
    by (cases "forEach (rubberBandStep mbs s) [0..<?m] (rep, w)") auto
qed

subsection \<open>The ephemeral display pass\<close>

lemma foldl_updActor_actors_cong:
  "actors w1 = actors w2 \<Longrightarrow>
   actors (foldl (\<lambda>w a. updActor a (f a) w) w1 as) = actors (foldl (\<lambda>w a. updActor a (f a) w) w2 as)"
  by (induction as arbitrary: w1 w2) simp_all

lemma releaseAll_actors:
  "actors (releaseAll as w) = actors (foldl (\<lambda>w a. updActor a (\<lambda>x. released x) w) w as)"
proof (induction as arbitrary: w)
  case Nil
  then show ?case by (simp add: releaseAll_def)
next
  case (Cons a as)
  have "actors (releaseAll (a # as) w) = actors (releaseAll as (Delete a (RemoveActor a w)))"
    by (simp add: releaseAll_def)
  also have "\<dots> = actors (foldl (\<lambda>w a. updActor a (\<lambda>x. released x) w) (Delete a (RemoveActor a w)) as)"
    by (rule Cons.IH)
  also have "\<dots> = actors (foldl (\<lambda>w a. updActor a (\<lambda>x. released x) w) (updActor a (\<lambda>x. released x) w) as)"
    by (rule foldl_updActor_actors_cong) (simp add: Delete_def released_def)
  finally show ?case by simp
qed

lemma releaseAll_fields [simp]:
  "sceneActors (releaseAll as w) = filter (\<lambda>b. b \<notin> set as) (sceneActors w)"
  "cameraResets (releaseAll as w) = cameraResets w"
  "renders (releaseAll as w) = renders w"
  "rendererDeletes (releaseAll as w) = rendererDeletes w"
  "renWinDeletes (releaseAll as w) = renWinDeletes w"
  "length (actors (releaseAll as w)) = length (actors w)"
proof -
  show "sceneActors (releaseAll as w) = filter (\<lambda>b. b \<notin> set as) (sceneActors w)"
    by (induction as arbitrary: w)
       (auto simp: releaseAll_def Delete_def removeAll_filter_not_eq intro!: filter_cong)
  show "cameraResets (releaseAll as w) = cameraResets w"
    by (induction as arbitrary: w) (simp_all add: releaseAll_def Delete_def)
  show "renders (releaseAll as w) = renders w"
    by (induction as arbitrary: w) (simp_all add: releaseAll_def Delete_def)
  show "rendererDeletes (releaseAll as w) = rendererDeletes w"
    by (induction as arbitrary: w) (simp_all add: releaseAll_def Delete_def)
  show "renWinDeletes (releaseAll as w) = renWinDeletes w"
    by (induction as arbitrary: w) (simp_all add: releaseAll_def Delete_def)
  show "length (actors (releaseAll as w)) = length (actors w)"
    by (simp add: releaseAll_actors)
qed

lemma releaseAll_snoc: "releaseAll (as @ [a]) w = Delete a (RemoveActor a (releaseAll as w))"
  by (simp add: releaseAll_def)

lemma releaseAll_nth_notin:
  "b \<notin> set as \<Longrightarrow> actors (releaseAll as w) ! b = actors w ! b"
  by (simp add: releaseAll_actors foldl_updActor_notin)

lemma releaseAll_nth_in:
  "distinct as \<Longrightarrow> b \<in> set as \<Longrightarrow> b < length (actors w) \<Longrightarrow>
   actors (releaseAll as w) ! b = released (actors w ! b)"
  by (simp add: releaseAll_actors foldl_updActor_in)

lemma releaseAll_frame:
  "(\<And>x. g (released x) = g x) \<Longrightarrow> g (actors (releaseAll as w) ! b) = g (actors w ! b)"
  using foldl_updActor_frame[where f = "\<lambda>a x. released x" and g = g and w = w and as = as and b = b]
  by (simp add: releaseAll_actors)

lemma outWithTheOldLoop:
  assumes "renderer rep" and "None \<notin> set (ephemeralActors rep)"
  shows "forEach outWithTheOld [0..<length (ephemeralActors rep)] (rep, w) =
           Ok (rep, releaseAll (pointees (ephemeralActors rep)) w)"
proof -
  let ?ea = "ephemeralActors rep"
  let ?I = "\<lambda>i st. i \<le> length ?ea \<and> st = (rep, releaseAll (pointees (take i ?ea)) w)"
  have "case forEach outWithTheOld [0..<length ?ea] (rep, w) of
          Ok st' \<Rightarrow> ?I (length ?ea) st' | Raised e st' \<Rightarrow> False | Undefined \<Rightarrow> False"
  proof (rule forEach_upt_rule[where I = ?I])
    show "?I 0 (rep, w)" by (simp add: releaseAll_def)
    show "0 \<le> length ?ea" by simp
  next
    fix i st
    assume i: "0 \<le> i" "i < length ?ea" and I: "?I i st"
    from assms(2) i obtain a where a: "?ea ! i = Some a"
      by (metis nth_mem not_Some_eq)
    have "pointees (take (Suc i) ?ea) = pointees (take i ?ea) @ [a]"
      using i a by (simp add: take_Suc_conv_app_nth)
    then show "case outWithTheOld i st of Ok st1 \<Rightarrow> ?I (Suc i) st1
        | Raised e st1 \<Rightarrow> False | Undefined \<Rightarrow> False"
      using I i a assms(1) by (simp add: outWithTheOld_Ok releaseAll_snoc)
  qed
  then show ?thesis
    by (cases "forEach outWithTheOld [0..<length ?ea] (rep, w)") auto
qed

lemma update_prefix:
  "length ys = i \<Longrightarrow> i < length xs \<Longrightarrow> (ys @ drop i xs)[i := v] = (ys @ [v]) @ drop (Suc i) xs"
  by (simp add: list_update_append flip: Cons_nth_drop_Suc)

lemma inWithTheNewLoop:
  assumes ren: "renderer rep" and len: "length (bodies rep) = getNBodies mbs"
    and ea: "length (ephemeralActors rep) = length (ephemeralGeometry rep)"
    and scene: "\<forall>a \<in> set (sceneActors w). a < length (actors w)"
  shows "case forEach (inWithTheNew mbs s) [0..<length (ephemeralGeometry rep)] (rep, w) of
      Ok st' \<Rightarrow> validItems mbs (ephemeralGeometry rep) \<and>
        st' = (rep\<lparr>ephemeralActors :=
                    map Some [length (actors w)..<length (actors w) + length (ephemeralGeometry rep)],
                  ephemeralGeometry := map (placed mbs s) (ephemeralGeometry rep)\<rparr>,
               w\<lparr>actors := actors w @ map (ephemeralProxy mbs s rep) (ephemeralGeometry rep),
                  sceneActors := sceneActors w @
                    [length (actors w)..<length (actors w) + length (ephemeralGeometry rep)]\<rparr>)
    | Raised e st' \<Rightarrow> e = RangeError \<and> \<not> validItems mbs (ephemeralGeometry rep) \<and>
        sameCounters w (snd st') \<and> take (length (actors w)) (actors (snd st')) = actors w
    | Undefined \<Rightarrow> False"
proof -
  let ?q = "ephemeralGeometry rep"
  let ?ea = "ephemeralActors rep"
  let ?n = "length ?q"
  let ?L = "length (actors w)"
  let ?st = "\<lambda>i. (rep\<lparr>ephemeralActors := map Some [?L..<?L + i] @ drop i ?ea,
                     ephemeralGeometry := map (placed mbs s) (take i ?q) @ drop i ?q\<rparr>,
                 w\<lparr>actors := actors w @ map (ephemeralProxy mbs s rep) (take i ?q),
                   sceneActors := sceneActors w @ [?L..<?L + i]\<rparr>)"
  let ?I = "\<lambda>i st. i \<le> ?n \<and> validItems mbs (take i ?q) \<and> st = ?st i"
  let ?Q = "\<lambda>e st'. e = RangeError \<and> \<not> validItems mbs ?q \<and> sameCounters w (snd st') \<and>
      take (length (actors w)) (actors (snd st')) = actors w"
  have "case forEach (inWithTheNew mbs s) [0..<?n] (rep, w) of
          Ok st' \<Rightarrow> ?I ?n st' | Raised e st' \<Rightarrow> ?Q e st' | Undefined \<Rightarrow> False"
  proof (rule forEach_upt_rule[where I = ?I and Q = ?Q])
    show "?I 0 (rep, w)" by (simp add: validItems_def)
    show "0 \<le> ?n" by simp
  next
    fix i st
    assume i: "0 \<le> i" "i < ?n" and I: "?I i st"
    then have st: "st = ?st i" by simp
    let ?d = "?q ! i"
    have nth: "ephemeralGeometry (fst (?st i)) ! i = ?d" using i by (simp add: nth_append)
    show "case inWithTheNew mbs s i st of Ok st1 \<Rightarrow> ?I (Suc i) st1
        | Raised e st1 \<Rightarrow> ?Q e st1 | Undefined \<Rightarrow> False"
    proof (cases "validBodyId mbs (bodyId ?d)")
      case True
      have inr: "inRange (fst (?st i)) (bodyId ?d)"
        using True len by (simp add: inRange_def validBodyId_def)
      have fresh: "?L + i \<notin> set (sceneActors w @ [?L..<?L + i])" using scene by auto
      have "inWithTheNew mbs s i (?st i) = Ok (?st (Suc i))"
        using i ea nth ren inr fresh
        apply (subst inWithTheNew_Ok[where X_GB = "getBodyTransform mbs s (bodyId ?d)"])
            apply (simp_all add: getMobilizedBodyTransform_valid True nth_append)
        apply (simp add: Let_def AddActor_def update_prefix map_take_update
            take_Suc_conv_app_nth placed_def ephemeralProxy_def)
        done
      moreover have "validItems mbs (take (Suc i) ?q)"
        using I True i by (auto simp: validItems_def take_Suc_conv_app_nth)
      ultimately show ?thesis using st i by simp
    next
      case False
      have "\<not> validItems mbs ?q" using False i by (auto simp: validItems_def)
      moreover have "inWithTheNew mbs s i (?st i) =
        Raised RangeError
          ((fst (?st i))\<lparr>ephemeralActors := (ephemeralActors (fst (?st i)))[i := Some (length (actors (snd (?st i))))]\<rparr>,
           (snd (?st i))\<lparr>actors := actors (snd (?st i)) @ [newActor]\<rparr>)"
        using inWithTheNew_Raised[of mbs s "fst (?st i)" i "snd (?st i)"] False nth
        by (simp add: getMobilizedBodyTransform_invalid)
      ultimately show ?thesis using st by (simp add: sameCounters_def)
    qed
  qed
  then show ?thesis
    by (cases "forEach (inWithTheNew mbs s) [0..<?n] (rep, w)") (auto simp: ea)
qed

subsection \<open>The whole cycle\<close>

lemma ephemeralProxy_cong:
  "bodies rep' = bodies rep \<Longrightarrow> ephemeralProxy mbs s rep' = ephemeralProxy mbs s rep"
  by (intro ext) (simp add: ephemeralProxy_def)

lemma length_resize [simp]: "length (resize n xs) = n"
  by (simp add: resize_def)

lemma displayEphemeralGeometry_spec:
  assumes ren: "renderer rep" and none: "None \<notin> set (ephemeralActors rep)"
    and len: "length (bodies rep) = getNBodies mbs"
    and scene: "\<forall>a \<in> set (sceneActors w). a < length (actors w)"
  shows "case displayEphemeralGeometry mbs s (rep, w) of
      Ok st' \<Rightarrow> validItems mbs (ephemeralGeometry rep) \<and>
        st' = (rep\<lparr>ephemeralActors :=
                    map Some [length (actors w)..<length (actors w) + length (ephemeralGeometry rep)],
                  ephemeralGeometry := []\<rparr>,
               (releaseAll (pointees (ephemeralActors rep)) w)
                 \<lparr>actors := actors (releaseAll (pointees (ephemeralActors rep)) w) @
                    map (ephemeralProxy mbs s rep) (ephemeralGeometry rep),
                  sceneActors := sceneActors (releaseAll (pointees (ephemeralActors rep)) w) @
                    [length (actors w)..<length (actors w) + length (ephemeralGeometry rep)]\<rparr>)
    | Raised e st' \<Rightarrow> e = RangeError \<and> \<not> validItems mbs (ephemeralGeometry rep) \<and>
        sameCounters w (snd st') \<and>
        take (length (actors w)) (actors (snd st')) =
          actors (releaseAll (pointees (ephemeralActors rep)) w)
    | Undefined \<Rightarrow> False"
proof -
  let ?wOut = "releaseAll (pointees (ephemeralActors rep)) w"
  let ?rep2 = "rep\<lparr>ephemeralActors := resize (length (ephemeralGeometry rep)) (ephemeralActors rep)\<rparr>"
  have out: "forEach outWithTheOld [0..<length (ephemeralActors rep)] (rep, w) = Ok (rep, ?wOut)"
    by (rule outWithTheOldLoop[OF ren none])
  have scene': "\<forall>a \<in> set (sceneActors ?wOut). a < length (actors ?wOut)"
    using scene by simp
  have loop: "case forEach (inWithTheNew mbs s) [0..<length (ephemeralGeometry ?rep2)] (?rep2, ?wOut) of
      Ok st' \<Rightarrow> validItems mbs (ephemeralGeometry ?rep2) \<and>
        st' = (?rep2\<lparr>ephemeralActors :=
                    map Some [length (actors ?wOut)..<length (actors ?wOut) + length (ephemeralGeometry ?rep2)],
                  ephemeralGeometry := map (placed mbs s) (ephemeralGeometry ?rep2)\<rparr>,
               ?wOut\<lparr>actors := actors ?wOut @ map (ephemeralProxy mbs s ?rep2) (ephemeralGeometry ?rep2),
                  sceneActors := sceneActors ?wOut @
                    [length (actors ?wOut)..<length (actors ?wOut) + length (ephemeralGeometry ?rep2)]\<rparr>)
    | Raised e st' \<Rightarrow> e = RangeError \<and> \<not> validItems mbs (ephemeralGeometry ?rep2) \<and>
        sameCounters ?wOut (snd st') \<and> take (length (actors ?wOut)) (actors (snd st')) = actors ?wOut
    | Undefined \<Rightarrow> False"
    by (rule inWithTheNewLoop) (use ren len scene' in simp_all)
  have pc: "ephemeralProxy mbs s ?rep2 = ephemeralProxy mbs s rep"
    by (rule ephemeralProxy_cong) simp
  show ?thesis
  proof (cases "forEach (inWithTheNew mbs s) [0..<length (ephemeralGeometry rep)] (?rep2, ?wOut)")
    case (Ok st3)
    with loop pc show ?thesis
      by (simp add: displayEphemeralGeometry_def out andThen_simps Let_def)
  next
    case (Raised e st3)
    with loop show ?thesis
      by (simp add: displayEphemeralGeometry_def out andThen_simps Let_def sameCounters_def)
  next
    case Undefined
    with loop show ?thesis by simp
  qed
qed

lemma calcDecorativeGeometryAndAppend_foldl:
  "foldl (\<lambda>rep stage. calcDecorativeGeometryAndAppend mbs s stage rep) rep stages =
     rep\<lparr>ephemeralGeometry := ephemeralGeometry rep @ concat (map (calcDecorativeGeometry mbs s) stages)\<rparr>"
  by (induction stages arbitrary: rep) (simp_all add: calcDecorativeGeometryAndAppend_def)

lemma peekMessages_eq:
  "peekMessages msgs (rep, w) =
     (if WM_QUIT \<in> set msgs
      then (rep\<lparr>renWin := False\<rparr>, w\<lparr>renWinDeletes := Suc (renWinDeletes w)\<rparr>)
      else (rep, w))"
  by (induction msgs "(rep, w)" rule: peekMessages.induct) auto

lemma getMapper_NoMapper_iff:
  "getMapper a w \<noteq> NoMapper \<longleftrightarrow> a < length (actors w) \<and> mapper (actors w ! a) \<noteq> NoMapper"
  by (simp add: getMapper_def)

lemma trackedWorld_frame:
  assumes "trackedWorld mbs s dg i w w2" and "i \<le> length dg"
    and "\<And>x m. g (x\<lparr>mapper := m\<rparr>) = g x"
  shows "g (actors w2 ! a) = g (actors w ! a)"
proof (cases "a \<in> actor ` set (take i dg)")
  case True
  then obtain j where "j < i" "a = actor (dg ! j)"
    using assms(2) by (auto simp: in_set_conv_nth)
  with assms(1) have "actors w2 ! a =
      (actors w ! a)\<lparr>mapper := Mapper (Some (PolyData (line (tracked mbs s (dg ! j)))))\<rparr>"
    by (simp add: trackedWorld_def)
  with assms(3) show ?thesis by simp
next
  case False
  with assms(1) show ?thesis by (simp add: trackedWorld_def)
qed

lemma posedWorld_frame:
  assumes "posedWorld mbs s rep i w w1" and "\<And>X x. g (posed mbs X x) = g x"
  shows "g (actors w1 ! a) = g (actors w ! a)"
proof (cases "\<exists>j. 1 \<le> j \<and> j < i \<and> a \<in> set (aList (bodies rep ! j))")
  case True
  then obtain j where "1 \<le> j \<and> j < i \<and> a \<in> set (aList (bodies rep ! j))" by blast
  with assms(1) have "actors w1 ! a = posed mbs (getBodyTransform mbs s (int j)) (actors w ! a)"
    unfolding posedWorld_def by blast
  with assms(2) show ?thesis by simp
next
  case False
  with assms(1) have "actors w1 ! a = actors w ! a" unfolding posedWorld_def by blast
  then show ?thesis by simp
qed

lemma posed_fields [simp]:
  "deleteCalls (posed mbs X x) = deleteCalls x"
  "mapper (posed mbs X x) = mapper x"
  "propColor (posed mbs X x) = propColor x"
  "propOpacity (posed mbs X x) = propOpacity x"
  "propLineWidth (posed mbs X x) = propLineWidth x"
  "propRepresentation (posed mbs X x) = propRepresentation x"
  by (simp_all add: posed_def split: prod.splits)

lemma wellFormed_parts:
  assumes "wellFormed mbs (rep, w)"
  shows "renderer rep" "0 < getNBodies mbs" "length (bodies rep) = getNBodies mbs"
    "None \<notin> set (ephemeralActors rep)"
    "distinct (persistentActors rep)" "distinct (map actor (dynamicGeom rep))"
    "distinct (pointees (ephemeralActors rep))"
    "set (persistentActors rep) \<inter> actor ` set (dynamicGeom rep) = {}"
    "set (persistentActors rep) \<inter> set (pointees (ephemeralActors rep)) = {}"
    "actor ` set (dynamicGeom rep) \<inter> set (pointees (ephemeralActors rep)) = {}"
    "\<forall>a \<in> set (persistentActors rep). a < length (actors w) \<and> deleteCalls (actors w ! a) = 0"
    "\<forall>info \<in> set (dynamicGeom rep). actor info < length (actors w) \<and> deleteCalls (actors w ! actor info) = 0"
    "\<forall>a \<in> set (pointees (ephemeralActors rep)). a < length (actors w) \<and> deleteCalls (actors w ! a) = 0"
    "\<forall>a \<in> set (sceneActors w). a < length (actors w)"
    "\<forall>info \<in> set (dynamicGeom rep). getMapper (actor info) w \<noteq> NoMapper"
  using assms by (auto simp: wellFormed_def ownedActors_def)

lemma report_spec:
  assumes wf: "wellFormed mbs (rep, w)" and ready: "renWin rep"
  shows "case report mbs msgs s (rep, w) of
      Ok st' \<Rightarrow> validLines mbs (dynamicGeom rep) \<and>
        validItems mbs (ephemeralGeometry rep @ minedGeometry mbs (realize mbs s Position)) \<and>
        reported mbs msgs (realize mbs s Position) rep w (fst st') (snd st')
    | Raised e st' \<Rightarrow> e = RangeError \<and>
        \<not> (validLines mbs (dynamicGeom rep) \<and>
           validItems mbs (ephemeralGeometry rep @ minedGeometry mbs (realize mbs s Position))) \<and>
        sameCounters w (snd st') \<and>
        (\<exists>w1. posedWorld mbs (realize mbs s Position) rep (getNBodies mbs) w w1 \<and>
           (\<forall>a < length (actors w).
              position (actors (snd st') ! a) = position (actors w1 ! a) \<and>
              orientation (actors (snd st') ! a) = orientation (actors w1 ! a)))
    | Undefined \<Rightarrow> False"
proof -
  let ?s = "realize mbs s Position"
  let ?dg = "dynamicGeom rep"
  let ?q = "ephemeralGeometry rep @ minedGeometry mbs ?s"
  note p = wellFormed_parts[OF wf]
  obtain w1 where l1: "forEach (bodyStep mbs ?s) [1..<getNBodies mbs] (rep, w) = Ok (rep, w1)"
    and pw: "posedWorld mbs ?s rep (getNBodies mbs) w w1"
    using bodyLoop[of rep mbs w ?s] p by auto
  have l1': "forEach (bodyStep mbs ?s) [Suc 0..<getNBodies mbs] (rep, w) = Ok (rep, w1)"
    using l1 by simp
  have len1: "length (actors w1) = length (actors w)" and sba1: "sameButActors w w1"
    using pw by (simp_all add: posedWorld_def)
  have map1: "\<And>a. mapper (actors w1 ! a) = mapper (actors w ! a)"
    by (rule posedWorld_frame[OF pw]) simp
  have gm1: "\<forall>info \<in> set ?dg. getMapper (actor info) w1 \<noteq> NoMapper"
    using p(15) len1 map1 by (simp add: getMapper_NoMapper_iff)
  have bnd1: "\<forall>info \<in> set ?dg. actor info < length (actors w1)"
    using p(12) len1 by simp
  have l2: "case forEach (rubberBandStep mbs ?s) [0..<length ?dg] (rep, w1) of
      Ok st' \<Rightarrow> validLines mbs ?dg \<and>
        fst st' = rep\<lparr>dynamicGeom := map (tracked mbs ?s) ?dg\<rparr> \<and>
        trackedWorld mbs ?s ?dg (length ?dg) w1 (snd st')
    | Raised e st' \<Rightarrow> e = RangeError \<and> \<not> validLines mbs ?dg \<and>
        (\<exists>i < length ?dg.
           fst st' = rep\<lparr>dynamicGeom := map (tracked mbs ?s) (take i ?dg) @ drop i ?dg\<rparr> \<and>
           trackedWorld mbs ?s ?dg i w1 (snd st'))
    | Undefined \<Rightarrow> False"
    by (rule rubberBandLoop[OF p(6) bnd1 gm1])
  show ?thesis
  proof (cases "forEach (rubberBandStep mbs ?s) [0..<length ?dg] (rep, w1)")
    case Undefined
    with l2 show ?thesis by simp
  next
    case (Raised e st')
    with l2 obtain i where "e = RangeError" "\<not> validLines mbs ?dg" and ilt: "i < length ?dg"
      and twi: "trackedWorld mbs ?s ?dg i w1 (snd st')" by auto
    from ilt have i: "i \<le> length ?dg" by simp
    have sc: "sameCounters w (snd st')" using sba1 twi
      by (simp add: trackedWorld_def sameButActors_def sameCounters_def)
    have "position (actors (snd st') ! a) = position (actors w1 ! a) \<and>
          orientation (actors (snd st') ! a) = orientation (actors w1 ! a)" for a
      using trackedWorld_frame[OF twi i, of position a] trackedWorld_frame[OF twi i, of orientation a]
      by simp
    with pw have "\<exists>w1. posedWorld mbs ?s rep (getNBodies mbs) w w1 \<and>
           (\<forall>a < length (actors w).
              position (actors (snd st') ! a) = position (actors w1 ! a) \<and>
              orientation (actors (snd st') ! a) = orientation (actors w1 ! a))" by blast
    with sc Raised \<open>e = RangeError\<close> \<open>\<not> validLines mbs ?dg\<close> show ?thesis
      using ready by (simp add: report_def l1' andThen_simps Let_def)
  next
    case (Ok st2)
    obtain rep2 w2 where st2: "st2 = (rep2, w2)" by (cases st2)
    from l2 Ok st2 have vl: "validLines mbs ?dg"
      and rep2: "rep2 = rep\<lparr>dynamicGeom := map (tracked mbs ?s) ?dg\<rparr>"
      and tw: "trackedWorld mbs ?s ?dg (length ?dg) w1 w2" by simp_all
    have len2: "length (actors w2) = length (actors w)" and sba2: "sameButActors w w2"
      using tw len1 sba1 by (simp_all add: trackedWorld_def sameButActors_def)
    let ?rep3 = "rep2\<lparr>ephemeralGeometry := ?q\<rparr>"
    have rep3: "foldl (\<lambda>rep stage. calcDecorativeGeometryAndAppend mbs ?s stage rep) rep2
        (stagesToMine (getSystemStage mbs ?s)) = ?rep3"
      by (simp add: calcDecorativeGeometryAndAppend_foldl minedGeometry_def rep2)
    have scene2: "\<forall>a \<in> set (sceneActors w2). a < length (actors w2)"
      using p(14) len2 sba2 by (simp add: sameButActors_def)
    have d: "case displayEphemeralGeometry mbs ?s (?rep3, w2) of
      Ok st' \<Rightarrow> validItems mbs (ephemeralGeometry ?rep3) \<and>
        st' = (?rep3\<lparr>ephemeralActors :=
                    map Some [length (actors w2)..<length (actors w2) + length (ephemeralGeometry ?rep3)],
                  ephemeralGeometry := []\<rparr>,
               (releaseAll (pointees (ephemeralActors ?rep3)) w2)
                 \<lparr>actors := actors (releaseAll (pointees (ephemeralActors ?rep3)) w2) @
                    map (ephemeralProxy mbs ?s ?rep3) (ephemeralGeometry ?rep3),
                  sceneActors := sceneActors (releaseAll (pointees (ephemeralActors ?rep3)) w2) @
                    [length (actors w2)..<length (actors w2) + length (ephemeralGeometry ?rep3)]\<rparr>)
    | Raised e st' \<Rightarrow> e = RangeError \<and> \<not> validItems mbs (ephemeralGeometry ?rep3) \<and>
        sameCounters w2 (snd st') \<and>
        take (length (actors w2)) (actors (snd st')) =
          actors (releaseAll (pointees (ephemeralActors ?rep3)) w2)
    | Undefined \<Rightarrow> False"
      by (rule displayEphemeralGeometry_spec) (use p scene2 rep2 in simp_all)
    have pc: "ephemeralProxy mbs ?s ?rep3 = ephemeralProxy mbs ?s rep"
      by (rule ephemeralProxy_cong) (simp add: rep2)
    have pre: "report mbs msgs s (rep, w) =
      andThen (displayEphemeralGeometry mbs ?s (?rep3, w2))
        (\<lambda>st4. if cameraNeedsToBeReset (fst st4) \<and> \<not> renderer (fst st4) then Undefined
           else let st5 = (if cameraNeedsToBeReset (fst st4)
                           then ((fst st4)\<lparr>cameraNeedsToBeReset := False\<rparr>, ResetCamera (snd st4))
                           else st4)
                in Ok (peekMessages msgs (fst st5, Render (snd st5))))"
      using ready Ok st2 rep3 by (simp add: report_def l1' andThen_simps Let_def)
    show ?thesis
    proof (cases "displayEphemeralGeometry mbs ?s (?rep3, w2)")
      case Undefined
      with d show ?thesis by simp
    next
      case (Raised e st')
      with d have "e = RangeError" "\<not> validItems mbs ?q" "sameCounters w2 (snd st')"
        and tk: "take (length (actors w2)) (actors (snd st')) =
          actors (releaseAll (pointees (ephemeralActors ?rep3)) w2)" by simp_all
      then have sc: "sameCounters w (snd st')" using sba2
        by (simp add: sameButActors_def sameCounters_def)
      have "position (actors (snd st') ! a) = position (actors w1 ! a) \<and>
            orientation (actors (snd st') ! a) = orientation (actors w1 ! a)"
        if a: "a < length (actors w)" for a
      proof -
        have "actors (snd st') ! a = take (length (actors w2)) (actors (snd st')) ! a"
          using a len2 by simp
        then have eq: "actors (snd st') ! a = actors (releaseAll (pointees (ephemeralActors ?rep3)) w2) ! a"
          using tk by simp
        have "position (actors (snd st') ! a) = position (actors w2 ! a)"
          unfolding eq by (rule releaseAll_frame) (simp add: released_def)
        moreover have "orientation (actors (snd st') ! a) = orientation (actors w2 ! a)"
          unfolding eq by (rule releaseAll_frame) (simp add: released_def)
        moreover have "position (actors w2 ! a) = position (actors w1 ! a)"
          by (rule trackedWorld_frame[OF tw]) simp_all
        moreover have "orientation (actors w2 ! a) = orientation (actors w1 ! a)"
          by (rule trackedWorld_frame[OF tw]) simp_all
        ultimately show ?thesis by simp
      qed
      with pw have "\<exists>w1. posedWorld mbs ?s rep (getNBodies mbs) w w1 \<and>
           (\<forall>a < length (actors w).
              position (actors (snd st') ! a) = position (actors w1 ! a) \<and>
              orientation (actors (snd st') ! a) = orientation (actors w1 ! a))" by blast
      with sc Raised \<open>e = RangeError\<close> \<open>\<not> validItems mbs ?q\<close> show ?thesis
        by (simp add: pre andThen_simps)
    next
      case (Ok st4)
      with d pc have vi: "validItems mbs ?q"
        and st4: "st4 = (?rep3\<lparr>ephemeralActors :=
                    map Some [length (actors w)..<length (actors w) + length ?q],
                  ephemeralGeometry := []\<rparr>,
               (releaseAll (pointees (ephemeralActors rep)) w2)
                 \<lparr>actors := actors (releaseAll (pointees (ephemeralActors rep)) w2) @
                    map (ephemeralProxy mbs ?s rep) ?q,
                  sceneActors := sceneActors (releaseAll (pointees (ephemeralActors rep)) w2) @
                    [length (actors w)..<length (actors w) + length ?q]\<rparr>)"
        by (simp_all add: len2 rep2)
      have ren: "renderer (fst st4)" using st4 p(1) by (simp add: rep2)
      have "reported mbs msgs ?s rep w
          (fst (peekMessages msgs
             (fst (if cameraNeedsToBeReset (fst st4)
                   then ((fst st4)\<lparr>cameraNeedsToBeReset := False\<rparr>, ResetCamera (snd st4)) else st4),
              Render (snd (if cameraNeedsToBeReset (fst st4)
                   then ((fst st4)\<lparr>cameraNeedsToBeReset := False\<rparr>, ResetCamera (snd st4)) else st4)))))
          (snd (peekMessages msgs
             (fst (if cameraNeedsToBeReset (fst st4)
                   then ((fst st4)\<lparr>cameraNeedsToBeReset := False\<rparr>, ResetCamera (snd st4)) else st4),
              Render (snd (if cameraNeedsToBeReset (fst st4)
                   then ((fst st4)\<lparr>cameraNeedsToBeReset := False\<rparr>, ResetCamera (snd st4)) else st4)))))"
        unfolding reported_def
        apply (rule exI[of _ w1], rule exI[of _ w2])
        using pw tw sba2 ready
        apply (cases rep)
        apply (simp add: st4 rep2 peekMessages_eq Render_def ResetCamera_def sameButActors_def)
        done
      with Ok vl vi ren show ?thesis
        by (simp add: pre andThen_simps Let_def)
    qed
  qed
qed

subsection \<open>What a cycle leaves of the proxies\<close>

lemma reported_length:
  "reported mbs msgs s rep w rep' w' \<Longrightarrow>
   length (actors w') = length (actors w) + length (ephemeralGeometry rep @ minedGeometry mbs s)"
  by (auto simp: reported_def posedWorld_def trackedWorld_def)

lemma reported_frame_live:
  assumes r: "reported mbs msgs s rep w rep' w'" and a: "a < length (actors w)"
    and live: "a \<notin> set (pointees (ephemeralActors rep))"
    and g1: "\<And>X x. g (posed mbs X x) = g x" and g2: "\<And>x m. g (x\<lparr>mapper := m\<rparr>) = g x"
  shows "g (actors w' ! a) = g (actors w ! a)"
proof -
  from r obtain w1 w2 where pw: "posedWorld mbs s rep (getNBodies mbs) w w1"
    and tw: "trackedWorld mbs s (dynamicGeom rep) (length (dynamicGeom rep)) w1 w2"
    and ac: "actors w' = actors (releaseAll (pointees (ephemeralActors rep)) w2) @
          map (ephemeralProxy mbs s rep) (ephemeralGeometry rep @ minedGeometry mbs s)"
    unfolding reported_def by blast
  have len: "length (actors w2) = length (actors w)"
    using pw tw by (simp add: posedWorld_def trackedWorld_def)
  have "actors w' ! a = actors (releaseAll (pointees (ephemeralActors rep)) w2) ! a"
    using ac a len by (simp add: nth_append)
  also have "\<dots> = actors w2 ! a" using live by (simp add: releaseAll_nth_notin)
  finally have "g (actors w' ! a) = g (actors w2 ! a)" by simp
  also have "\<dots> = g (actors w1 ! a)" by (rule trackedWorld_frame[OF tw _ g2]) simp
  also have "\<dots> = g (actors w ! a)" by (rule posedWorld_frame[OF pw g1])
  finally show ?thesis .
qed

lemma reported_frame:
  assumes r: "reported mbs msgs s rep w rep' w'" and a: "a < length (actors w)"
    and g1: "\<And>X x. g (posed mbs X x) = g x" and g2: "\<And>x m. g (x\<lparr>mapper := m\<rparr>) = g x"
    and g3: "\<And>x. g (released x) = g x"
  shows "g (actors w' ! a) = g (actors w ! a)"
proof -
  from r obtain w1 w2 where pw: "posedWorld mbs s rep (getNBodies mbs) w w1"
    and tw: "trackedWorld mbs s (dynamicGeom rep) (length (dynamicGeom rep)) w1 w2"
    and ac: "actors w' = actors (releaseAll (pointees (ephemeralActors rep)) w2) @
          map (ephemeralProxy mbs s rep) (ephemeralGeometry rep @ minedGeometry mbs s)"
    unfolding reported_def by blast
  have len: "length (actors w2) = length (actors w)"
    using pw tw by (simp add: posedWorld_def trackedWorld_def)
  have "actors w' ! a = actors (releaseAll (pointees (ephemeralActors rep)) w2) ! a"
    using ac a len by (simp add: nth_append)
  then have "g (actors w' ! a) = g (actors w2 ! a)" by (simp add: releaseAll_frame[of g, OF g3])
  also have "\<dots> = g (actors w1 ! a)" by (rule trackedWorld_frame[OF tw _ g2]) simp
  also have "\<dots> = g (actors w ! a)" by (rule posedWorld_frame[OF pw g1])
  finally show ?thesis .
qed

lemma reported_released:
  assumes r: "reported mbs msgs s rep w rep' w'" and a: "a < length (actors w)"
    and old: "a \<in> set (pointees (ephemeralActors rep))"
    and dist: "distinct (pointees (ephemeralActors rep))"
  shows "deleteCalls (actors w' ! a) = Suc (deleteCalls (actors w ! a))"
proof -
  from r obtain w1 w2 where pw: "posedWorld mbs s rep (getNBodies mbs) w w1"
    and tw: "trackedWorld mbs s (dynamicGeom rep) (length (dynamicGeom rep)) w1 w2"
    and ac: "actors w' = actors (releaseAll (pointees (ephemeralActors rep)) w2) @
          map (ephemeralProxy mbs s rep) (ephemeralGeometry rep @ minedGeometry mbs s)"
    unfolding reported_def by blast
  have len: "length (actors w2) = length (actors w)"
    using pw tw by (simp add: posedWorld_def trackedWorld_def)
  have "actors w' ! a = actors (releaseAll (pointees (ephemeralActors rep)) w2) ! a"
    using ac a len by (simp add: nth_append)
  also have "\<dots> = released (actors w2 ! a)"
    using old dist a len by (simp add: releaseAll_nth_in)
  finally have "deleteCalls (actors w' ! a) = Suc (deleteCalls (actors w2 ! a))"
    by (simp add: released_def)
  also have "deleteCalls (actors w2 ! a) = deleteCalls (actors w1 ! a)"
    by (rule trackedWorld_frame[OF tw]) simp_all
  also have "\<dots> = deleteCalls (actors w ! a)" by (rule posedWorld_frame[OF pw]) simp
  finally show ?thesis .
qed

lemma reported_new:
  assumes r: "reported mbs msgs s rep w rep' w'"
    and i: "i < length (ephemeralGeometry rep @ minedGeometry mbs s)"
  shows "actors w' ! (length (actors w) + i) =
           ephemeralProxy mbs s rep ((ephemeralGeometry rep @ minedGeometry mbs s) ! i)"
proof -
  from r obtain w1 w2 where pw: "posedWorld mbs s rep (getNBodies mbs) w w1"
    and tw: "trackedWorld mbs s (dynamicGeom rep) (length (dynamicGeom rep)) w1 w2"
    and ac: "actors w' = actors (releaseAll (pointees (ephemeralActors rep)) w2) @
          map (ephemeralProxy mbs s rep) (ephemeralGeometry rep @ minedGeometry mbs s)"
    unfolding reported_def by blast
  have len: "length (actors w2) = length (actors w)"
    using pw tw by (simp add: posedWorld_def trackedWorld_def)
  show ?thesis using ac len i by (simp add: nth_append del: map_append)
qed

lemma reported_rep:
  assumes "reported mbs msgs s rep w rep' w'"
  shows "bodies rep' = bodies rep" "renderer rep' = renderer rep"
    "dynamicGeom rep' = map (tracked mbs s) (dynamicGeom rep)"
    "ephemeralGeometry rep' = []"
    "ephemeralActors rep' = map Some
       [length (actors w)..<length (actors w) + length (ephemeralGeometry rep @ minedGeometry mbs s)]"
    "cameraNeedsToBeReset rep' = False" "renWin rep' = (WM_QUIT \<notin> set msgs)"
    "myHandle rep' = myHandle rep"
    "defaultBodyScaleForAutoGeometry rep' = defaultBodyScaleForAutoGeometry rep"
  using assms by (auto simp: reported_def)

lemma tracked_fields [simp]:
  "actor (tracked mbs s info) = actor info"
  "body1 (tracked mbs s info) = body1 info"
  "body2 (tracked mbs s info) = body2 info"
  "station1 (tracked mbs s info) = station1 info"
  "station2 (tracked mbs s info) = station2 info"
  by (simp_all add: tracked_def)

lemma reported_dynamic_mapper:
  assumes r: "reported mbs msgs s rep w rep' w'" and j: "j < length (dynamicGeom rep)"
    and bound: "actor (dynamicGeom rep ! j) < length (actors w)"
    and live: "actor (dynamicGeom rep ! j) \<notin> set (pointees (ephemeralActors rep))"
  shows "mapper (actors w' ! actor (dynamicGeom rep ! j)) =
           Mapper (Some (PolyData (line (tracked mbs s (dynamicGeom rep ! j)))))"
proof -
  from r obtain w1 w2 where pw: "posedWorld mbs s rep (getNBodies mbs) w w1"
    and tw: "trackedWorld mbs s (dynamicGeom rep) (length (dynamicGeom rep)) w1 w2"
    and ac: "actors w' = actors (releaseAll (pointees (ephemeralActors rep)) w2) @
          map (ephemeralProxy mbs s rep) (ephemeralGeometry rep @ minedGeometry mbs s)"
    unfolding reported_def by blast
  let ?a = "actor (dynamicGeom rep ! j)"
  have len: "length (actors w2) = length (actors w)"
    using pw tw by (simp add: posedWorld_def trackedWorld_def)
  have "actors w' ! ?a = actors (releaseAll (pointees (ephemeralActors rep)) w2) ! ?a"
    using ac bound len by (simp add: nth_append)
  also have "\<dots> = actors w2 ! ?a" using live by (simp add: releaseAll_nth_notin)
  finally show ?thesis using tw j by (simp add: trackedWorld_def)
qed

lemma reported_posed:
  assumes r: "reported mbs msgs s rep w rep' w'" and a: "a < length (actors w)"
    and j: "1 \<le> j" "j < getNBodies mbs" "a \<in> set (aList (bodies rep ! j))"
    and g2: "\<And>x m. g (x\<lparr>mapper := m\<rparr>) = g x" and g3: "\<And>x. g (released x) = g x"
  shows "g (actors w' ! a) = g (posed mbs (getBodyTransform mbs s (int j)) (actors w ! a))"
proof -
  from r obtain w1 w2 where pw: "posedWorld mbs s rep (getNBodies mbs) w w1"
    and tw: "trackedWorld mbs s (dynamicGeom rep) (length (dynamicGeom rep)) w1 w2"
    and ac: "actors w' = actors (releaseAll (pointees (ephemeralActors rep)) w2) @
          map (ephemeralProxy mbs s rep) (ephemeralGeometry rep @ minedGeometry mbs s)"
    unfolding reported_def by blast
  have len: "length (actors w2) = length (actors w)"
    using pw tw by (simp add: posedWorld_def trackedWorld_def)
  have "actors w' ! a = actors (releaseAll (pointees (ephemeralActors rep)) w2) ! a"
    using ac a len by (simp add: nth_append)
  then have "g (actors w' ! a) = g (actors w2 ! a)" by (simp add: releaseAll_frame[of g, OF g3])
  also have "\<dots> = g (actors w1 ! a)" by (rule trackedWorld_frame[OF tw _ g2]) simp
  also have "actors w1 ! a = posed mbs (getBodyTransform mbs s (int j)) (actors w ! a)"
    using pw j unfolding posedWorld_def by blast
  finally show ?thesis .
qed

lemma reported_unposed:
  assumes r: "reported mbs msgs s rep w rep' w'" and a: "a < length (actors w)"
    and j: "\<forall>j. 1 \<le> j \<and> j < getNBodies mbs \<longrightarrow> a \<notin> set (aList (bodies rep ! j))"
    and g2: "\<And>x m. g (x\<lparr>mapper := m\<rparr>) = g x" and g3: "\<And>x. g (released x) = g x"
  shows "g (actors w' ! a) = g (actors w ! a)"
proof -
  from r obtain w1 w2 where pw: "posedWorld mbs s rep (getNBodies mbs) w w1"
    and tw: "trackedWorld mbs s (dynamicGeom rep) (length (dynamicGeom rep)) w1 w2"
    and ac: "actors w' = actors (releaseAll (pointees (ephemeralActors rep)) w2) @
          map (ephemeralProxy mbs s rep) (ephemeralGeometry rep @ minedGeometry mbs s)"
    unfolding reported_def by blast
  have len: "length (actors w2) = length (actors w)"
    using pw tw by (simp add: posedWorld_def trackedWorld_def)
  have "actors w' ! a = actors (releaseAll (pointees (ephemeralActors rep)) w2) ! a"
    using ac a len by (simp add: nth_append)
  then have "g (actors w' ! a) = g (actors w2 ! a)" by (simp add: releaseAll_frame[of g, OF g3])
  also have "\<dots> = g (actors w1 ! a)" by (rule trackedWorld_frame[OF tw _ g2]) simp
  also have "actors w1 ! a = actors w ! a"
    using pw j unfolding posedWorld_def by blast
  finally show ?thesis .
qed

lemma released_fields [simp]:
  "position (released x) = position x" "orientation (released x) = orientation x"
  "mapper (released x) = mapper x" "propColor (released x) = propColor x"
  "propOpacity (released x) = propOpacity x" "propLineWidth (released x) = propLineWidth x"
  "propRepresentation (released x) = propRepresentation x"
  "deleteCalls (released x) = Suc (deleteCalls x)"
  by (simp_all add: released_def)

lemma styledActor_fields [simp]:
  "deleteCalls (styledActor c d m) = 0" "mapper (styledActor c d m) = m"
  "position (styledActor c d m) = (0, 0, 0)" "orientation (styledActor c d m) = []"
  "propColor (styledActor c d m) = c"
  by (simp_all add: styledActor_def newActor_def)

lemma ground_not_elsewhere:
  assumes "distinct (persistentActors rep)" "0 < length (bodies rep)"
    and "a \<in> set (aList (bodies rep ! 0))"
  shows "\<forall>j. 1 \<le> j \<and> j < length (bodies rep) \<longrightarrow> a \<notin> set (aList (bodies rep ! j))"
  using distinct_concat_nth_disjoint[of "map aList (bodies rep)" 0] assms
  by (fastforce simp: persistentActors_def)

lemma persistentActors_cong:
  "bodies rep' = bodies rep \<Longrightarrow> persistentActors rep' = persistentActors rep"
  by (simp add: persistentActors_def)

lemma reported_wellFormed:
  assumes wf: "wellFormed mbs (rep, w)" and r: "reported mbs msgs s rep w rep' w'"
  shows "wellFormed mbs (rep', w')"
proof -
  note p = wellFormed_parts[OF wf]
  note rr = reported_rep[OF r]
  let ?L = "length (actors w)"
  let ?q = "ephemeralGeometry rep @ minedGeometry mbs s"
  let ?news = "[?L..<?L + length ?q]"
  let ?olds = "pointees (ephemeralActors rep)"
  let ?P = "persistentActors rep"
  let ?D = "map actor (dynamicGeom rep)"
  have len': "length (actors w') = ?L + length ?q" by (rule reported_length[OF r])
  have owned': "ownedActors rep' = ?P @ ?D @ ?news"
    by (simp add: ownedActors_def rr persistentActors_cong[of rep' rep] comp_def)
  have owned: "ownedActors rep = ?P @ ?D @ ?olds" by (simp add: ownedActors_def)
  have PD_lt: "\<And>a. a \<in> set ?P \<union> set ?D \<Longrightarrow> a < ?L" using p(11,12) by auto
  have PD_live: "\<And>a. a \<in> set ?P \<union> set ?D \<Longrightarrow> a \<notin> set ?olds" using p(9,10) by auto
  have d5: "distinct (ownedActors rep')"
    unfolding owned' using p(5,6,8) PD_lt by (fastforce simp: distinct_append)
  have d6: "\<forall>a \<in> set (ownedActors rep'). a < length (actors w') \<and> deleteCalls (actors w' ! a) = 0"
  proof
    fix a assume "a \<in> set (ownedActors rep')"
    then consider "a \<in> set ?P \<union> set ?D" | "a \<in> set ?news" unfolding owned' by auto
    then show "a < length (actors w') \<and> deleteCalls (actors w' ! a) = 0"
    proof cases
      case 1
      have "deleteCalls (actors w' ! a) = deleteCalls (actors w ! a)"
        by (rule reported_frame_live[OF r PD_lt[OF 1] PD_live[OF 1]]) simp_all
      moreover have "deleteCalls (actors w ! a) = 0" using 1 p(11,12) by auto
      ultimately show ?thesis using PD_lt[OF 1] len' by simp
    next
      case 2
      then obtain i where i: "a = ?L + i" "i < length ?q"
        by (metis add_diff_inverse_nat atLeastLessThan_iff le_add_diff_inverse nat_add_left_cancel_less
            not_less set_upt)
      then show ?thesis using reported_new[OF r i(2)] len' by (simp add: ephemeralProxy_def)
    qed
  qed
  have d7: "\<forall>a < length (actors w'). a \<notin> set (ownedActors rep') \<longrightarrow> deleteCalls (actors w' ! a) = 1"
  proof (intro allI impI)
    fix a assume a: "a < length (actors w')" "a \<notin> set (ownedActors rep')"
    then have lt: "a < ?L" and nPD: "a \<notin> set ?P \<union> set ?D"
      unfolding owned' using len' by auto
    show "deleteCalls (actors w' ! a) = 1"
    proof (cases "a \<in> set ?olds")
      case True
      have "deleteCalls (actors w' ! a) = Suc (deleteCalls (actors w ! a))"
        by (rule reported_released[OF r lt True p(7)])
      then show ?thesis using p(13) True by simp
    next
      case False
      have "deleteCalls (actors w' ! a) = deleteCalls (actors w ! a)"
        by (rule reported_frame_live[OF r lt False]) simp_all
      moreover have "a \<notin> set (ownedActors rep)" using nPD False unfolding owned by simp
      ultimately show ?thesis using wf lt by (simp add: wellFormed_def)
    qed
  qed
  have sc: "sceneActors w' = filter (\<lambda>b. b \<notin> set ?olds) (sceneActors w) @ ?news"
    using r by (auto simp: reported_def)
  have d8: "\<forall>a \<in> set (sceneActors w'). a < length (actors w')"
  proof
    fix a assume "a \<in> set (sceneActors w')"
    then have "a \<in> set (sceneActors w) \<or> a \<in> set ?news" unfolding sc by auto
    then show "a < length (actors w')" using p(14) len' by (auto simp: trans_less_add1)
  qed
  have d9: "\<forall>info \<in> set (dynamicGeom rep'). getMapper (actor info) w' \<noteq> NoMapper"
  proof
    fix info assume "info \<in> set (dynamicGeom rep')"
    then obtain j where j: "j < length (dynamicGeom rep)" "info = tracked mbs s (dynamicGeom rep ! j)"
      by (auto simp: rr in_set_conv_nth)
    let ?a = "actor (dynamicGeom rep ! j)"
    have aD: "?a \<in> set ?P \<union> set ?D" using j by simp
    have "mapper (actors w' ! ?a) = Mapper (Some (PolyData (line (tracked mbs s (dynamicGeom rep ! j)))))"
      by (rule reported_dynamic_mapper[OF r j(1) PD_lt[OF aD] PD_live[OF aD]])
    then show "getMapper (actor info) w' \<noteq> NoMapper"
      using j PD_lt[OF aD] len' by (simp add: getMapper_NoMapper_iff)
  qed
  have d10: "\<forall>a \<in> set (aList (bodies rep' ! 0)).
      position (actors w' ! a) = (0, 0, 0) \<and> orientation (actors w' ! a) = []"
  proof
    fix a assume "a \<in> set (aList (bodies rep' ! 0))"
    then have a0: "a \<in> set (aList (bodies rep ! 0))" by (simp add: rr)
    have aP: "a \<in> set ?P \<union> set ?D"
      using a0 persistent_nth_subset[of 0 rep] p(2,3) by auto
    have un: "\<forall>j. 1 \<le> j \<and> j < getNBodies mbs \<longrightarrow> a \<notin> set (aList (bodies rep ! j))"
      using ground_not_elsewhere[OF p(5) _ a0] p(2,3) by simp
    have "position (actors w' ! a) = position (actors w ! a)"
      by (rule reported_unposed[OF r PD_lt[OF aP] un]) simp_all
    moreover have "orientation (actors w' ! a) = orientation (actors w ! a)"
      by (rule reported_unposed[OF r PD_lt[OF aP] un]) simp_all
    ultimately show "position (actors w' ! a) = (0, 0, 0) \<and> orientation (actors w' ! a) = []"
      using wf a0 by (simp add: wellFormed_def)
  qed
  show ?thesis
    unfolding wellFormed_def
    using p(1,2,3) d5 d6 d7 d8 d9 d10 by (simp add: rr)
qed

subsection \<open>The invariant is kept\<close>

lemma wellFormedI:
  assumes "renderer rep" "0 < getNBodies mbs" "length (bodies rep) = getNBodies mbs"
    "None \<notin> set (ephemeralActors rep)"
    "distinct (ownedActors rep)"
    "\<And>a. a \<in> set (ownedActors rep) \<Longrightarrow> a < length (actors w) \<and> deleteCalls (actors w ! a) = 0"
    "\<And>a. a < length (actors w) \<Longrightarrow> a \<notin> set (ownedActors rep) \<Longrightarrow> deleteCalls (actors w ! a) = 1"
    "\<And>a. a \<in> set (sceneActors w) \<Longrightarrow> a < length (actors w)"
    "\<And>info. info \<in> set (dynamicGeom rep) \<Longrightarrow> getMapper (actor info) w \<noteq> NoMapper"
    "\<And>a. a \<in> set (aList (bodies rep ! 0)) \<Longrightarrow>
       position (actors w ! a) = (0, 0, 0) \<and> orientation (actors w ! a) = []"
  shows "wellFormed mbs (rep, w)"
  using assms unfolding wellFormed_def by simp

lemma concat_map_update:
  "i < length bs \<Longrightarrow>
   concat (map f (bs[i := b])) =
     concat (map f (take i bs)) @ f b @ concat (map f (drop (Suc i) bs))"
  by (simp add: upd_conv_take_nth_drop)

lemma concat_map_nth:
  "i < length bs \<Longrightarrow>
   concat (map f bs) = concat (map f (take i bs)) @ f (bs ! i) @ concat (map f (drop (Suc i) bs))"
  using concat_map_update[of i bs f "bs ! i"] by simp

lemma persistentActors_add_set:
  assumes "i < length (bodies rep)" "aList b = aList (bodies rep ! i) @ [x]"
  shows "set (persistentActors (rep\<lparr>bodies := (bodies rep)[i := b]\<rparr>)) =
           insert x (set (persistentActors rep))"
proof -
  have "set (persistentActors rep) =
      set (concat (map aList (take i (bodies rep)))) \<union> set (aList (bodies rep ! i)) \<union>
      set (concat (map aList (drop (Suc i) (bodies rep))))"
    unfolding persistentActors_def by (subst concat_map_nth[OF assms(1)]) auto
  moreover have "set (persistentActors (rep\<lparr>bodies := (bodies rep)[i := b]\<rparr>)) =
      set (concat (map aList (take i (bodies rep)))) \<union> set (aList b) \<union>
      set (concat (map aList (drop (Suc i) (bodies rep))))"
    unfolding persistentActors_def using assms(1) by (simp add: concat_map_update Un_assoc)
  ultimately show ?thesis using assms(2) by auto
qed

lemma persistentActors_add_distinct:
  assumes "i < length (bodies rep)" "aList b = aList (bodies rep ! i) @ [x]"
    and "distinct (persistentActors rep)" "x \<notin> set (persistentActors rep)"
  shows "distinct (persistentActors (rep\<lparr>bodies := (bodies rep)[i := b]\<rparr>))"
proof -
  have eq: "persistentActors rep =
      concat (map aList (take i (bodies rep))) @ aList (bodies rep ! i) @
      concat (map aList (drop (Suc i) (bodies rep)))"
    unfolding persistentActors_def by (rule concat_map_nth[OF assms(1)])
  have eq': "persistentActors (rep\<lparr>bodies := (bodies rep)[i := b]\<rparr>) =
      concat (map aList (take i (bodies rep))) @ (aList (bodies rep ! i) @ [x]) @
      concat (map aList (drop (Suc i) (bodies rep)))"
    unfolding persistentActors_def using assms(1,2) by (simp add: concat_map_update)
  show ?thesis using assms(3,4) unfolding eq eq' by auto
qed

lemma map_update_same [simp]: "(map f xs)[i := f (xs ! i)] = map f xs"
  by (cases "i < length xs") (simp_all add: list_update_same_conv list_update_beyond)

lemma persistentActors_same:
  assumes "aList b = aList (bodies rep ! i)"
  shows "persistentActors (rep\<lparr>bodies := (bodies rep)[i := b]\<rparr>) = persistentActors rep"
proof -
  have "map aList ((bodies rep)[i := b]) = map aList (bodies rep)"
    using assms by (simp add: map_update)
  then show ?thesis by (simp add: persistentActors_def)
qed

lemma addDecoration_wellFormed:
  assumes wf: "wellFormed mbs (rep, w)" and ok: "addDecoration body X_GD g (rep, w) = Ok st'"
  shows "wellFormed mbs st'"
proof -
  note p = wellFormed_parts[OF wf]
  have inr: "inRange rep body"
    using ok addDecoration_Undefined[of rep body X_GD g w] by auto
  then have i: "nat body < length (bodies rep)" by (rule inRange_nat)
  let ?L = "length (actors w)"
  let ?B = "bodies rep ! nat body"
  let ?B' = "?B\<lparr>aList := aList ?B @ [?L],
               gList := gList ?B @ [g\<lparr>transform := Transform_times X_GD (transform g)\<rparr>]\<rparr>"
  let ?rep' = "rep\<lparr>bodies := (bodies rep)[nat body := ?B'], cameraNeedsToBeReset := True\<rparr>"
  let ?x = "styledActor
                 (if fst (colorRGB g) \<noteq> -1 then colorRGB g else defaultColorRGB ?B)
                 g (Mapper (Some (PolyData (g\<lparr>transform := Transform_times X_GD (transform g)\<rparr>))))"
  let ?w' = "AddActor ?L (w\<lparr>actors := actors w @ [?x]\<rparr>)"
  have st': "st' = (?rep', ?w')" using ok addDecoration_Ok[OF inr p(1), of X_GD g w] by simp
  have fresh: "?L \<notin> set (ownedActors rep)" using wf by (auto simp: wellFormed_def)
  have P': "set (persistentActors ?rep') = insert ?L (set (persistentActors rep))"
    using persistentActors_add_set[OF i, of ?B' ?L] by (simp add: persistentActors_def)
  have dP': "distinct (persistentActors ?rep')"
    using persistentActors_add_distinct[OF i, of ?B' ?L] p(5) fresh
    by (simp add: persistentActors_def ownedActors_def)
  have owned': "set (ownedActors ?rep') = insert ?L (set (ownedActors rep))"
    using P' by (simp add: ownedActors_def)
  have "wellFormed mbs (?rep', ?w')"
  proof (rule wellFormedI)
    show "renderer ?rep'" "0 < getNBodies mbs" "length (bodies ?rep') = getNBodies mbs"
      "None \<notin> set (ephemeralActors ?rep')" using p by simp_all
    show "distinct (ownedActors ?rep')"
      using dP' P' fresh wf by (auto simp: ownedActors_def wellFormed_def)
  next
    fix a assume "a \<in> set (ownedActors ?rep')"
    then consider "a = ?L" | "a \<in> set (ownedActors rep)" using owned' by auto
    then show "a < length (actors ?w') \<and> deleteCalls (actors ?w' ! a) = 0"
    proof cases
      case 1 then show ?thesis by simp
    next
      case 2
      then have "a < ?L \<and> deleteCalls (actors w ! a) = 0" using wf by (simp add: wellFormed_def)
      then show ?thesis by (simp add: nth_append)
    qed
  next
    fix a assume a: "a < length (actors ?w')" "a \<notin> set (ownedActors ?rep')"
    then have "a < ?L" "a \<notin> set (ownedActors rep)" using owned' by auto
    then show "deleteCalls (actors ?w' ! a) = 1" using wf by (simp add: wellFormed_def nth_append)
  next
    fix a assume "a \<in> set (sceneActors ?w')"
    then show "a < length (actors ?w')" using p(14) by (auto simp: less_Suc_eq)
  next
    fix info assume "info \<in> set (dynamicGeom ?rep')"
    then show "getMapper (actor info) ?w' \<noteq> NoMapper"
      using p(15) by (auto simp: getMapper_NoMapper_iff nth_append)
  next
    fix a assume a: "a \<in> set (aList (bodies ?rep' ! 0))"
    show "position (actors ?w' ! a) = (0, 0, 0) \<and> orientation (actors ?w' ! a) = []"
    proof (cases "a = ?L")
      case True then show ?thesis by simp
    next
      case False
      with a i have a0: "a \<in> set (aList (bodies rep ! 0))"
        by (cases "nat body = 0") auto
      then have "a \<in> set (persistentActors rep)"
        using persistent_nth_subset[of 0 rep] p(2,3) by auto
      then have "a < ?L" using p(11) by simp
      then show ?thesis using wf a0 by (simp add: wellFormed_def nth_append)
    qed
  qed
  then show ?thesis using st' by simp
qed

lemma addRubberBandLine_wellFormed:
  assumes wf: "wellFormed mbs (rep, w)" and ok: "addRubberBandLine b1 st1 b2 st2 g (rep, w) = Ok st'"
  shows "wellFormed mbs st'"
proof -
  note p = wellFormed_parts[OF wf]
  let ?L = "length (actors w)"
  let ?info = "\<lparr>actor = ?L, line = g, body1 = b1, body2 = b2, station1 = st1, station2 = st2\<rparr>"
  let ?rep' = "rep\<lparr>dynamicGeom := dynamicGeom rep @ [?info], cameraNeedsToBeReset := True\<rparr>"
  let ?x = "styledActor (if fst (colorRGB g) \<noteq> -1 then colorRGB g else Black) g (Mapper None)"
  let ?w' = "AddActor ?L (w\<lparr>actors := actors w @ [?x]\<rparr>)"
  have st': "st' = (?rep', ?w')" using ok addRubberBandLine_Ok[OF p(1), of b1 st1 b2 st2 g w] by simp
  have fresh: "?L \<notin> set (ownedActors rep)" using wf by (auto simp: wellFormed_def)
  have owned': "set (ownedActors ?rep') = insert ?L (set (ownedActors rep))"
    by (auto simp: ownedActors_def persistentActors_def)
  have "wellFormed mbs (?rep', ?w')"
  proof (rule wellFormedI)
    show "renderer ?rep'" "0 < getNBodies mbs" "length (bodies ?rep') = getNBodies mbs"
      "None \<notin> set (ephemeralActors ?rep')" using p by simp_all
    show "distinct (ownedActors ?rep')"
      using fresh wf by (auto simp: ownedActors_def wellFormed_def persistentActors_def)
  next
    fix a assume "a \<in> set (ownedActors ?rep')"
    then consider "a = ?L" | "a \<in> set (ownedActors rep)" using owned' by auto
    then show "a < length (actors ?w') \<and> deleteCalls (actors ?w' ! a) = 0"
    proof cases
      case 1 then show ?thesis by simp
    next
      case 2
      then have "a < ?L \<and> deleteCalls (actors w ! a) = 0" using wf by (simp add: wellFormed_def)
      then show ?thesis by (simp add: nth_append)
    qed
  next
    fix a assume a: "a < length (actors ?w')" "a \<notin> set (ownedActors ?rep')"
    then have "a < ?L" "a \<notin> set (ownedActors rep)" using owned' by auto
    then show "deleteCalls (actors ?w' ! a) = 1" using wf by (simp add: wellFormed_def nth_append)
  next
    fix a assume "a \<in> set (sceneActors ?w')"
    then show "a < length (actors ?w')" using p(14) by (auto simp: less_Suc_eq)
  next
    fix info assume "info \<in> set (dynamicGeom ?rep')"
    then show "getMapper (actor info) ?w' \<noteq> NoMapper"
      using p(15) by (auto simp: getMapper_NoMapper_iff nth_append)
  next
    fix a assume a0: "a \<in> set (aList (bodies ?rep' ! 0))"
    then have "a \<in> set (persistentActors rep)"
      using persistent_nth_subset[of 0 rep] p(2,3) by auto
    then have "a < ?L" using p(11) by simp
    then show "position (actors ?w' ! a) = (0, 0, 0) \<and> orientation (actors ?w' ! a) = []"
      using wf a0 by (simp add: wellFormed_def nth_append)
  qed
  then show ?thesis using st' by simp
qed

lemma wellFormed_rep_only:
  assumes wf: "wellFormed mbs (rep, w)"
    and "renderer rep' = renderer rep" "map aList (bodies rep') = map aList (bodies rep)"
    and "dynamicGeom rep' = dynamicGeom rep" "ephemeralActors rep' = ephemeralActors rep"
  shows "wellFormed mbs (rep', w)"
proof -
  have len: "length (bodies rep') = length (bodies rep)"
    using assms(3) by (metis length_map)
  have own: "ownedActors rep' = ownedActors rep"
    using assms by (simp add: ownedActors_def persistentActors_def)
  have "0 < length (bodies rep)" using wf by (simp add: wellFormed_def)
  then have "aList (bodies rep' ! 0) = aList (bodies rep ! 0)"
    using assms(3) len by (metis nth_map)
  then show ?thesis using wf assms(2,4,5) len own by (simp add: wellFormed_def)
qed

lemma setDefaultBodyColor_wellFormed:
  "wellFormed mbs (rep, w) \<Longrightarrow> setDefaultBodyColor b rgb rep = Ok rep' \<Longrightarrow> wellFormed mbs (rep', w)"
  by (erule wellFormed_rep_only)
     (auto simp: setDefaultBodyColor_def map_update split: if_splits)

lemma setBodyScale_wellFormed:
  "wellFormed mbs (rep, w) \<Longrightarrow> setBodyScale b sc rep = Ok rep' \<Longrightarrow> wellFormed mbs (rep', w)"
  by (erule wellFormed_rep_only)
     (auto simp: setBodyScale_def map_update split: if_splits)

lemma addEphemeralDecoration_wellFormed:
  "wellFormed mbs (rep, w) \<Longrightarrow> wellFormed mbs (addEphemeralDecoration g rep, w)"
  by (erule wellFormed_rep_only) (simp_all add: addEphemeralDecoration_def)

lemma resetCamera_wellFormed:
  "wellFormed mbs (rep, w) \<Longrightarrow> wellFormed mbs (resetCamera rep, w)"
  by (erule wellFormed_rep_only) (simp_all add: resetCamera_def)

lemma disableDefaultGeometry_wellFormed:
  "wellFormed mbs (rep, w) \<Longrightarrow> wellFormed mbs (disableDefaultGeometry rep, w)"
  by (erule wellFormed_rep_only) (simp_all add: disableDefaultGeometry_def)

lemma report_wellFormed:
  assumes wf: "wellFormed mbs st" and ok: "report mbs msgs s st = Ok st'"
  shows "wellFormed mbs st'"
proof (cases "renWin (fst st)")
  case False
  with ok wf show ?thesis by (simp add: report_def)
next
  case True
  obtain rep w where st: "st = (rep, w)" by (cases st)
  from report_spec[where mbs = mbs and rep = rep and w = w and msgs = msgs and s = s] wf True ok st
  have "reported mbs msgs (realize mbs s Position) rep w (fst st') (snd st')" by simp
  from reported_wellFormed[OF _ this] wf st show ?thesis by simp
qed

lemma addDecoration_preserves:
  "wellFormed mbs st \<Longrightarrow> addDecoration body X_GD g st = Ok st' \<Longrightarrow> wellFormed mbs st'"
  by (cases st) (auto dest: addDecoration_wellFormed)

lemma onRep_Ok_iff: "onRep f st = Ok st' \<longleftrightarrow> (\<exists>r. f (fst st) = Ok r \<and> st' = (r, snd st))"
  by (cases "f (fst st)") (auto simp: onRep_def)

lemma wellFormed_scale:
  "wellFormed mbs (r, w) \<Longrightarrow>
   wellFormed mbs (r\<lparr>bodies := (bodies r)[i := (bodies r ! i)\<lparr>scale := v\<rparr>]\<rparr>, w)"
  by (erule wellFormed_rep_only) (simp_all add: map_update)

lemma colorAndScaleStep_preserves:
  assumes wf: "wellFormed mbs st" and ok: "colorAndScaleStep mbs i st = Ok st'"
  shows "wellFormed mbs st'"
proof -
  obtain rep w where st: "st = (rep, w)" by (cases st)
  let ?M = "getDefaultOutboardFrame mbs (int i)"
  let ?Mb = "getDefaultInboardFrame mbs (int i)"
  let ?parent = "getParentMobilizedBodyId mbs (int i)"
  from ok obtain r where r: "setDefaultBodyColor (int i)
      (if ?parent = 0 then DefaultBaseBodyColor else DefaultBodyColor) rep = Ok r"
    by (auto simp: colorAndScaleStep_def Let_def andThen_Ok_iff onRep_Ok_iff st)
  have wr: "wellFormed mbs (r, w)" using setDefaultBodyColor_wellFormed[OF _ r] wf st by simp
  let ?rep2 = "if Vec3_norm (T ?M) > scale (bodies r ! i)
               then r\<lparr>bodies := (bodies r)[i := (bodies r ! i)\<lparr>scale := Vec3_norm (T ?M)\<rparr>]\<rparr>
               else r"
  let ?rep3 = "if Vec3_norm (T ?Mb) > scale (bodies ?rep2 ! nat ?parent)
               then ?rep2\<lparr>bodies := (bodies ?rep2)
                      [nat ?parent := (bodies ?rep2 ! nat ?parent)\<lparr>scale := Vec3_norm (T ?Mb)\<rparr>]\<rparr>
               else ?rep2"
  have w2: "wellFormed mbs (?rep2, w)" using wr by (simp add: wellFormed_scale)
  have w3: "wellFormed mbs (?rep3, w)"
    using wellFormed_scale[OF w2, of "nat ?parent" "Vec3_norm (T ?Mb)"] w2
    by (simp split: if_splits)
  have "st' = (?rep3, w)"
    using ok r st by (simp add: colorAndScaleStep_def Let_def andThen_def onRep_def split: if_splits)
  with w3 show ?thesis by simp
qed

lemma andThen_wellFormed:
  assumes "andThen m f = Ok st'" and "\<And>st1. m = Ok st1 \<Longrightarrow> wellFormed mbs st1"
    and "\<And>st1. wellFormed mbs st1 \<Longrightarrow> f st1 = Ok st' \<Longrightarrow> wellFormed mbs st'"
  shows "wellFormed mbs st'"
  using assms by (auto simp: andThen_Ok_iff)

lemma optional_addDecoration_preserves:
  "wellFormed mbs st \<Longrightarrow> (if c then addDecoration b X g st else Ok st) = Ok st' \<Longrightarrow>
   wellFormed mbs st'"
  by (auto split: if_splits dest: addDecoration_preserves)

lemma jointFramesStep_preserves:
  assumes wf: "wellFormed mbs st" and ok: "jointFramesStep mbs i sc st = Ok st'"
  shows "wellFormed mbs st'"
proof -
  let ?M = "getDefaultOutboardFrame mbs (int i)"
  let ?Mb = "getDefaultInboardFrame mbs (int i)"
  let ?parent = "getParentMobilizedBodyId mbs (int i)"
  let ?A = "if T ?M \<noteq> Vec3_zero \<or> R ?M \<noteq> Mat33_one
            then andThen (addDecoration (int i) ?M (DecorativeFrame (sc * 0.25)) st)
                   (\<lambda>st1. if T ?M \<noteq> Vec3_zero
                      then addDecoration (int i) Transform_identity
                             (DecorativeLine Vec3_zero (T ?M)) st1
                      else Ok st1)
            else Ok st"
  let ?B = "\<lambda>st2. case getDefaultBodyColor (fst st2) (int i) of
               Ok c \<Rightarrow>
                 andThen
                   (addDecoration ?parent ?Mb
                      ((DecorativeFrame (scale (bodies (fst st) ! nat ?parent) * 0.25))\<lparr>colorRGB := c\<rparr>) st2)
                   (\<lambda>st3. if T ?Mb \<noteq> Vec3_zero
                      then addDecoration ?parent Transform_identity
                             (DecorativeLine Vec3_zero (T ?Mb)) st3
                      else Ok st3)
             | _ \<Rightarrow> Undefined"
  have inr: "inRange (fst st) ?parent"
    using ok by (cases "inRange (fst st) ?parent") (simp_all add: jointFramesStep_def)
  then have "jointFramesStep mbs i sc st = andThen ?A ?B"
    by (simp add: jointFramesStep_def Let_def)
  with ok have "andThen ?A ?B = Ok st'" by simp
  then obtain st2 where A: "?A = Ok st2" and B: "?B st2 = Ok st'"
    unfolding andThen_Ok_iff by blast
  have w2: "wellFormed mbs st2"
  proof (cases "T ?M \<noteq> Vec3_zero \<or> R ?M \<noteq> Mat33_one")
    case True
    with A have "andThen (addDecoration (int i) ?M (DecorativeFrame (sc * 0.25)) st)
                   (\<lambda>st1. if T ?M \<noteq> Vec3_zero
                      then addDecoration (int i) Transform_identity
                             (DecorativeLine Vec3_zero (T ?M)) st1
                      else Ok st1) = Ok st2" by simp
    then show ?thesis
      by (rule andThen_wellFormed)
         (auto dest: addDecoration_preserves[OF wf] optional_addDecoration_preserves)
  next
    case False
    with A wf show ?thesis by simp
  qed
  from B obtain c where "andThen
                   (addDecoration ?parent ?Mb
                      ((DecorativeFrame (scale (bodies (fst st) ! nat ?parent) * 0.25))\<lparr>colorRGB := c\<rparr>) st2)
                   (\<lambda>st3. if T ?Mb \<noteq> Vec3_zero
                      then addDecoration ?parent Transform_identity
                             (DecorativeLine Vec3_zero (T ?Mb)) st3
                      else Ok st3) = Ok st'"
    by (auto split: outcome.splits)
  then show ?thesis
    by (rule andThen_wellFormed)
       (auto dest: addDecoration_preserves[OF w2] optional_addDecoration_preserves)
qed

lemma defaultGeometryStep_preserves:
  assumes wf: "wellFormed mbs st" and ok: "defaultGeometryStep mbs i st = Ok st'"
  shows "wellFormed mbs st'"
proof -
  let ?sc = "scale (bodies (fst st) ! i)"
  let ?comPos_B = "getMassCenter mbs (int i)"
  let ?A1 = "addDecoration (int i) Transform_identity ((DecorativeFrame (?sc * 0.5))\<lparr>lineThickness := 2\<rparr>) st"
  let ?A2 = "\<lambda>st1. if i > 0 then jointFramesStep mbs i ?sc st1 else Ok st1"
  let ?A3 = "\<lambda>st2. addDecoration (int i) (Transform_of_Vec3 ?comPos_B)
               ((DecorativeSphere (?sc * 0.05))\<lparr>colorRGB := Purple, representation := DrawPoints\<rparr>) st2"
  let ?A4 = "\<lambda>st3. if ?comPos_B \<noteq> Vec3_zero
              then addDecoration (int i) Transform_identity
                     (DecorativeLine Vec3_zero ?comPos_B) st3
              else Ok st3"
  have inr: "inRange (fst st) (int i)"
    using ok by (cases "inRange (fst st) (int i)") (simp_all add: defaultGeometryStep_def)
  then have "defaultGeometryStep mbs i st =
      andThen ?A1 (\<lambda>st1. andThen (?A2 st1) (\<lambda>st2. andThen (?A3 st2) ?A4))"
    by (simp add: defaultGeometryStep_def Let_def)
  with ok have "andThen ?A1 (\<lambda>st1. andThen (?A2 st1) (\<lambda>st2. andThen (?A3 st2) ?A4)) = Ok st'"
    by simp
  then obtain st1 st2 st3 where a1: "?A1 = Ok st1" and a2: "?A2 st1 = Ok st2"
    and a3: "?A3 st2 = Ok st3" and a4: "?A4 st3 = Ok st'"
    unfolding andThen_Ok_iff by blast
  have w1: "wellFormed mbs st1" by (rule addDecoration_preserves[OF wf a1])
  have w2: "wellFormed mbs st2"
  proof (cases "i > 0")
    case True
    with a2 have "jointFramesStep mbs i ?sc st1 = Ok st2" by simp
    then show ?thesis by (rule jointFramesStep_preserves[OF w1])
  next
    case False
    with a2 w1 show ?thesis by simp
  qed
  have w3: "wellFormed mbs st3" by (rule addDecoration_preserves[OF w2 a3])
  show ?thesis by (rule optional_addDecoration_preserves[OF w3 a4])
qed

lemma wellFormed_counters:
  "wellFormed mbs (rep, w) \<Longrightarrow> actors w' = actors w \<Longrightarrow> sceneActors w' = sceneActors w \<Longrightarrow>
   wellFormed mbs (rep, w')"
  by (simp add: wellFormed_def getMapper_NoMapper_iff)

lemma VTKReporterRep_new_wellFormed:
  assumes ok: "VTKReporterRep_new mbs bodyScaleDefault reporter = Ok st"
  shows "wellFormed mbs st"
proof -
  let ?n = "getNBodies mbs"
  let ?rep1 = "\<lparr>myHandle = Some reporter, cameraNeedsToBeReset = True,
                  defaultBodyScaleForAutoGeometry = bodyScaleDefault,
                  bodies = replicate ?n (newPerBodyInfo\<lparr>scale := bodyScaleDefault\<rparr>),
                  dynamicGeom = [], ephemeralGeometry = [], ephemeralActors = [],
                  renWin = True, renderer = True\<rparr>"
  have top: "systemTopologyHasBeenRealized mbs"
    using ok by (auto simp: VTKReporterRep_new_def Let_def split: if_splits)
  from ok top obtain st2 st3 st4 st5 where
    s2: "onRep (setDefaultBodyColor 0 DefaultGroundBodyColor) (?rep1, newWorld) = Ok st2"
    and s3: "forEach (colorAndScaleStep mbs) [1..<?n] st2 = Ok st3"
    and s4: "(if defaultBodyScaleForAutoGeometry (fst st3) \<noteq> 0
              then forEach (defaultGeometryStep mbs) [0..<?n] st3 else Ok st3) = Ok st4"
    and s5: "forEach (\<lambda>g. addDecoration (bodyId g) Transform_identity g)
               (calcDecorativeGeometry mbs (defaultState mbs) Topology) st4 = Ok st5"
    and st: "st = (fst st5, Render (ResetCamera (snd st5)))"
    by (auto simp: VTKReporterRep_new_def Let_def andThen_Ok_iff)
  from s2 have pos: "0 < ?n"
    by (auto simp: onRep_Ok_iff setDefaultBodyColor_def inRange_def split: if_splits)
  have "wellFormed mbs (?rep1, newWorld)"
    using pos by (intro wellFormedI) (simp_all add: ownedActors_def persistentActors_def
        newPerBodyInfo_def newWorld_def)
  with s2 have w2: "wellFormed mbs st2"
    by (auto simp: onRep_Ok_iff dest: setDefaultBodyColor_wellFormed)
  have w3: "wellFormed mbs st3"
    by (rule forEach_preserves[where P = "wellFormed mbs", OF s3 w2]) (rule colorAndScaleStep_preserves)
  have w4: "wellFormed mbs st4"
  proof (cases "defaultBodyScaleForAutoGeometry (fst st3) \<noteq> 0")
    case True
    with s4 have "forEach (defaultGeometryStep mbs) [0..<?n] st3 = Ok st4" by simp
    from forEach_preserves[where P = "wellFormed mbs", OF this w3] show ?thesis
      using defaultGeometryStep_preserves by blast
  next
    case False
    with s4 w3 show ?thesis by simp
  qed
  have w5: "wellFormed mbs st5"
    by (rule forEach_preserves[where P = "wellFormed mbs", OF s5 w4]) (rule addDecoration_preserves)
  show ?thesis
    unfolding st using wellFormed_counters[of mbs "fst st5" "snd st5" "Render (ResetCamera (snd st5))"] w5
    by (simp add: Render_def ResetCamera_def)
qed

lemma reachable_wellFormed: "reachable mbs st \<Longrightarrow> wellFormed mbs st"
proof (induction rule: reachable.induct)
  case (constructed bodyScaleDefault reporter st)
  then show ?case by (rule VTKReporterRep_new_wellFormed)
next
  case (decorated st body X_GD g st')
  then show ?case by (auto intro: addDecoration_preserves)
next
  case (banded st b1 p1 b2 p2 g st')
  then show ?case by (cases st) (auto intro: addRubberBandLine_wellFormed)
next
  case (queued rep w g)
  then show ?case by (simp add: addEphemeralDecoration_wellFormed)
next
  case (coloured rep w b rgb rep')
  then show ?case by (auto intro: setDefaultBodyColor_wellFormed)
next
  case (scaled rep w b sc rep')
  then show ?case by (auto intro: setBodyScale_wellFormed)
next
  case (reframed rep w)
  then show ?case by (simp add: resetCamera_wellFormed)
next
  case (plain rep w)
  then show ?case by (simp add: disableDefaultGeometry_wellFormed)
next
  case (cycled st msgs s st')
  then show ?case by (auto intro: report_wellFormed)
qed

lemmas backend_defs = vtkActor_New_def updActor_def SetPosition_def SetOrientation000_def
  RotateWXYZ_def SetColor_def SetOpacity_def SetLineWidth_def SetRepresentation_def SetMapper_def
  Delete_def AddActor_def RemoveActor_def ResetCamera_def Render_def implementGeometry_def
  newActor_def newWorld_def VTK_POINTS_def VTK_WIREFRAME_def VTK_SURFACE_def getMapper_def
  styledActor_def

lemmas geom_defs = Transform_times_def Transform_apply_def Transform_identity_def
  Transform_of_Vec3_def Mat33_one_def Vec3_zero_def Vec3_norm_def newGeometry_def
  DecorativeFrame_def DecorativeLine_def DecorativeSphere_def setEndpoints_def Black_def Gray_def
  Red_def Green_def Purple_def DefaultGroundBodyColor_def DefaultBaseBodyColor_def
  DefaultBodyColor_def

lemmas engine_defs = onRep_def inRange_def setDefaultBodyColor_def getDefaultBodyColor_def
  setBodyScale_def applyProperties_def addDecoration_def addRubberBandLine_def
  addEphemeralDecoration_def getMobilizedBodyTransform_def outWithTheOld_def resize_def
  inWithTheNew_def displayEphemeralGeometry_def setConfiguration_def setRubberBandLine_def
  bodyStep_def rubberBandStep_def stagesToMine_def allStages_def
  calcDecorativeGeometryAndAppend_def report_def clone_def VTKReporter_copy_def
  deleteEphemeral_def deletePointers_def colorAndScaleStep_def jointFramesStep_def
  defaultGeometryStep_def VTKReporterRep_new_def newPerBodyInfo_def andThen_def Let_def upt_rec
  numeral_2_eq_2 numeral_3_eq_3

lemma exampleEngine_constructed: "VTKReporterRep_new exampleSystem 0 1 = Ok exampleEngine"
  by (simp add: exampleSystem_def exampleEngine_def engine_defs geom_defs backend_defs)

lemma closedEngine_reported: "report exampleSystem [WM_QUIT] 0 exampleEngine = Ok closedEngine"
  by (simp add: exampleSystem_def exampleEngine_def closedEngine_def engine_defs geom_defs backend_defs)

subsection \<open>Cycles of a live engine\<close>

lemma report_reported:
  assumes "wellFormed mbs st" "renWin (fst st)" "report mbs msgs s st = Ok st'"
  shows "reported mbs msgs (realize mbs s Position) (fst st) (snd st) (fst st') (snd st')"
    and "validLines mbs (dynamicGeom (fst st))"
    and "validItems mbs (ephemeralGeometry (fst st) @ minedGeometry mbs (realize mbs s Position))"
  using report_spec[where mbs = mbs and rep = "fst st" and w = "snd st" and msgs = msgs and s = s] assms
  by simp_all

lemma posed_pose:
  "position (posed mbs X x) = T X"
  "orientation (posed mbs X x) =
     (case convertToAngleAxis mbs (R X) of
        (av0, av1, av2, av3) \<Rightarrow> [(av0 * RadiansToDegrees, av1, av2, av3)])"
  by (simp_all add: posed_def split: prod.splits)

lemma report_tracks:
  assumes wf: "wellFormed mbs st" and ready: "renWin (fst st)" and ok: "report mbs msgs s st = Ok st'"
    and i: "i < length (dynamicGeom (fst st))"
  shows "dynamicGeom (fst st') ! i = tracked mbs (realize mbs s Position) (dynamicGeom (fst st) ! i)"
    and "length (dynamicGeom (fst st')) = length (dynamicGeom (fst st))"
    and "mapper (actors (snd st') ! actor (dynamicGeom (fst st) ! i)) =
           Mapper (Some (PolyData (line (dynamicGeom (fst st') ! i))))"
    and "deleteCalls (actors (snd st') ! actor (dynamicGeom (fst st) ! i)) = 0"
proof -
  let ?s = "realize mbs s Position"
  obtain rep w where st: "st = (rep, w)" by (cases st)
  note p = wellFormed_parts[OF wf[unfolded st]]
  have r: "reported mbs msgs ?s rep w (fst st') (snd st')"
    using report_reported(1)[OF wf ready ok] by (simp add: st)
  have dg: "dynamicGeom (fst st') = map (tracked mbs ?s) (dynamicGeom rep)"
    by (rule reported_rep(3)[OF r])
  from i have i': "i < length (dynamicGeom rep)" by (simp add: st)
  then have mem: "dynamicGeom rep ! i \<in> set (dynamicGeom rep)" by simp
  show nth: "dynamicGeom (fst st') ! i = tracked mbs ?s (dynamicGeom (fst st) ! i)"
    using i' by (simp add: dg st)
  show "length (dynamicGeom (fst st')) = length (dynamicGeom (fst st))"
    by (simp add: dg st)
  have bound: "actor (dynamicGeom rep ! i) < length (actors w)" using p(12) mem by blast
  have live: "actor (dynamicGeom rep ! i) \<notin> set (pointees (ephemeralActors rep))"
    using p(10) mem by blast
  show "mapper (actors (snd st') ! actor (dynamicGeom (fst st) ! i)) =
           Mapper (Some (PolyData (line (dynamicGeom (fst st') ! i))))"
    using reported_dynamic_mapper[OF r i' bound live] by (simp add: nth st)
  have "wellFormed mbs (fst st', snd st')" using report_wellFormed[OF wf ok] by simp
  note p' = wellFormed_parts[OF this]
  have "tracked mbs ?s (dynamicGeom rep ! i) \<in> set (dynamicGeom (fst st'))"
    using mem by (simp add: dg)
  with p'(12) have "deleteCalls (actors (snd st') ! actor (tracked mbs ?s (dynamicGeom rep ! i))) = 0"
    by blast
  then show "deleteCalls (actors (snd st') ! actor (dynamicGeom (fst st) ! i)) = 0"
    by (simp add: st)
qed

lemma line_tracked:
  "line (tracked mbs s info) =
     (line info)\<lparr>shape := LineShape (Transform_apply (getBodyTransform mbs s (body1 info)) (station1 info))
                                   (Transform_apply (getBodyTransform mbs s (body2 info)) (station2 info))\<rparr>"
  by (simp add: tracked_def setEndpoints_def)

lemma report_succeeds:
  assumes "wellFormed mbs st" "renWin (fst st)" "validLines mbs (dynamicGeom (fst st))"
    and "validItems mbs (ephemeralGeometry (fst st) @ minedGeometry mbs (realize mbs s Position))"
  shows "\<exists>st'. report mbs msgs s st = Ok st'"
  using report_spec[where mbs = mbs and rep = "fst st" and w = "snd st" and msgs = msgs and s = s] assms
  by (cases "report mbs msgs s st") simp_all

lemma validLines_tracked [simp]: "validLines mbs (map (tracked mbs s) dg) = validLines mbs dg"
  by (simp add: validLines_def)

lemma reported_scene:
  "reported mbs msgs s rep w rep' w' \<Longrightarrow>
   sceneActors w' =
     filter (\<lambda>b. b \<notin> set (pointees (ephemeralActors rep))) (sceneActors w) @
     [length (actors w)..<length (actors w) + length (ephemeralGeometry rep @ minedGeometry mbs s)]"
  by (auto simp: reported_def)

lemma report_retires:
  assumes wf: "wellFormed mbs st" and ready: "renWin (fst st)" and ok: "report mbs msgs s st = Ok st'"
  shows "ephemeralActors (fst st') = map Some [length (actors (snd st))..<length (actors (snd st'))]"
    and "ephemeralGeometry (fst st') = []"
    and "length (actors (snd st')) =
           length (actors (snd st)) +
           length (ephemeralGeometry (fst st) @ minedGeometry mbs (realize mbs s Position))"
    and "\<forall>a \<in> set (pointees (ephemeralActors (fst st))).
           deleteCalls (actors (snd st') ! a) = 1 \<and> a \<notin> set (sceneActors (snd st'))"
    and "validLines mbs (dynamicGeom (fst st'))"
proof -
  let ?s = "realize mbs s Position"
  obtain rep w where st: "st = (rep, w)" by (cases st)
  note p = wellFormed_parts[OF wf[unfolded st]]
  have r: "reported mbs msgs ?s rep w (fst st') (snd st')"
    using report_reported(1)[OF wf ready ok] by (simp add: st)
  show len: "length (actors (snd st')) =
           length (actors (snd st)) +
           length (ephemeralGeometry (fst st) @ minedGeometry mbs (realize mbs s Position))"
    using reported_length[OF r] by (simp add: st)
  show "ephemeralActors (fst st') = map Some [length (actors (snd st))..<length (actors (snd st'))]"
    using reported_rep(5)[OF r] len by (simp add: st)
  show "ephemeralGeometry (fst st') = []" by (rule reported_rep(4)[OF r])
  show "validLines mbs (dynamicGeom (fst st'))"
    using report_reported(2)[OF wf ready ok] reported_rep(3)[OF r] by (simp add: st)
  show "\<forall>a \<in> set (pointees (ephemeralActors (fst st))).
           deleteCalls (actors (snd st') ! a) = 1 \<and> a \<notin> set (sceneActors (snd st'))"
  proof
    fix a assume "a \<in> set (pointees (ephemeralActors (fst st)))"
    then have old: "a \<in> set (pointees (ephemeralActors rep))" by (simp add: st)
    with p(13) have a: "a < length (actors w)" and d: "deleteCalls (actors w ! a) = 0" by auto
    have "deleteCalls (actors (snd st') ! a) = 1"
      using reported_released[OF r a old p(7)] d by simp
    moreover have "a \<notin> set (sceneActors (snd st'))"
      using old a by (simp add: reported_scene[OF r])
    ultimately show "deleteCalls (actors (snd st') ! a) = 1 \<and> a \<notin> set (sceneActors (snd st'))" ..
  qed
qed

lemma reported_counters:
  assumes "reported mbs msgs s rep w rep' w'"
  shows "cameraResets w' = (if cameraNeedsToBeReset rep then Suc (cameraResets w) else cameraResets w)"
    and "renders w' = Suc (renders w)" and "rendererDeletes w' = rendererDeletes w"
    and "renWinDeletes w' = (if WM_QUIT \<in> set msgs then Suc (renWinDeletes w) else renWinDeletes w)"
  using assms by (auto simp: reported_def)

lemma queue_fields [simp]:
  "cameraNeedsToBeReset (foldl (\<lambda>r g. addEphemeralDecoration g r) rep gs) = cameraNeedsToBeReset rep"
  "renWin (foldl (\<lambda>r g. addEphemeralDecoration g r) rep gs) = renWin rep"
  "ephemeralGeometry (foldl (\<lambda>r g. addEphemeralDecoration g r) rep gs) = ephemeralGeometry rep @ gs"
  by (induction gs arbitrary: rep) (simp_all add: addEphemeralDecoration_def)

lemma queue_wellFormed:
  "wellFormed mbs (rep, w) \<Longrightarrow> wellFormed mbs (foldl (\<lambda>r g. addEphemeralDecoration g r) rep gs, w)"
  by (induction gs arbitrary: rep) (simp_all add: addEphemeralDecoration_wellFormed)

lemma resolved_styledActor: "resolved c d (styledActor c' d m) \<longleftrightarrow>
    (if fst (colorRGB d) \<noteq> -1 then colorRGB d else c) = c'"
  by (auto simp: resolved_def styledActor_def newActor_def)

lemma resolved_styledActor_same:
  "resolved c d (styledActor (if fst (colorRGB d) \<noteq> -1 then colorRGB d else c) d m)"
  by (simp add: resolved_def styledActor_def newActor_def)

lemma forEach_mapOutcome:
  assumes "\<And>i st. body' i (f st) = mapOutcome f (body i st)"
  shows "forEach body' xs (f st) = mapOutcome f (forEach body xs st)"
proof (induction xs arbitrary: st)
  case Nil
  show ?case by simp
next
  case (Cons i rest)
  show ?case by (cases "body i st") (simp_all add: assms Cons.IH)
qed

lemma enqueued_fields [simp]:
  "bodies (fst (enqueued q st)) = bodies (fst st)"
  "dynamicGeom (fst (enqueued q st)) = dynamicGeom (fst st)"
  "renWin (fst (enqueued q st)) = renWin (fst st)"
  "snd (enqueued q st) = snd st"
  "ephemeralGeometry (fst (enqueued q st)) = ephemeralGeometry (fst st) @ q"
  by (simp_all add: enqueued_def)

lemma bodyStep_enqueued:
  "bodyStep (mbs\<lparr>calcDecorativeGeometry := c\<rparr>) s i (enqueued q st) =
     mapOutcome (enqueued q) (bodyStep mbs s i st)"
  by (simp add: bodyStep_def getMobilizedBodyTransform_def setConfiguration_def inRange_def
      enqueued_def)

lemma rubberBandStep_enqueued:
  "rubberBandStep (mbs\<lparr>calcDecorativeGeometry := c\<rparr>) s i (enqueued q st) =
     mapOutcome (enqueued q) (rubberBandStep mbs s i st)"
  by (simp add: rubberBandStep_def getMobilizedBodyTransform_def setRubberBandLine_def Let_def
      enqueued_def split: option.splits vtkMapper.splits)

lemma getMobilizedBodyTransform_unmined:
  "getMobilizedBodyTransform (mbs\<lparr>calcDecorativeGeometry := c\<rparr>) = getMobilizedBodyTransform mbs"
  by (intro ext) (auto simp: getMobilizedBodyTransform_def)

lemma inWithTheNew_unmined:
  "inWithTheNew (mbs\<lparr>calcDecorativeGeometry := c\<rparr>) s = inWithTheNew mbs s"
  by (intro ext) (simp add: inWithTheNew_def getMobilizedBodyTransform_unmined)

lemma displayEphemeralGeometry_unmined:
  "displayEphemeralGeometry (mbs\<lparr>calcDecorativeGeometry := c\<rparr>) s = displayEphemeralGeometry mbs s"
  by (intro ext) (simp add: displayEphemeralGeometry_def inWithTheNew_unmined)

lemma foldl_enqueue:
  "(foldl (\<lambda>r g. addEphemeralDecoration g r) rep q, w) = enqueued q (rep, w)"
  by (induction q arbitrary: rep) (simp_all add: enqueued_def addEphemeralDecoration_def)

lemma report_enqueued:
  assumes ready: "renWin rep"
  shows "report (mbs\<lparr>calcDecorativeGeometry := \<lambda>s stage. []\<rparr>) msgs s
           (enqueued (minedGeometry mbs (realize mbs s Position)) (rep, w)) =
         (case forEach (bodyStep mbs (realize mbs s Position)) [1..<getNBodies mbs] (rep, w) of
            Ok st1 \<Rightarrow>
              (case forEach (rubberBandStep mbs (realize mbs s Position))
                      [0..<length (dynamicGeom (fst st1))] st1 of
                 Ok st2 \<Rightarrow> report mbs msgs s (rep, w)
               | Raised e st2 \<Rightarrow>
                   Raised e (enqueued (minedGeometry mbs (realize mbs s Position)) st2)
               | Undefined \<Rightarrow> Undefined)
          | Raised e st1 \<Rightarrow> Raised e (enqueued (minedGeometry mbs (realize mbs s Position)) st1)
          | Undefined \<Rightarrow> Undefined)"
proof -
  let ?mbs = "mbs\<lparr>calcDecorativeGeometry := \<lambda>s stage. []\<rparr>"
  let ?s = "realize mbs s Position"
  let ?q = "minedGeometry mbs ?s"
  have b: "forEach (bodyStep ?mbs ?s) xs (enqueued ?q st) =
      mapOutcome (enqueued ?q) (forEach (bodyStep mbs ?s) xs st)" for xs st
    by (rule forEach_mapOutcome) (rule bodyStep_enqueued)
  have r: "forEach (rubberBandStep ?mbs ?s) xs (enqueued ?q st) =
      mapOutcome (enqueued ?q) (forEach (rubberBandStep mbs ?s) xs st)" for xs st
    by (rule forEach_mapOutcome) (rule rubberBandStep_enqueued)
  have m: "foldl (\<lambda>rep stage. calcDecorativeGeometryAndAppend ?mbs ?s stage rep)
        (fst (enqueued ?q st2)) stages = (fst st2)\<lparr>ephemeralGeometry := ephemeralGeometry (fst st2) @ ?q\<rparr>"
    for st2 stages
    by (induction stages) (simp_all add: calcDecorativeGeometryAndAppend_def enqueued_def)
  have m': "foldl (\<lambda>rep stage. calcDecorativeGeometryAndAppend mbs ?s stage rep)
        (fst st2) (stagesToMine (getSystemStage mbs ?s)) =
        (fst st2)\<lparr>ephemeralGeometry := ephemeralGeometry (fst st2) @ ?q\<rparr>" for st2
    by (simp add: calcDecorativeGeometryAndAppend_foldl minedGeometry_def)
  show ?thesis
  proof (cases "forEach (bodyStep mbs ?s) [1..<getNBodies mbs] (rep, w)")
    case (Ok st1)
    show ?thesis
    proof (cases "forEach (rubberBandStep mbs ?s) [0..<length (dynamicGeom (fst st1))] st1")
      case (Ok st2)
      with \<open>forEach (bodyStep mbs ?s) [1..<getNBodies mbs] (rep, w) = Ok st1\<close> ready show ?thesis
        by (simp add: report_def b r m m' andThen_simps displayEphemeralGeometry_unmined
            del: upt_Suc)
    next
      case (Raised e st2)
      with \<open>forEach (bodyStep mbs ?s) [1..<getNBodies mbs] (rep, w) = Ok st1\<close> ready show ?thesis
        by (simp add: report_def b r andThen_simps del: upt_Suc)
    next
      case Undefined
      with \<open>forEach (bodyStep mbs ?s) [1..<getNBodies mbs] (rep, w) = Ok st1\<close> ready show ?thesis
        by (simp add: report_def b r andThen_simps del: upt_Suc)
    qed
  next
    case (Raised e st1)
    with ready show ?thesis by (simp add: report_def b andThen_simps del: upt_Suc)
  next
    case Undefined
    with ready show ?thesis by (simp add: report_def b andThen_simps del: upt_Suc)
  qed
qed


lemma allStages_complete: "set allStages = UNIV"
proof -
  have "stage \<in> set allStages" for stage by (cases stage) (simp_all add: allStages_def)
  then show ?thesis by auto
qed

lemma allStages_increasing: "sorted_wrt (\<lambda>a b. stageLevel a < stageLevel b) allStages"
  by (simp add: allStages_def)

lemma decorations_posed:
  assumes reach: "reachable mbs st" and ready: "renWin (fst st)"
    and add: "addDecoration body X_GD g st = Ok st1"
    and rep: "report mbs msgs s st1 = Ok st2"
  shows "length (actors (snd st)) \<in> set (aList (bodies (fst st2) ! nat body)) \<and>
    (\<forall>a \<in> set (aList (bodies (fst st2) ! nat body)).
       if body = 0
       then position (actors (snd st2) ! a) = (0, 0, 0) \<and> orientation (actors (snd st2) ! a) = []
       else position (actors (snd st2) ! a) =
              T (getBodyTransform mbs (realize mbs s Position) body) \<and>
            orientation (actors (snd st2) ! a) =
              (case convertToAngleAxis mbs (R (getBodyTransform mbs (realize mbs s Position) body)) of
                 (av0, av1, av2, av3) \<Rightarrow> [(av0 * RadiansToDegrees, av1, av2, av3)])) \<and>
    (\<forall>j. 1 \<le> j \<and> j < getNBodies mbs \<longrightarrow>
       (\<forall>a \<in> set (aList (bodies (fst st2) ! j)).
          position (actors (snd st2) ! a) =
            T (getBodyTransform mbs (realize mbs s Position) (int j)) \<and>
          orientation (actors (snd st2) ! a) =
            (case convertToAngleAxis mbs (R (getBodyTransform mbs (realize mbs s Position) (int j))) of
               (av0, av1, av2, av3) \<Rightarrow> [(av0 * RadiansToDegrees, av1, av2, av3)])))"
proof -
  obtain rep0 w0 where st: "st = (rep0, w0)" by (cases st)
  have wf: "wellFormed mbs st" by (rule reachable_wellFormed[OF reach])
  have inr: "inRange rep0 body"
    using add addDecoration_Undefined[of rep0 body X_GD g w0] st by auto
  have ren: "renderer rep0" using wf st by (simp add: wellFormed_def)
  note eq = addDecoration_Ok[OF inr ren, of X_GD g w0]
  have wf1: "wellFormed mbs st1" by (rule addDecoration_preserves[OF wf add])
  have ready1: "renWin (fst st1)" using add eq st ready by auto
  let ?s = "realize mbs s Position"
  have r: "reported mbs msgs ?s (fst st1) (snd st1) (fst st2) (snd st2)"
    by (rule report_reported(1)[OF wf1 ready1 rep])
  have b2: "bodies (fst st2) = bodies (fst st1)" by (rule reported_rep(1)[OF r])
  obtain rep1 w1 where st1: "st1 = (rep1, w1)" by (cases st1)
  note p1 = wellFormed_parts[OF wf1[unfolded st1]]
  have new: "length (actors (snd st)) \<in> set (aList (bodies (fst st2) ! nat body))"
    using add eq st inRange_nat[OF inr] by (auto simp: b2)
  have moving: "position (actors (snd st2) ! a) = T (getBodyTransform mbs ?s (int j)) \<and>
              orientation (actors (snd st2) ! a) =
                (case convertToAngleAxis mbs (R (getBodyTransform mbs ?s (int j))) of
                   (av0, av1, av2, av3) \<Rightarrow> [(av0 * RadiansToDegrees, av1, av2, av3)])"
    if j: "1 \<le> j \<and> j < getNBodies mbs" and a: "a \<in> set (aList (bodies (fst st2) ! j))" for j a
  proof -
    from a have a1: "a \<in> set (aList (bodies rep1 ! j))" by (simp add: b2 st1)
    then have "a \<in> set (persistentActors rep1)"
      using persistent_nth_subset[of j rep1] j p1(3) by auto
    then have lt: "a < length (actors w1)" using p1(11) by simp
    have "position (actors (snd st2) ! a) = position (posed mbs (getBodyTransform mbs ?s (int j)) (actors w1 ! a))"
      using reported_posed[OF r[unfolded st1 fst_conv snd_conv] lt _ _ a1, of position] j by simp
    moreover have "orientation (actors (snd st2) ! a) =
        orientation (posed mbs (getBodyTransform mbs ?s (int j)) (actors w1 ! a))"
      using reported_posed[OF r[unfolded st1 fst_conv snd_conv] lt _ _ a1, of orientation] j by simp
    ultimately show ?thesis by (simp add: posed_pose)
  qed
  have wf2: "wellFormed mbs st2" by (rule report_wellFormed[OF wf1 rep])
  then have ground: "\<forall>a \<in> set (aList (bodies (fst st2) ! 0)).
           position (actors (snd st2) ! a) = (0, 0, 0) \<and> orientation (actors (snd st2) ! a) = []"
    by (simp add: wellFormed_def)
  have len: "length (bodies rep0) = getNBodies mbs" using wf st by (simp add: wellFormed_def)
  have own: "\<forall>a \<in> set (aList (bodies (fst st2) ! nat body)).
       if body = 0
       then position (actors (snd st2) ! a) = (0, 0, 0) \<and> orientation (actors (snd st2) ! a) = []
       else position (actors (snd st2) ! a) = T (getBodyTransform mbs ?s body) \<and>
            orientation (actors (snd st2) ! a) =
              (case convertToAngleAxis mbs (R (getBodyTransform mbs ?s body)) of
                 (av0, av1, av2, av3) \<Rightarrow> [(av0 * RadiansToDegrees, av1, av2, av3)])"
  proof (cases "body = 0")
    case True
    with ground show ?thesis by simp
  next
    case False
    with inr len have j: "1 \<le> nat body \<and> nat body < getNBodies mbs" and eq: "int (nat body) = body"
      by (auto simp: inRange_def)
    have "\<forall>a \<in> set (aList (bodies (fst st2) ! nat body)).
        position (actors (snd st2) ! a) = T (getBodyTransform mbs ?s (int (nat body))) \<and>
        orientation (actors (snd st2) ! a) =
          (case convertToAngleAxis mbs (R (getBodyTransform mbs ?s (int (nat body)))) of
             (av0, av1, av2, av3) \<Rightarrow> [(av0 * RadiansToDegrees, av1, av2, av3)])"
      using moving[OF j] by blast
    then show ?thesis unfolding eq using False by (simp only: if_False)
  qed
  from new own moving show ?thesis by blast
qed

lemma Mat33_times_one [simp]: "Mat33_times Mat33_one m = m"
  by (cases m rule: prod_cases3; cases "fst m" rule: prod_cases3)
     (auto simp: Mat33_one_def Let_def split: prod.splits)

lemma degrees_of_radians [simp]: "a * RadiansToDegrees * pi / 180 = a"
  by (simp add: RadiansToDegrees_def)

lemma orientationMatrix_single:
  "orientationMatrix [(a * RadiansToDegrees, x, y, z)] = rotationAbout a (x, y, z)"
  by simp

lemma wellFormed_inRange:
  "wellFormed mbs (rep, w) \<Longrightarrow> inRange rep b \<longleftrightarrow> validBodyId mbs b"
  by (simp add: wellFormed_def inRange_def validBodyId_def)

subsection \<open>Teardown\<close>

lemma Delete_released: "Delete a w = updActor a (\<lambda>x. released x) w"
  by (simp add: Delete_def released_def)

lemma deleteEphemeralLoop:
  "renderer rep \<Longrightarrow> None \<notin> set ps \<Longrightarrow>
   forEach (deleteEphemeral rep) ps w = Ok (releaseAll (pointees ps) w)"
proof (induction ps arbitrary: w)
  case Nil
  show ?case by (simp add: releaseAll_def)
next
  case (Cons p ps)
  from Cons.prems obtain a where p: "p = Some a" by (cases p) auto
  from Cons.prems have "forEach (deleteEphemeral rep) ps (Delete a (RemoveActor a w)) =
      Ok (releaseAll (pointees ps) (Delete a (RemoveActor a w)))"
    by (intro Cons.IH) auto
  moreover have "deleteEphemeral rep (Some a) w = Ok (Delete a (RemoveActor a w))"
    using Cons.prems(1) by (simp add: deleteEphemeral_def)
  ultimately show ?case by (simp add: p releaseAll_def)
qed

lemma deletePointers_Ok:
  assumes ren: "renderer rep" and none: "None \<notin> set (ephemeralActors rep)"
  shows "\<exists>w'. deletePointers (rep, w) = Ok w' \<and>
    actors w' = actors (foldl (\<lambda>w a. updActor a (\<lambda>x. released x) w) w (ownedActors rep)) \<and>
    rendererDeletes w' = Suc (rendererDeletes w) \<and>
    renWinDeletes w' = (if renWin rep then Suc (renWinDeletes w) else renWinDeletes w)"
proof -
  let ?f = "\<lambda>w a. updActor a (\<lambda>x. released x) w"
  let ?w1 = "foldl ?f w (persistentActors rep)"
  let ?w2 = "foldl ?f ?w1 (map actor (dynamicGeom rep))"
  let ?w3 = "releaseAll (pointees (ephemeralActors rep)) ?w2"
  have w1: "foldl (\<lambda>w a. Delete a w) w (concat (map aList (bodies rep))) = ?w1"
    by (simp add: Delete_released persistentActors_def)
  have w2: "foldl (\<lambda>w info. Delete (actor info) w) ?w1 (dynamicGeom rep) = ?w2"
    by (simp add: Delete_released foldl_map)
  have w3: "forEach (deleteEphemeral rep) (ephemeralActors rep) ?w2 = Ok ?w3"
    by (rule deleteEphemeralLoop[OF ren none])
  have a3: "actors ?w3 = actors (foldl ?f w (ownedActors rep))"
    by (simp add: releaseAll_actors ownedActors_def)
  have r3: "rendererDeletes ?w3 = rendererDeletes w" "renWinDeletes ?w3 = renWinDeletes w"
    by simp_all
  show ?thesis
    using ren a3 r3
    by (simp add: deletePointers_def Let_def w1 w2 w3 andThen_simps)
qed

lemma released_all_owned:
  assumes "distinct as" and "\<forall>a \<in> set as. a < length (actors w)"
  shows "deleteCalls (actors (foldl (\<lambda>w a. updActor a (\<lambda>x. released x) w) w as) ! b) =
     (if b \<in> set as then Suc (deleteCalls (actors w ! b)) else deleteCalls (actors w ! b))"
proof (cases "b \<in> set as")
  case True
  with assms show ?thesis
    using foldl_updActor_in[of as b w "\<lambda>a x. released x"] by simp
next
  case False
  then show ?thesis by (simp add: foldl_updActor_notin)
qed

lemma clone_fields [simp]:
  "ownedActors (VTKReporter_copy h rep) = ownedActors rep"
  "renderer (VTKReporter_copy h rep) = renderer rep"
  "renWin (VTKReporter_copy h rep) = renWin rep"
  "ephemeralActors (VTKReporter_copy h rep) = ephemeralActors rep"
  by (simp_all add: VTKReporter_copy_def clone_def ownedActors_def persistentActors_def)

subsection \<open>The example, evaluated\<close>

lemmas example_defs = exampleSystem_def exampleEngine_def decoratedEngine_def bandedEngine_def
  reportedEngine_def reportedAgain_def strayEngine_def strayMoved_def idleEngine_def
  afterOriginal_def afterCopy_def greenEngine_def redEngine_def queuedAgain_def
  quarterTurn_def turningSystem_def turnedEngine_def groundedEngine_def jamEngine_def
  jammedEngine_def

lemma example_reachable: "reachable exampleSystem exampleEngine"
  by (rule reachable.constructed[OF exampleEngine_constructed])

lemma decorated_eq:
  "addDecoration 1 (Transform_of_Vec3 (0, 0, 1)) (DecorativeSphere 1) exampleEngine = Ok decoratedEngine"
  by (simp add: example_defs engine_defs geom_defs backend_defs)

lemma turning_constructed: "VTKReporterRep_new turningSystem 0 1 = Ok exampleEngine"
  by (simp add: example_defs engine_defs geom_defs backend_defs)

lemma turning_reachable: "reachable turningSystem exampleEngine"
  by (rule reachable.constructed[OF turning_constructed])

lemma turned_eq: "report turningSystem [] 3 decoratedEngine = Ok turnedEngine"
  by (simp add: example_defs engine_defs geom_defs backend_defs)

lemma turning_converts:
  "angleAxisOf (convertToAngleAxis turningSystem)
     (R (getBodyTransform turningSystem (realize turningSystem 3 Position) 1))"
  by (simp add: turningSystem_def exampleSystem_def angleAxisOf_def rotationAbout_def quarterTurn_def
      Vec3_norm_def Mat33_one_def)

lemma turning_converts_ground:
  "angleAxisOf (convertToAngleAxis turningSystem)
     (R (getBodyTransform turningSystem (realize turningSystem 3 Position) 0))"
  by (simp add: turningSystem_def exampleSystem_def angleAxisOf_def rotationAbout_def quarterTurn_def
      Vec3_norm_def Mat33_one_def Transform_identity_def)

lemma green_eq:
  "addDecoration 0 Transform_identity (DecorativeSphere 1) exampleEngine = Ok greenEngine"
  by (simp add: example_defs engine_defs geom_defs backend_defs)

lemma grounded_eq: "report turningSystem [] 3 greenEngine = Ok groundedEngine"
  by (simp add: example_defs engine_defs geom_defs backend_defs)

lemma turning_ground:
  "getBodyTransform turningSystem (realize turningSystem 3 Position) 0 = Transform_identity"
  by (simp add: turningSystem_def exampleSystem_def)

lemma exampleEngine_live: "renWin (fst exampleEngine)"
  by (simp add: exampleEngine_def)

lemma banded_eq:
  "addRubberBandLine 1 (0, 0, 0) 2 (0, 0, 0) (DecorativeLine Vec3_zero Vec3_zero) decoratedEngine =
     Ok bandedEngine"
  by (simp add: example_defs engine_defs geom_defs backend_defs)

lemma reported_eq: "report exampleSystem [] 0 bandedEngine = Ok reportedEngine"
  by (simp add: example_defs engine_defs geom_defs backend_defs)

lemma again_eq: "report exampleSystem [] 3 reportedEngine = Ok reportedAgain"
  by (simp add: example_defs engine_defs geom_defs backend_defs)

lemma banded_reachable: "reachable exampleSystem bandedEngine"
  by (rule reachable.banded[OF reachable.decorated[OF example_reachable decorated_eq] banded_eq])

lemma bandedEngine_live: "renWin (fst bandedEngine)"
  by (simp add: example_defs engine_defs geom_defs backend_defs)

lemma reportedEngine_live: "renWin (fst reportedEngine)"
  by (simp add: example_defs engine_defs geom_defs backend_defs)

lemma bandedEngine_dynamicGeom:
  "dynamicGeom (fst bandedEngine) =
     [\<lparr>actor = 2, line = DecorativeLine Vec3_zero Vec3_zero, body1 = 1, body2 = 2,
       station1 = (0, 0, 0), station2 = (0, 0, 0)\<rparr>]"
  by (simp add: example_defs engine_defs geom_defs backend_defs)

lemma exampleSystem_quiet: "minedGeometry exampleSystem (realize exampleSystem 3 Position) = []"
  by (simp add: exampleSystem_def minedGeometry_def stagesToMine_def allStages_def)

lemma reportedEngine_ephemeralActors: "ephemeralActors (fst reportedEngine) = [Some 3]"
  by (simp add: example_defs engine_defs geom_defs backend_defs)

lemma bandedEngine_actors: "length (actors (snd bandedEngine)) = 3"
  by (simp add: example_defs engine_defs geom_defs backend_defs)

lemma reportedEngine_reachable: "reachable exampleSystem (fst reportedEngine, snd reportedEngine)"
  using reachable.cycled[OF banded_reachable reported_eq] by simp

lemma reportedEngine_flag: "\<not> cameraNeedsToBeReset (fst reportedEngine)"
  by (simp add: example_defs engine_defs geom_defs backend_defs)

lemma reportedEngine_cameraResets: "cameraResets (snd reportedEngine) = 2"
  by (simp add: example_defs engine_defs geom_defs backend_defs)

lemma again_queued_eq:
  "report exampleSystem [] 3
     (addEphemeralDecoration (DecorativeSphere 2) (fst reportedEngine), snd reportedEngine) =
   Ok queuedAgain"
  by (simp add: example_defs queuedAgain_def engine_defs geom_defs backend_defs)

lemma exampleEngine_pair: "reachable exampleSystem (fst exampleEngine, snd exampleEngine)"
  using example_reachable by simp

lemma red_eq:
  "addDecoration 0 Transform_identity ((DecorativeSphere 1)\<lparr>colorRGB := (1, 0, 0)\<rparr>) exampleEngine =
     Ok redEngine"
  by (simp add: example_defs engine_defs geom_defs backend_defs)

lemma exampleEngine_colours:
  "map defaultColorRGB (bodies (fst exampleEngine)) = [(0, 1, 0), (1, 0, 0), (1, 0, 0)]"
  "length (actors (snd exampleEngine)) = 1"
  by (simp_all add: exampleEngine_def Green_def Red_def)

lemma exampleEngine_ground: "defaultColorRGB (bodies (fst exampleEngine) ! 0) = (0, 1, 0)"
  by (simp add: exampleEngine_def Green_def)

lemma stray_eq:
  "addRubberBandLine 1 (0, 0, 0) 7 (0, 0, 0) (DecorativeLine Vec3_zero Vec3_zero) decoratedEngine =
     Ok strayEngine"
  by (simp add: example_defs engine_defs geom_defs backend_defs)

lemma stray_raise: "report exampleSystem [] 3 strayEngine = Raised RangeError strayMoved"
  by (simp add: example_defs engine_defs geom_defs backend_defs)

lemma stray_reachable: "reachable exampleSystem strayEngine"
  by (rule reachable.banded[OF reachable.decorated[OF example_reachable decorated_eq] stray_eq])

lemma jam_raise: "report exampleSystem [] 1 jamEngine = Raised RangeError jammedEngine"
  by (simp add: example_defs engine_defs geom_defs backend_defs)

lemma jam_undefined: "report exampleSystem [] 1 jammedEngine = Undefined"
  by (simp add: example_defs engine_defs geom_defs backend_defs)

lemma jam_live:
  "renWin (fst jammedEngine)" "ephemeralActors (fst jammedEngine) = [Some 1, None]"
  "length (ephemeralGeometry (fst jammedEngine)) = 2"
  by (simp_all add: example_defs engine_defs geom_defs backend_defs)

lemma strayEngine_facts:
  "renWin (fst strayEngine)" "\<not> validLines exampleSystem (dynamicGeom (fst strayEngine))"
  "aList (bodies (fst strayEngine) ! 1) = [1]"
  "position (actors (snd strayEngine) ! 1) = (0, 0, 0)"
  by (simp_all add: example_defs validLines_def validBodyId_def engine_defs geom_defs backend_defs)

lemma exampleSystem_mined:
  "concat (map (calcDecorativeGeometry exampleSystem (realize exampleSystem 0 Position))
     (stagesToMine (getSystemStage exampleSystem (realize exampleSystem 0 Position)))) =
   [(DecorativeSphere 1)\<lparr>bodyId := 1\<rparr>]"
  "stagesToMine (getSystemStage exampleSystem (realize exampleSystem 0 Position)) =
     [Model, Instance, Time, Position]"
  by (simp_all add: exampleSystem_def stagesToMine_def allStages_def)

lemma exampleEngine_queue: "ephemeralGeometry (fst exampleEngine) = []"
  by (simp add: exampleEngine_def)

lemma idle_eq: "report exampleSystem [] 1 exampleEngine = Ok idleEngine"
  by (simp add: example_defs engine_defs geom_defs backend_defs)

lemma orig_eq: "deletePointers exampleEngine = Ok afterOriginal"
  by (simp add: example_defs engine_defs geom_defs backend_defs)

lemma copy_eq: "deletePointers (VTKReporter_copy 2 (fst exampleEngine), afterOriginal) = Ok afterCopy"
  by (simp add: example_defs engine_defs geom_defs backend_defs)

lemma exampleEngine_owned: "ownedActors (fst exampleEngine) = [0]"
  by (simp add: exampleEngine_def ownedActors_def persistentActors_def)

section \<open>Properties: the claims\<close>

text \<open>
  C1. A decoration is added to a body \<open>b\<close> of an engine that the interface can reach,
  its window open, and a state is reported. The conversion to angle and axis keeps its
  contract at the rotation of \<open>b\<close> in the realized state; and if \<open>b\<close> is the ground,
  the frame that the transforms are taken from, its own transform is the identity. Then
  \<open>b\<close> is a valid body, the proxy just created is among the proxies of \<open>b\<close>, and every
  proxy of \<open>b\<close> stands at the translation of the body's transform; its orientation is
  the one that a reset and then one rotation leave, by the angle, taken to degrees, about
  the axis that the rotation of the body converts to; and this orientation is the
  rotation of the body. For every body but the ground the proxies have been posed by
  just these calls: their orientation is that single rotation, which turns by the
  converted angle about the converted axis. The proxies of the ground, which \<open>report\<close>
  passes over, rest as they were created, at the origin, with no rotation applied.
\<close>

theorem C1_decorations_follow_their_body:
  assumes reach: "reachable mbs st" and ready: "renWin (fst st)"
    and add: "addDecoration body X_GD g st = Ok st1"
    and rep: "report mbs msgs s st1 = Ok st2"
    and convert: "angleAxisOf (convertToAngleAxis mbs)
                    (R (getBodyTransform mbs (realize mbs s Position) body))"
    and ground: "body = 0 \<Longrightarrow>
                   getBodyTransform mbs (realize mbs s Position) 0 = Transform_identity"
  shows "validBodyId mbs body \<and>
    length (actors (snd st)) \<in> set (aList (bodies (fst st2) ! nat body)) \<and>
    (\<forall>a \<in> set (aList (bodies (fst st2) ! nat body)).
       position (actors (snd st2) ! a) = T (getBodyTransform mbs (realize mbs s Position) body) \<and>
       orientationMatrix (orientation (actors (snd st2) ! a)) =
         orientationMatrix
           (case convertToAngleAxis mbs (R (getBodyTransform mbs (realize mbs s Position) body)) of
              (av0, av1, av2, av3) \<Rightarrow> [(av0 * RadiansToDegrees, av1, av2, av3)]) \<and>
       orientationMatrix (orientation (actors (snd st2) ! a)) =
         R (getBodyTransform mbs (realize mbs s Position) body)) \<and>
    (\<forall>a \<in> set (aList (bodies (fst st2) ! nat body)).
       if body = 0
       then position (actors (snd st2) ! a) = (0, 0, 0) \<and> orientation (actors (snd st2) ! a) = []
       else position (actors (snd st2) ! a) =
              T (getBodyTransform mbs (realize mbs s Position) body) \<and>
            orientation (actors (snd st2) ! a) =
              (case convertToAngleAxis mbs (R (getBodyTransform mbs (realize mbs s Position) body)) of
                 (av0, av1, av2, av3) \<Rightarrow> [(av0 * RadiansToDegrees, av1, av2, av3)])) \<and>
    (\<forall>j. 1 \<le> j \<and> j < getNBodies mbs \<longrightarrow>
       (\<forall>a \<in> set (aList (bodies (fst st2) ! j)).
          position (actors (snd st2) ! a) =
            T (getBodyTransform mbs (realize mbs s Position) (int j)) \<and>
          orientation (actors (snd st2) ! a) =
            (case convertToAngleAxis mbs (R (getBodyTransform mbs (realize mbs s Position) (int j))) of
               (av0, av1, av2, av3) \<Rightarrow> [(av0 * RadiansToDegrees, av1, av2, av3)]) \<and>
          orientationMatrix (orientation (actors (snd st2) ! a)) =
            (case convertToAngleAxis mbs (R (getBodyTransform mbs (realize mbs s Position) (int j))) of
               (av0, av1, av2, av3) \<Rightarrow> rotationAbout av0 (av1, av2, av3))))"
proof -
  let ?X = "getBodyTransform mbs (realize mbs s Position) body"
  note posed = decorations_posed[OF reach ready add rep]
  obtain av0 av1 av2 av3 where av: "convertToAngleAxis mbs (R ?X) = (av0, av1, av2, av3)"
    by (cases "convertToAngleAxis mbs (R ?X)") auto
  from convert av have turn: "rotationAbout av0 (av1, av2, av3) = R ?X"
    by (simp add: angleAxisOf_def)
  have single: "orientationMatrix [(av0 * RadiansToDegrees, av1, av2, av3)] = R ?X"
    using turn by (simp only: orientationMatrix_single)
  obtain rep0 w0 where st: "st = (rep0, w0)" by (cases st)
  have wf: "wellFormed mbs (rep0, w0)" using reachable_wellFormed[OF reach] by (simp add: st)
  have "inRange rep0 body"
    using add addDecoration_Undefined[of rep0 body X_GD g w0] st by auto
  then have valid: "validBodyId mbs body" by (simp add: wellFormed_inRange[OF wf])
  from posed have own: "\<forall>a \<in> set (aList (bodies (fst st2) ! nat body)).
       if body = 0
       then position (actors (snd st2) ! a) = (0, 0, 0) \<and> orientation (actors (snd st2) ! a) = []
       else position (actors (snd st2) ! a) = T ?X \<and>
            orientation (actors (snd st2) ! a) =
              (case convertToAngleAxis mbs (R ?X) of
                 (av0, av1, av2, av3) \<Rightarrow> [(av0 * RadiansToDegrees, av1, av2, av3)])"
    by blast
  have list: "(case convertToAngleAxis mbs (R ?X) of
                 (av0, av1, av2, av3) \<Rightarrow> [(av0 * RadiansToDegrees, av1, av2, av3)]) =
              [(av0 * RadiansToDegrees, av1, av2, av3)]"
    by (simp add: av)
  have pose: "position (actors (snd st2) ! a) = T ?X \<and>
       orientationMatrix (orientation (actors (snd st2) ! a)) =
         orientationMatrix
           (case convertToAngleAxis mbs (R ?X) of
              (av0, av1, av2, av3) \<Rightarrow> [(av0 * RadiansToDegrees, av1, av2, av3)]) \<and>
       orientationMatrix (orientation (actors (snd st2) ! a)) = R ?X"
    if a: "a \<in> set (aList (bodies (fst st2) ! nat body))" for a
  proof -
    have "position (actors (snd st2) ! a) = T ?X \<and>
          orientationMatrix (orientation (actors (snd st2) ! a)) = R ?X"
    proof (cases "body = 0")
      case True
      with own a have "position (actors (snd st2) ! a) = (0, 0, 0)"
        and "orientation (actors (snd st2) ! a) = []" by auto
      moreover from True ground[OF True] have "T ?X = (0, 0, 0)" "R ?X = Mat33_one"
        by (simp_all add: Transform_identity_def Vec3_zero_def)
      ultimately show ?thesis by simp
    next
      case False
      with own a have "position (actors (snd st2) ! a) = T ?X"
        and "orientation (actors (snd st2) ! a) = [(av0 * RadiansToDegrees, av1, av2, av3)]"
        by (auto simp: av)
      with single show ?thesis by (simp only: simp_thms)
    qed
    with single show ?thesis unfolding list by (simp only: simp_thms)
  qed
  from posed have moving: "\<forall>j. 1 \<le> j \<and> j < getNBodies mbs \<longrightarrow>
       (\<forall>a \<in> set (aList (bodies (fst st2) ! j)).
          position (actors (snd st2) ! a) =
            T (getBodyTransform mbs (realize mbs s Position) (int j)) \<and>
          orientation (actors (snd st2) ! a) =
            (case convertToAngleAxis mbs (R (getBodyTransform mbs (realize mbs s Position) (int j))) of
               (av0, av1, av2, av3) \<Rightarrow> [(av0 * RadiansToDegrees, av1, av2, av3)]))"
    by blast
  have others: "position (actors (snd st2) ! a) =
            T (getBodyTransform mbs (realize mbs s Position) (int j)) \<and>
          orientation (actors (snd st2) ! a) =
            (case convertToAngleAxis mbs (R (getBodyTransform mbs (realize mbs s Position) (int j))) of
               (av0, av1, av2, av3) \<Rightarrow> [(av0 * RadiansToDegrees, av1, av2, av3)]) \<and>
          orientationMatrix (orientation (actors (snd st2) ! a)) =
            (case convertToAngleAxis mbs (R (getBodyTransform mbs (realize mbs s Position) (int j))) of
               (av0, av1, av2, av3) \<Rightarrow> rotationAbout av0 (av1, av2, av3))"
    if j: "1 \<le> j \<and> j < getNBodies mbs" and a: "a \<in> set (aList (bodies (fst st2) ! j))" for j a
  proof -
    let ?Y = "getBodyTransform mbs (realize mbs s Position) (int j)"
    obtain b0 b1 b2 b3 where bv: "convertToAngleAxis mbs (R ?Y) = (b0, b1, b2, b3)"
      by (cases "convertToAngleAxis mbs (R ?Y)") auto
    from moving j a have "position (actors (snd st2) ! a) = T ?Y"
      and "orientation (actors (snd st2) ! a) = [(b0 * RadiansToDegrees, b1, b2, b3)]"
      by (auto simp: bv)
    then show ?thesis by (simp add: bv orientationMatrix_single)
  qed
  from valid posed pose own others show ?thesis by blast
qed

theorem C1_witness:
  "reachable turningSystem exampleEngine \<and> renWin (fst exampleEngine) \<and>
   addDecoration 1 (Transform_of_Vec3 (0, 0, 1)) (DecorativeSphere 1) exampleEngine = Ok decoratedEngine \<and>
   report turningSystem [] 3 decoratedEngine = Ok turnedEngine \<and>
   angleAxisOf (convertToAngleAxis turningSystem)
     (R (getBodyTransform turningSystem (realize turningSystem 3 Position) 1)) \<and>
   aList (bodies (fst turnedEngine) ! 1) = [1] \<and>
   position (actors (snd turnedEngine) ! 1) = (3, 0, 0) \<and>
   orientation (actors (snd turnedEngine) ! 1) = [(90, 0, 0, 1)] \<and>
   orientationMatrix (orientation (actors (snd turnedEngine) ! 1)) = ((0, - 1, 0), (1, 0, 0), (0, 0, 1)) \<and>
   addDecoration 0 Transform_identity (DecorativeSphere 1) exampleEngine = Ok greenEngine \<and>
   report turningSystem [] 3 greenEngine = Ok groundedEngine \<and>
   angleAxisOf (convertToAngleAxis turningSystem)
     (R (getBodyTransform turningSystem (realize turningSystem 3 Position) 0)) \<and>
   getBodyTransform turningSystem (realize turningSystem 3 Position) 0 = Transform_identity \<and>
   aList (bodies (fst groundedEngine) ! 0) = [0, 1] \<and>
   position (actors (snd groundedEngine) ! 1) = (0, 0, 0) \<and>
   orientationMatrix (orientation (actors (snd groundedEngine) ! 1)) = ((1, 0, 0), (0, 1, 0), (0, 0, 1))"
proof -
  note t = C1_decorations_follow_their_body[OF turning_reachable exampleEngine_live decorated_eq
      turned_eq turning_converts]
  from t have "1 \<in> set (aList (bodies (fst turnedEngine) ! 1))"
    by (simp add: exampleEngine_colours(2))
  with t have turned: "position (actors (snd turnedEngine) ! 1) = (3, 0, 0)"
    "orientationMatrix (orientation (actors (snd turnedEngine) ! 1)) =
       ((0, - 1, 0), (1, 0, 0), (0, 0, 1))"
    by (auto simp: turningSystem_def exampleSystem_def quarterTurn_def)
  note g = C1_decorations_follow_their_body[OF turning_reachable exampleEngine_live green_eq
      grounded_eq turning_converts_ground turning_ground]
  from g have "1 \<in> set (aList (bodies (fst groundedEngine) ! 0))"
    by (simp add: exampleEngine_colours(2))
  with g have grounded: "position (actors (snd groundedEngine) ! 1) = (0, 0, 0)"
    "orientationMatrix (orientation (actors (snd groundedEngine) ! 1)) =
       ((1, 0, 0), (0, 1, 0), (0, 0, 1))"
    by (auto simp: turningSystem_def exampleSystem_def Transform_identity_def Mat33_one_def
        Vec3_zero_def)
  have lists: "aList (bodies (fst turnedEngine) ! 1) = [1]"
    "orientation (actors (snd turnedEngine) ! 1) = [(90, 0, 0, 1)]"
    "aList (bodies (fst groundedEngine) ! 0) = [0, 1]"
    by (simp_all add: example_defs engine_defs geom_defs backend_defs RadiansToDegrees_def)
  from turned grounded lists turning_reachable exampleEngine_live decorated_eq turned_eq
    turning_converts green_eq grounded_eq turning_converts_ground turning_ground
  show ?thesis by simp
qed

text \<open>
  C2. Two reports in a row on a live engine, the window still open after the first. Every
  rubber-band entry keeps its proxy, its bodies and its stations; after each report its
  line runs from the first body's transform in the realized state applied to the first
  station to the second body's transform applied to the second station, whatever the
  line was before, and the mapper of that same proxy holds the shape built from this
  line. If the second body's transform is the same in both states, the second endpoint
  is the same after both reports and the first is the first body's new place.
\<close>

theorem C2_rubber_bands_track_their_bodies:
  assumes reach: "reachable mbs st" and ready: "renWin (fst st)"
    and first: "report mbs msgs s st = Ok st1" and still: "renWin (fst st1)"
    and second: "report mbs msgs' s' st1 = Ok st2"
    and i: "i < length (dynamicGeom (fst st))"
  shows "actor (dynamicGeom (fst st1) ! i) = actor (dynamicGeom (fst st) ! i) \<and>
    actor (dynamicGeom (fst st2) ! i) = actor (dynamicGeom (fst st) ! i) \<and>
    line (dynamicGeom (fst st1) ! i) =
      (line (dynamicGeom (fst st) ! i))
        \<lparr>shape := LineShape
           (Transform_apply (getBodyTransform mbs (realize mbs s Position) (body1 (dynamicGeom (fst st) ! i)))
              (station1 (dynamicGeom (fst st) ! i)))
           (Transform_apply (getBodyTransform mbs (realize mbs s Position) (body2 (dynamicGeom (fst st) ! i)))
              (station2 (dynamicGeom (fst st) ! i)))\<rparr> \<and>
    line (dynamicGeom (fst st2) ! i) =
      (line (dynamicGeom (fst st) ! i))
        \<lparr>shape := LineShape
           (Transform_apply (getBodyTransform mbs (realize mbs s' Position) (body1 (dynamicGeom (fst st) ! i)))
              (station1 (dynamicGeom (fst st) ! i)))
           (Transform_apply (getBodyTransform mbs (realize mbs s' Position) (body2 (dynamicGeom (fst st) ! i)))
              (station2 (dynamicGeom (fst st) ! i)))\<rparr> \<and>
    mapper (actors (snd st1) ! actor (dynamicGeom (fst st) ! i)) =
      Mapper (Some (implementGeometry (line (dynamicGeom (fst st1) ! i)))) \<and>
    mapper (actors (snd st2) ! actor (dynamicGeom (fst st) ! i)) =
      Mapper (Some (implementGeometry (line (dynamicGeom (fst st2) ! i)))) \<and>
    deleteCalls (actors (snd st2) ! actor (dynamicGeom (fst st) ! i)) = 0 \<and>
    (getBodyTransform mbs (realize mbs s' Position) (body2 (dynamicGeom (fst st) ! i)) =
       getBodyTransform mbs (realize mbs s Position) (body2 (dynamicGeom (fst st) ! i)) \<longrightarrow>
     (\<exists>p p' q. shape (line (dynamicGeom (fst st1) ! i)) = LineShape p q \<and>
        shape (line (dynamicGeom (fst st2) ! i)) = LineShape p' q \<and>
        p' = Transform_apply (getBodyTransform mbs (realize mbs s' Position) (body1 (dynamicGeom (fst st) ! i)))
               (station1 (dynamicGeom (fst st) ! i))))"
proof -
  let ?info = "dynamicGeom (fst st) ! i"
  have wf: "wellFormed mbs st" by (rule reachable_wellFormed[OF reach])
  have wf1: "wellFormed mbs st1" by (rule report_wellFormed[OF wf first])
  note t1 = report_tracks[OF wf ready first i]
  from i t1(2) have i1: "i < length (dynamicGeom (fst st1))" by simp
  note t2 = report_tracks[OF wf1 still second i1]
  have a1: "actor (dynamicGeom (fst st1) ! i) = actor ?info" by (simp add: t1(1))
  have a2: "actor (dynamicGeom (fst st2) ! i) = actor ?info" by (simp add: t2(1) t1(1))
  have l1: "line (dynamicGeom (fst st1) ! i) =
      (line ?info)\<lparr>shape := LineShape
           (Transform_apply (getBodyTransform mbs (realize mbs s Position) (body1 ?info)) (station1 ?info))
           (Transform_apply (getBodyTransform mbs (realize mbs s Position) (body2 ?info)) (station2 ?info))\<rparr>"
    by (simp add: t1(1) line_tracked)
  have l2: "line (dynamicGeom (fst st2) ! i) =
      (line ?info)\<lparr>shape := LineShape
           (Transform_apply (getBodyTransform mbs (realize mbs s' Position) (body1 ?info)) (station1 ?info))
           (Transform_apply (getBodyTransform mbs (realize mbs s' Position) (body2 ?info)) (station2 ?info))\<rparr>"
    by (simp add: t2(1) t1(1) line_tracked)
  have m1: "mapper (actors (snd st1) ! actor ?info) =
      Mapper (Some (implementGeometry (line (dynamicGeom (fst st1) ! i))))"
    using t1(3) by (simp add: implementGeometry_def)
  have m2: "mapper (actors (snd st2) ! actor ?info) =
      Mapper (Some (implementGeometry (line (dynamicGeom (fst st2) ! i))))"
    using t2(3) by (simp add: implementGeometry_def a1)
  have d2: "deleteCalls (actors (snd st2) ! actor ?info) = 0"
    using t2(4) by (simp add: a1)
  have same: "\<exists>p p' q. shape (line (dynamicGeom (fst st1) ! i)) = LineShape p q \<and>
        shape (line (dynamicGeom (fst st2) ! i)) = LineShape p' q \<and>
        p' = Transform_apply (getBodyTransform mbs (realize mbs s' Position) (body1 ?info)) (station1 ?info)"
    if "getBodyTransform mbs (realize mbs s' Position) (body2 ?info) =
        getBodyTransform mbs (realize mbs s Position) (body2 ?info)"
  proof (intro exI conjI)
    show "shape (line (dynamicGeom (fst st1) ! i)) = LineShape
        (Transform_apply (getBodyTransform mbs (realize mbs s Position) (body1 ?info)) (station1 ?info))
        (Transform_apply (getBodyTransform mbs (realize mbs s Position) (body2 ?info)) (station2 ?info))"
      by (simp add: l1)
    show "shape (line (dynamicGeom (fst st2) ! i)) = LineShape
        (Transform_apply (getBodyTransform mbs (realize mbs s' Position) (body1 ?info)) (station1 ?info))
        (Transform_apply (getBodyTransform mbs (realize mbs s Position) (body2 ?info)) (station2 ?info))"
      using that by (simp add: l2)
  qed (rule refl)
  from a1 a2 l1 l2 m1 m2 d2 same show ?thesis by blast
qed

theorem C2_witness:
  "reachable exampleSystem bandedEngine \<and> renWin (fst bandedEngine) \<and>
   report exampleSystem [] 0 bandedEngine = Ok reportedEngine \<and> renWin (fst reportedEngine) \<and>
   report exampleSystem [] 3 reportedEngine = Ok reportedAgain \<and>
   (0::nat) < length (dynamicGeom (fst bandedEngine)) \<and>
   actor (dynamicGeom (fst bandedEngine) ! 0) = 2 \<and>
   actor (dynamicGeom (fst reportedAgain) ! 0) = 2 \<and>
   shape (line (dynamicGeom (fst reportedEngine) ! 0)) = LineShape (0, 0, 0) (0, 2, 0) \<and>
   shape (line (dynamicGeom (fst reportedAgain) ! 0)) = LineShape (3, 0, 0) (0, 2, 0) \<and>
   mapper (actors (snd reportedAgain) ! 2) =
     Mapper (Some (implementGeometry (line (dynamicGeom (fst reportedAgain) ! 0))))"
  using C2_rubber_bands_track_their_bodies[OF banded_reachable bandedEngine_live reported_eq
      reportedEngine_live again_eq, of 0]
    banded_reachable bandedEngine_live reported_eq reportedEngine_live again_eq
  by (simp add: bandedEngine_dynamicGeom exampleSystem_def geom_defs)

text \<open>
  C3. A report on a live engine leaves as ephemeral proxies exactly the proxies it has
  created itself, and every proxy of the generation before has been removed from the
  scene and released, once. If the window is still open, nothing has been queued since
  and the system contributes nothing in the next state, the next report returns and
  leaves no ephemeral proxy: those of the first report are out of the scene and
  released, and every proxy of the backend that has not been released is a proxy of a
  body or of a rubber-band line.
\<close>

theorem C3_one_generation_of_ephemerals:
  assumes reach: "reachable mbs st" and ready: "renWin (fst st)"
    and first: "report mbs msgs s st = Ok st1" and still: "renWin (fst st1)"
    and quiet: "minedGeometry mbs (realize mbs s' Position) = []"
  shows "ephemeralActors (fst st1) = map Some [length (actors (snd st))..<length (actors (snd st1))] \<and>
    (\<forall>a \<in> set (pointees (ephemeralActors (fst st))).
       deleteCalls (actors (snd st1) ! a) = 1 \<and> a \<notin> set (sceneActors (snd st1))) \<and>
    (\<exists>st2. report mbs msgs' s' st1 = Ok st2 \<and> ephemeralActors (fst st2) = [] \<and>
       length (actors (snd st2)) = length (actors (snd st1)) \<and>
       (\<forall>a \<in> set (pointees (ephemeralActors (fst st1))).
          deleteCalls (actors (snd st2) ! a) = 1 \<and> a \<notin> set (sceneActors (snd st2))) \<and>
       (\<forall>a < length (actors (snd st2)).
          deleteCalls (actors (snd st2) ! a) = 0 \<longrightarrow>
          a \<in> set (persistentActors (fst st2)) \<union> actor ` set (dynamicGeom (fst st2))))"
proof -
  have wf: "wellFormed mbs st" by (rule reachable_wellFormed[OF reach])
  have wf1: "wellFormed mbs st1" by (rule report_wellFormed[OF wf first])
  note r1 = report_retires[OF wf ready first]
  have "validItems mbs (ephemeralGeometry (fst st1) @ minedGeometry mbs (realize mbs s' Position))"
    by (simp add: r1(2) quiet validItems_def)
  from report_succeeds[OF wf1 still r1(5) this]
  obtain st2 where second: "report mbs msgs' s' st1 = Ok st2" by blast
  note r2 = report_retires[OF wf1 still second]
  have len2: "length (actors (snd st2)) = length (actors (snd st1))"
    using r2(3) by (simp add: r1(2) quiet)
  have none: "ephemeralActors (fst st2) = []" using r2(1) len2 by simp
  have wf2: "wellFormed mbs st2" by (rule report_wellFormed[OF wf1 second])
  have rest: "\<forall>a < length (actors (snd st2)).
          deleteCalls (actors (snd st2) ! a) = 0 \<longrightarrow>
          a \<in> set (persistentActors (fst st2)) \<union> actor ` set (dynamicGeom (fst st2))"
  proof (intro allI impI)
    fix a assume a: "a < length (actors (snd st2))" and live: "deleteCalls (actors (snd st2) ! a) = 0"
    have "a \<in> set (ownedActors (fst st2))"
    proof (rule ccontr)
      assume "a \<notin> set (ownedActors (fst st2))"
      with wf2 a have "deleteCalls (actors (snd st2) ! a) = 1" by (simp add: wellFormed_def)
      with live show False by simp
    qed
    then show "a \<in> set (persistentActors (fst st2)) \<union> actor ` set (dynamicGeom (fst st2))"
      by (simp add: ownedActors_def none)
  qed
  from second none len2 r2(4) rest
  have "\<exists>st2. report mbs msgs' s' st1 = Ok st2 \<and> ephemeralActors (fst st2) = [] \<and>
       length (actors (snd st2)) = length (actors (snd st1)) \<and>
       (\<forall>a \<in> set (pointees (ephemeralActors (fst st1))).
          deleteCalls (actors (snd st2) ! a) = 1 \<and> a \<notin> set (sceneActors (snd st2))) \<and>
       (\<forall>a < length (actors (snd st2)).
          deleteCalls (actors (snd st2) ! a) = 0 \<longrightarrow>
          a \<in> set (persistentActors (fst st2)) \<union> actor ` set (dynamicGeom (fst st2)))"
    by blast
  with r1(1) r1(4) show ?thesis by blast
qed

theorem C3_witness:
  "reachable exampleSystem bandedEngine \<and> renWin (fst bandedEngine) \<and>
   report exampleSystem [] 0 bandedEngine = Ok reportedEngine \<and> renWin (fst reportedEngine) \<and>
   minedGeometry exampleSystem (realize exampleSystem 3 Position) = [] \<and>
   ephemeralActors (fst reportedEngine) = [Some 3] \<and>
   report exampleSystem [] 3 reportedEngine = Ok reportedAgain \<and>
   ephemeralActors (fst reportedAgain) = [] \<and>
   deleteCalls (actors (snd reportedAgain) ! 3) = 1 \<and> 3 \<notin> set (sceneActors (snd reportedAgain))"
  using C3_one_generation_of_ephemerals[OF banded_reachable bandedEngine_live reported_eq
      reportedEngine_live exampleSystem_quiet, of "[]"]
    banded_reachable bandedEngine_live reported_eq reportedEngine_live exampleSystem_quiet again_eq
  by (simp add: reportedEngine_ephemeralActors)

text \<open>
  C4. The style of a proxy at its creation, on an engine the interface can reach. The
  proxy of a decoration takes each style field from the descriptor where the descriptor
  sets it; else its colour is the default colour that the body has at that moment, its
  opacity 1, its line width 1, its representation the surface. So does the proxy of
  every ephemeral item that a report displays, caller-queued or mined, with the body
  that the item names. A rubber-band line is resolved in the same way, except that its
  colour falls back to black, whatever the default colours of the bodies.
\<close>

theorem C4_style_resolution:
  assumes reach: "reachable mbs (rep, w)"
  shows "(\<forall>b X_GD g st'. addDecoration b X_GD g (rep, w) = Ok st' \<longrightarrow>
        resolved (defaultColorRGB (bodies rep ! nat b)) g (actors (snd st') ! length (actors w))) \<and>
    (\<forall>b1 p1 b2 p2 g st'. addRubberBandLine b1 p1 b2 p2 g (rep, w) = Ok st' \<longrightarrow>
        resolved Black g (actors (snd st') ! length (actors w))) \<and>
    (\<forall>msgs s st' i. renWin rep \<and> report mbs msgs s (rep, w) = Ok st' \<and>
        i < length (ephemeralGeometry rep @ minedGeometry mbs (realize mbs s Position)) \<longrightarrow>
        resolved
          (defaultColorRGB (bodies rep !
             nat (bodyId ((ephemeralGeometry rep @ minedGeometry mbs (realize mbs s Position)) ! i))))
          ((ephemeralGeometry rep @ minedGeometry mbs (realize mbs s Position)) ! i)
          (actors (snd st') ! (length (actors w) + i)))"
proof -
  have wf: "wellFormed mbs (rep, w)" by (rule reachable_wellFormed[OF reach])
  have ren: "renderer rep" using wf by (simp add: wellFormed_def)
  have dec: "resolved (defaultColorRGB (bodies rep ! nat b)) g (actors (snd st') ! length (actors w))"
    if ok: "addDecoration b X_GD g (rep, w) = Ok st'" for b X_GD g st'
  proof -
    have "inRange rep b" using ok addDecoration_Undefined[of rep b X_GD g w] by auto
    from addDecoration_Ok[OF this ren, of X_GD g w] ok
    have "actors (snd st') ! length (actors w) =
        styledActor (if fst (colorRGB g) \<noteq> -1 then colorRGB g else defaultColorRGB (bodies rep ! nat b))
          g (Mapper (Some (PolyData (g\<lparr>transform := Transform_times X_GD (transform g)\<rparr>))))"
      by auto
    then show ?thesis by (simp only: resolved_styledActor_same)
  qed
  have band: "resolved Black g (actors (snd st') ! length (actors w))"
    if ok: "addRubberBandLine b1 p1 b2 p2 g (rep, w) = Ok st'" for b1 p1 b2 p2 g st'
  proof -
    from addRubberBandLine_Ok[OF ren, of b1 p1 b2 p2 g w] ok
    have "actors (snd st') ! length (actors w) =
        styledActor (if fst (colorRGB g) \<noteq> -1 then colorRGB g else Black) g (Mapper None)"
      by auto
    then show ?thesis by (simp only: resolved_styledActor_same)
  qed
  have eph: "resolved
          (defaultColorRGB (bodies rep !
             nat (bodyId ((ephemeralGeometry rep @ minedGeometry mbs (realize mbs s Position)) ! i))))
          ((ephemeralGeometry rep @ minedGeometry mbs (realize mbs s Position)) ! i)
          (actors (snd st') ! (length (actors w) + i))"
    if h: "renWin rep \<and> report mbs msgs s (rep, w) = Ok st' \<and>
        i < length (ephemeralGeometry rep @ minedGeometry mbs (realize mbs s Position))"
    for msgs s st' i
  proof -
    have r: "reported mbs msgs (realize mbs s Position) rep w (fst st') (snd st')"
      using report_reported(1)[OF wf, of msgs s st'] h by simp
    from h have i: "i < length (ephemeralGeometry rep @ minedGeometry mbs (realize mbs s Position))"
      by simp
    show ?thesis
      unfolding reported_new[OF r i] ephemeralProxy_def by (rule resolved_styledActor_same)
  qed
  from dec band eph show ?thesis by blast
qed

theorem C4_witness:
  "reachable exampleSystem (fst exampleEngine, snd exampleEngine) \<and>
   defaultColorRGB (bodies (fst exampleEngine) ! 0) = (0, 1, 0) \<and>
   addDecoration 0 Transform_identity (DecorativeSphere 1) exampleEngine = Ok greenEngine \<and>
   propColor (actors (snd greenEngine) ! 1) = (0, 1, 0) \<and>
   propOpacity (actors (snd greenEngine) ! 1) = 1 \<and>
   propLineWidth (actors (snd greenEngine) ! 1) = 1 \<and>
   propRepresentation (actors (snd greenEngine) ! 1) = VTK_SURFACE \<and>
   addDecoration 0 Transform_identity ((DecorativeSphere 1)\<lparr>colorRGB := (1, 0, 0)\<rparr>) exampleEngine =
     Ok redEngine \<and>
   propColor (actors (snd redEngine) ! 1) = (1, 0, 0)"
proof -
  note green = C4_style_resolution[OF exampleEngine_pair, THEN conjunct1, rule_format,
      unfolded prod.collapse, OF green_eq]
  note red = C4_style_resolution[OF exampleEngine_pair, THEN conjunct1, rule_format,
      unfolded prod.collapse, OF red_eq]
  from green red exampleEngine_pair green_eq red_eq show ?thesis
    by (simp add: resolved_def exampleEngine_colours exampleEngine_ground DecorativeSphere_def
        newGeometry_def)
qed

theorem C4_counterexample:
  "addRubberBandLine 1 (0, 0, 0) 2 (0, 0, 0) (DecorativeLine Vec3_zero Vec3_zero) decoratedEngine =
     Ok bandedEngine \<and>
   colorRGB (DecorativeLine Vec3_zero Vec3_zero) = (- 1, - 1, - 1) \<and>
   bodyId (DecorativeLine Vec3_zero Vec3_zero) = 0 \<and>
   map defaultColorRGB (bodies (fst decoratedEngine)) = [(0, 1, 0), (1, 0, 0), (1, 0, 0)] \<and>
   length (actors (snd decoratedEngine)) = 2 \<and>
   propColor (actors (snd bandedEngine) ! 2) = (0, 0, 0)"
  by (simp add: example_defs engine_defs geom_defs backend_defs)

text \<open>
  C5. A report on an engine that the interface can reach, its window open, does not fail
  in the transform updates. When every rubber-band entry and every ephemeral item, queued
  or mined, names valid bodies, it returns with all five phases done. Otherwise it leaves
  by a range error: the camera has not been reset and nothing has been redrawn, but the
  scene is not as it was, for every proxy of every body but the ground has been moved to
  the pose of its body in the realized state. The engine that a failed report leaves
  behind is not one of these: in the example, where the display pass has failed at the
  first of two items, the next report calls through the null pointer that stands for the
  second, and neither returns nor raises.
\<close>

theorem C5_report_fails_midway:
  assumes reach: "reachable mbs st" and ready: "renWin (fst st)"
  shows "if validLines mbs (dynamicGeom (fst st)) \<and>
       validItems mbs (ephemeralGeometry (fst st) @ minedGeometry mbs (realize mbs s Position))
    then \<exists>st'. report mbs msgs s st = Ok st' \<and>
           reported mbs msgs (realize mbs s Position) (fst st) (snd st) (fst st') (snd st')
    else \<exists>st'. report mbs msgs s st = Raised RangeError st' \<and>
           cameraResets (snd st') = cameraResets (snd st) \<and> renders (snd st') = renders (snd st) \<and>
           (\<forall>j a. 1 \<le> j \<and> j < getNBodies mbs \<and> a \<in> set (aList (bodies (fst st) ! j)) \<longrightarrow>
              position (actors (snd st') ! a) =
                T (getBodyTransform mbs (realize mbs s Position) (int j)) \<and>
              orientation (actors (snd st') ! a) =
                (case convertToAngleAxis mbs (R (getBodyTransform mbs (realize mbs s Position) (int j))) of
                   (av0, av1, av2, av3) \<Rightarrow> [(av0 * RadiansToDegrees, av1, av2, av3)]))"
proof -
  let ?s = "realize mbs s Position"
  obtain rep w where st: "st = (rep, w)" by (cases st)
  have wf: "wellFormed mbs (rep, w)" using reachable_wellFormed[OF reach] by (simp add: st)
  note p = wellFormed_parts[OF wf]
  from ready have ready': "renWin rep" by (simp add: st)
  note spec = report_spec[OF wf ready', where msgs = msgs and s = s]
  show ?thesis
  proof (cases "report mbs msgs s (rep, w)")
    case Undefined
    with spec show ?thesis by simp
  next
    case (Ok st')
    with spec show ?thesis by (simp add: st)
  next
    case (Raised e st')
    with spec have e: "e = RangeError"
      and bad: "\<not> (validLines mbs (dynamicGeom rep) \<and>
                   validItems mbs (ephemeralGeometry rep @ minedGeometry mbs ?s))"
      and sc: "sameCounters w (snd st')" by simp_all
    from spec Raised obtain w1 where pw: "posedWorld mbs ?s rep (getNBodies mbs) w w1"
      and same: "\<forall>a < length (actors w).
              position (actors (snd st') ! a) = position (actors w1 ! a) \<and>
              orientation (actors (snd st') ! a) = orientation (actors w1 ! a)"
      by auto
    have moved: "position (actors (snd st') ! a) = T (getBodyTransform mbs ?s (int j)) \<and>
              orientation (actors (snd st') ! a) =
                (case convertToAngleAxis mbs (R (getBodyTransform mbs ?s (int j))) of
                   (av0, av1, av2, av3) \<Rightarrow> [(av0 * RadiansToDegrees, av1, av2, av3)])"
      if h: "1 \<le> j \<and> j < getNBodies mbs \<and> a \<in> set (aList (bodies rep ! j))" for j a
    proof -
      from h have "a \<in> set (persistentActors rep)"
        using persistent_nth_subset[of j rep] p(3) by auto
      with p(11) have a: "a < length (actors w)" by simp
      from pw h have "actors w1 ! a = posed mbs (getBodyTransform mbs ?s (int j)) (actors w ! a)"
        by (simp add: posedWorld_def)
      with same a show ?thesis by (simp add: posed_pose)
    qed
    from sc have "cameraResets (snd st') = cameraResets w" "renders (snd st') = renders w"
      by (simp_all add: sameCounters_def)
    with Raised e bad moved show ?thesis by (simp add: st)
  qed
qed

theorem C5_witness:
  "reachable exampleSystem strayEngine \<and> renWin (fst strayEngine) \<and>
   \<not> validLines exampleSystem (dynamicGeom (fst strayEngine)) \<and>
   report exampleSystem [] 3 strayEngine = Raised RangeError strayMoved \<and>
   renders (snd strayMoved) = renders (snd strayEngine) \<and>
   position (actors (snd strayMoved) ! 1) = (3, 0, 0) \<and>
   reachable exampleSystem bandedEngine \<and> renWin (fst bandedEngine) \<and>
   report exampleSystem [] 0 bandedEngine = Ok reportedEngine \<and>
   renders (snd reportedEngine) = Suc (renders (snd bandedEngine))"
proof -
  note bad = C5_report_fails_midway[OF stray_reachable strayEngine_facts(1), of 3 "[]"]
  note good = C5_report_fails_midway[OF banded_reachable bandedEngine_live, of 0 "[]"]
  from bad strayEngine_facts(2) stray_raise
  have same: "renders (snd strayMoved) = renders (snd strayEngine)"
    and all: "\<forall>j a. 1 \<le> j \<and> j < getNBodies exampleSystem \<and>
        a \<in> set (aList (bodies (fst strayEngine) ! j)) \<longrightarrow>
        position (actors (snd strayMoved) ! a) =
          T (getBodyTransform exampleSystem (realize exampleSystem 3 Position) (int j))"
    by simp_all
  from all[rule_format, of 1 1] strayEngine_facts(3)
  have "position (actors (snd strayMoved) ! 1) = (3, 0, 0)"
    by (simp add: exampleSystem_def geom_defs)
  with same have moved: "renders (snd strayMoved) = renders (snd strayEngine) \<and>
      position (actors (snd strayMoved) ! 1) = (3, 0, 0)" by simp
  have cycle: "renders (snd reportedEngine) = Suc (renders (snd bandedEngine))"
    using good reported_eq by (auto simp: reported_counters(2) split: if_splits)
  from moved cycle stray_reachable strayEngine_facts(1,2) stray_raise banded_reachable
    bandedEngine_live reported_eq
  show ?thesis by simp
qed

theorem C5_counterexample:
  "addRubberBandLine 1 (0, 0, 0) 7 (0, 0, 0) (DecorativeLine Vec3_zero Vec3_zero) decoratedEngine =
     Ok strayEngine \<and>
   report exampleSystem [] 3 strayEngine = Raised RangeError strayMoved \<and>
   position (actors (snd strayEngine) ! 1) = (0, 0, 0) \<and>
   position (actors (snd strayMoved) ! 1) = (3, 0, 0) \<and>
   orientation (actors (snd strayEngine) ! 1) = [] \<and>
   orientation (actors (snd strayMoved) ! 1) = [(0, 1, 0, 0)] \<and>
   report exampleSystem [] 1 jamEngine = Raised RangeError jammedEngine \<and>
   renWin (fst jammedEngine) \<and>
   ephemeralActors (fst jammedEngine) = [Some 1, None] \<and>
   length (ephemeralGeometry (fst jammedEngine)) = 2 \<and>
   report exampleSystem [] 1 jammedEngine = Undefined"
proof -
  have "position (actors (snd strayEngine) ! 1) = (0, 0, 0) \<and>
      position (actors (snd strayMoved) ! 1) = (3, 0, 0) \<and>
      orientation (actors (snd strayEngine) ! 1) = [] \<and>
      orientation (actors (snd strayMoved) ! 1) = [(0, 1, 0, 0)]"
    by (simp add: example_defs engine_defs geom_defs backend_defs)
  with stray_eq stray_raise jam_raise jam_live jam_undefined show ?thesis by simp
qed

text \<open>
  C6. The stages that a report mines are those from \<open>Model\<close>, not from the lowest stage,
  up to the stage of the realized state, each once and in increasing order. Mining is the
  same as queueing: as far as the result goes, a report on an engine whose window is open
  is a report for a system that contributes nothing on the engine with the mined items
  queued behind the pending ones by \<open>addEphemeralDecoration\<close>, and the one raises an
  error when the other does. If moreover the engine is one that the interface can reach,
  a report that returns has created one proxy for each pending and each mined item and
  left the queue empty.
\<close>

theorem C6_mined_from_the_model_stage:
  assumes ready: "renWin rep"
  shows "sorted_wrt (<) (map stageLevel (stagesToMine current)) \<and>
    set (stagesToMine current) =
      {stage. stageLevel Model \<le> stageLevel stage \<and> stageLevel stage \<le> stageLevel current} \<and>
    resultOf (report (mbs\<lparr>calcDecorativeGeometry := \<lambda>s stage. []\<rparr>) msgs s
       (foldl (\<lambda>r g. addEphemeralDecoration g r) rep
          (concat (map (calcDecorativeGeometry mbs (realize mbs s Position))
                       (stagesToMine (getSystemStage mbs (realize mbs s Position))))), w)) =
      resultOf (report mbs msgs s (rep, w)) \<and>
    raises (report (mbs\<lparr>calcDecorativeGeometry := \<lambda>s stage. []\<rparr>) msgs s
       (foldl (\<lambda>r g. addEphemeralDecoration g r) rep
          (concat (map (calcDecorativeGeometry mbs (realize mbs s Position))
                       (stagesToMine (getSystemStage mbs (realize mbs s Position))))), w)) e =
      raises (report mbs msgs s (rep, w)) e \<and>
    (\<forall>st'. reachable mbs (rep, w) \<and> report mbs msgs s (rep, w) = Ok st' \<longrightarrow>
       ephemeralGeometry (fst st') = [] \<and>
       length (actors (snd st')) =
         length (actors w) + length (ephemeralGeometry rep) +
         length (concat (map (calcDecorativeGeometry mbs (realize mbs s Position))
                             (stagesToMine (getSystemStage mbs (realize mbs s Position))))))"
proof -
  let ?s = "realize mbs s Position"
  let ?mbs = "mbs\<lparr>calcDecorativeGeometry := \<lambda>s stage. []\<rparr>"
  have order: "sorted_wrt (<) (map stageLevel (stagesToMine current))"
    unfolding stagesToMine_def sorted_wrt_map by (rule sorted_wrt_filter[OF allStages_increasing])
  have which: "set (stagesToMine current) =
      {stage. stageLevel Model \<le> stageLevel stage \<and> stageLevel stage \<le> stageLevel current}"
    by (simp add: stagesToMine_def allStages_complete)
  have q: "(foldl (\<lambda>r g. addEphemeralDecoration g r) rep
          (concat (map (calcDecorativeGeometry mbs ?s) (stagesToMine (getSystemStage mbs ?s)))), w) =
        enqueued (minedGeometry mbs ?s) (rep, w)"
    by (simp add: foldl_enqueue minedGeometry_def)
  note eq = report_enqueued[OF ready, of mbs msgs s w]
  have same: "resultOf (report ?mbs msgs s (enqueued (minedGeometry mbs ?s) (rep, w))) =
        resultOf (report mbs msgs s (rep, w)) \<and>
      raises (report ?mbs msgs s (enqueued (minedGeometry mbs ?s) (rep, w))) e =
        raises (report mbs msgs s (rep, w)) e"
  proof (cases "forEach (bodyStep mbs ?s) [1..<getNBodies mbs] (rep, w)")
    case (Ok st1)
    show ?thesis
    proof (cases "forEach (rubberBandStep mbs ?s) [0..<length (dynamicGeom (fst st1))] st1")
      case (Ok st2)
      with \<open>forEach (bodyStep mbs ?s) [1..<getNBodies mbs] (rep, w) = Ok st1\<close> eq
      show ?thesis by simp
    next
      case (Raised e' st2)
      with \<open>forEach (bodyStep mbs ?s) [1..<getNBodies mbs] (rep, w) = Ok st1\<close> eq ready
      show ?thesis by (simp add: report_def andThen_simps del: upt_Suc)
    next
      case Undefined
      with \<open>forEach (bodyStep mbs ?s) [1..<getNBodies mbs] (rep, w) = Ok st1\<close> eq ready
      show ?thesis by (simp add: report_def andThen_simps del: upt_Suc)
    qed
  next
    case (Raised e' st1)
    with eq ready show ?thesis by (simp add: report_def andThen_simps del: upt_Suc)
  next
    case Undefined
    with eq ready show ?thesis by (simp add: report_def andThen_simps del: upt_Suc)
  qed
  have once: "ephemeralGeometry (fst st') = [] \<and>
       length (actors (snd st')) =
         length (actors w) + length (ephemeralGeometry rep) +
         length (concat (map (calcDecorativeGeometry mbs ?s) (stagesToMine (getSystemStage mbs ?s))))"
    if h: "reachable mbs (rep, w) \<and> report mbs msgs s (rep, w) = Ok st'" for st'
  proof -
    from h have wf: "wellFormed mbs (rep, w)" and ok: "report mbs msgs s (rep, w) = Ok st'"
      by (simp_all add: reachable_wellFormed)
    show ?thesis using report_retires(2,3)[OF wf _ ok] ready by (simp add: minedGeometry_def)
  qed
  from order which same once show ?thesis unfolding q by blast
qed

theorem C6_witness:
  "reachable exampleSystem (fst exampleEngine, snd exampleEngine) \<and> renWin (fst exampleEngine) \<and>
   stagesToMine (getSystemStage exampleSystem (realize exampleSystem 0 Position)) =
     [Model, Instance, Time, Position] \<and>
   report exampleSystem [WM_QUIT] 0 exampleEngine = Ok closedEngine \<and>
   resultOf (report (exampleSystem\<lparr>calcDecorativeGeometry := \<lambda>s stage. []\<rparr>) [WM_QUIT] 0
      (addEphemeralDecoration ((DecorativeSphere 1)\<lparr>bodyId := 1\<rparr>) (fst exampleEngine),
       snd exampleEngine)) = Some closedEngine \<and>
   length (actors (snd closedEngine)) = 2"
proof -
  note mined = C6_mined_from_the_model_stage[OF exampleEngine_live,
      where mbs = exampleSystem and w = "snd exampleEngine" and msgs = "[WM_QUIT]" and s = 0
        and current = Position and e = RangeError]
  have "resultOf (report (exampleSystem\<lparr>calcDecorativeGeometry := \<lambda>s stage. []\<rparr>) [WM_QUIT] 0
      (addEphemeralDecoration ((DecorativeSphere 1)\<lparr>bodyId := 1\<rparr>) (fst exampleEngine),
       snd exampleEngine)) = Some closedEngine \<and>
    length (actors (snd closedEngine)) = 2"
    using mined closedEngine_reported example_reachable
    by (simp add: exampleSystem_mined(1) exampleEngine_colours(2) exampleEngine_queue)
  with exampleEngine_pair exampleEngine_live closedEngine_reported exampleSystem_mined(2)
  show ?thesis by simp
qed

theorem C6_counterexample:
  "Topology \<in> set (stagesFromLowest (getSystemStage exampleSystem (realize exampleSystem 1 Position))) \<and>
   calcDecorativeGeometry exampleSystem (realize exampleSystem 1 Position) Topology =
     [DecorativeFrame 1] \<and>
   Topology \<notin> set (stagesToMine (getSystemStage exampleSystem (realize exampleSystem 1 Position))) \<and>
   report exampleSystem [] 1 exampleEngine = Ok idleEngine \<and>
   length (actors (snd exampleEngine)) = 1 \<and> length (actors (snd idleEngine)) = 1 \<and>
   ephemeralActors (fst idleEngine) = []"
  by (simp add: example_defs stagesFromLowest_def engine_defs geom_defs backend_defs)

text \<open>
  C7. The registry is indexed without a check. On an engine the interface can reach,
  the three accessors of a valid body read or write that body's record and
  \<open>addDecoration\<close> returns; for a body id that is negative or not below the body count,
  each of the four indexes the vector of bodies outside its range, which is undefined
  behaviour: no exception is raised, a range error least of all.
\<close>

theorem C7_registry_is_unchecked:
  assumes reach: "reachable mbs (rep, w)"
  shows "(validBodyId mbs b \<longrightarrow>
       setDefaultBodyColor b rgb rep =
         Ok (rep\<lparr>bodies := (bodies rep)[nat b := (bodies rep ! nat b)\<lparr>defaultColorRGB := rgb\<rparr>]\<rparr>) \<and>
       getDefaultBodyColor rep b = Ok (defaultColorRGB (bodies rep ! nat b)) \<and>
       setBodyScale b sc rep =
         Ok (rep\<lparr>bodies := (bodies rep)[nat b := (bodies rep ! nat b)\<lparr>scale := sc\<rparr>]\<rparr>) \<and>
       (\<exists>st'. addDecoration b X_GD g (rep, w) = Ok st')) \<and>
    (\<not> validBodyId mbs b \<longrightarrow>
       setDefaultBodyColor b rgb rep = Undefined \<and> getDefaultBodyColor rep b = Undefined \<and>
       setBodyScale b sc rep = Undefined \<and> addDecoration b X_GD g (rep, w) = Undefined \<and>
       \<not> raises (setDefaultBodyColor b rgb rep) e \<and> \<not> raises (getDefaultBodyColor rep b) e \<and>
       \<not> raises (setBodyScale b sc rep) e \<and> \<not> raises (addDecoration b X_GD g (rep, w)) e)"
proof -
  have wf: "wellFormed mbs (rep, w)" by (rule reachable_wellFormed[OF reach])
  note range = wellFormed_inRange[OF wf, of b]
  have ren: "renderer rep" using wf by (simp add: wellFormed_def)
  show ?thesis
  proof (cases "validBodyId mbs b")
    case True
    then have inr: "inRange rep b" by (simp add: range)
    have "\<exists>st'. addDecoration b X_GD g (rep, w) = Ok st'"
      using addDecoration_Ok[OF inr ren, of X_GD g w] by blast
    with True inr show ?thesis
      by (simp add: setDefaultBodyColor_def getDefaultBodyColor_def setBodyScale_def)
  next
    case False
    then have out: "\<not> inRange rep b" by (simp add: range)
    then have "addDecoration b X_GD g (rep, w) = Undefined"
      by (simp add: addDecoration_Undefined)
    with False out show ?thesis
      by (simp add: setDefaultBodyColor_def getDefaultBodyColor_def setBodyScale_def)
  qed
qed

theorem C7_witness:
  "reachable exampleSystem (fst exampleEngine, snd exampleEngine) \<and>
   validBodyId exampleSystem 1 \<and>
   getDefaultBodyColor (fst exampleEngine) 1 = Ok Red \<and>
   addDecoration 1 (Transform_of_Vec3 (0, 0, 1)) (DecorativeSphere 1) exampleEngine = Ok decoratedEngine \<and>
   \<not> validBodyId exampleSystem (- 1) \<and>
   setBodyScale (- 1) 2 (fst exampleEngine) = Undefined \<and>
   \<not> raises (setBodyScale (- 1) 2 (fst exampleEngine)) RangeError"
  using C7_registry_is_unchecked[OF exampleEngine_pair, of 1]
    C7_registry_is_unchecked[OF exampleEngine_pair, of "- 1" Red 2 Transform_identity "DecorativeSphere 1" RangeError]
    exampleEngine_pair decorated_eq
  by (simp add: validBodyId_def exampleSystem_def exampleEngine_def)

theorem C7_counterexample:
  "\<not> validBodyId exampleSystem 3 \<and>
   setDefaultBodyColor 3 Red (fst exampleEngine) = Undefined \<and>
   getDefaultBodyColor (fst exampleEngine) 3 = Undefined \<and>
   setBodyScale 3 2 (fst exampleEngine) = Undefined \<and>
   addDecoration 3 Transform_identity (DecorativeSphere 1) exampleEngine = Undefined \<and>
   \<not> raises (setDefaultBodyColor 3 Red (fst exampleEngine)) RangeError \<and>
   \<not> raises (getDefaultBodyColor (fst exampleEngine) 3) RangeError \<and>
   \<not> raises (setBodyScale 3 2 (fst exampleEngine)) RangeError \<and>
   \<not> raises (addDecoration 3 Transform_identity (DecorativeSphere 1) exampleEngine) RangeError"
  by (simp add: validBodyId_def exampleSystem_def exampleEngine_def setDefaultBodyColor_def
      getDefaultBodyColor_def setBodyScale_def addDecoration_def inRange_def vtkActor_New_def)

text \<open>
  C8. An engine that the interface can reach is destroyed: the destructor returns, and
  every proxy that the backend has ever created has then been released exactly once. But
  a copy of the engine holds the same pointers: when a copy, taken while the engine was
  alive, is destroyed as well, its destructor returns too and every proxy that the
  engine held has been released twice, as has the renderer.
\<close>

theorem C8_copy_releases_twice:
  assumes reach: "reachable mbs st"
  shows "\<exists>w1 w2. deletePointers st = Ok w1 \<and>
      length (actors w1) = length (actors (snd st)) \<and>
      (\<forall>a < length (actors w1). deleteCalls (actors w1 ! a) = 1) \<and>
      rendererDeletes w1 = Suc (rendererDeletes (snd st)) \<and>
      deletePointers (VTKReporter_copy h (fst st), w1) = Ok w2 \<and>
      (\<forall>a \<in> set (ownedActors (fst st)). deleteCalls (actors w2 ! a) = 2) \<and>
      rendererDeletes w2 = Suc (Suc (rendererDeletes (snd st)))"
proof -
  let ?f = "\<lambda>w a. updActor a (\<lambda>x. released x) w"
  obtain rep w where st: "st = (rep, w)" by (cases st)
  have wf: "wellFormed mbs (rep, w)" using reachable_wellFormed[OF reach] by (simp add: st)
  then have ren: "renderer rep" and none: "None \<notin> set (ephemeralActors rep)"
    and dist: "distinct (ownedActors rep)"
    and live: "\<forall>a \<in> set (ownedActors rep). a < length (actors w) \<and> deleteCalls (actors w ! a) = 0"
    and dead: "\<forall>a < length (actors w). a \<notin> set (ownedActors rep) \<longrightarrow> deleteCalls (actors w ! a) = 1"
    by (simp_all add: wellFormed_def)
  from live have bound: "\<forall>a \<in> set (ownedActors rep). a < length (actors w)" by blast
  from deletePointers_Ok[OF ren none, of w] obtain w1 where
    d1: "deletePointers (rep, w) = Ok w1"
    and a1: "actors w1 = actors (foldl ?f w (ownedActors rep))"
    and r1: "rendererDeletes w1 = Suc (rendererDeletes w)" by blast
  have len1: "length (actors w1) = length (actors w)" by (simp add: a1)
  have c1: "deleteCalls (actors w1 ! a) =
      (if a \<in> set (ownedActors rep) then Suc (deleteCalls (actors w ! a)) else deleteCalls (actors w ! a))"
    for a unfolding a1 by (rule released_all_owned[OF dist bound])
  have once: "\<forall>a < length (actors w1). deleteCalls (actors w1 ! a) = 1"
    using live dead by (auto simp: c1 len1)
  have bound1: "\<forall>a \<in> set (ownedActors (VTKReporter_copy h rep)). a < length (actors w1)"
    using bound by (simp add: len1)
  from deletePointers_Ok[of "VTKReporter_copy h rep" w1] ren none obtain w2 where
    d2: "deletePointers (VTKReporter_copy h rep, w1) = Ok w2"
    and a2: "actors w2 = actors (foldl ?f w1 (ownedActors rep))"
    and r2: "rendererDeletes w2 = Suc (rendererDeletes w1)" by auto
  have c2: "deleteCalls (actors w2 ! a) =
      (if a \<in> set (ownedActors rep) then Suc (deleteCalls (actors w1 ! a)) else deleteCalls (actors w1 ! a))"
    for a unfolding a2 using released_all_owned[OF dist, of w1 a] bound by (simp add: len1)
  have twice: "\<forall>a \<in> set (ownedActors rep). deleteCalls (actors w2 ! a) = 2"
    using live by (simp add: c2 c1)
  from d1 len1 once r1 d2 twice r2 show ?thesis by (auto simp: st)
qed

theorem C8_witness:
  "reachable exampleSystem exampleEngine \<and>
   deletePointers exampleEngine = Ok afterOriginal \<and>
   deletePointers (VTKReporter_copy 2 (fst exampleEngine), afterOriginal) = Ok afterCopy \<and>
   ownedActors (fst exampleEngine) = [0] \<and>
   deleteCalls (actors afterOriginal ! 0) = 1 \<and> deleteCalls (actors afterCopy ! 0) = 2 \<and>
   rendererDeletes afterCopy = 2"
proof -
  from C8_copy_releases_twice[OF example_reachable, of 2] obtain w1 w2 where
    "deletePointers exampleEngine = Ok w1"
    and once: "\<forall>a < length (actors w1). deleteCalls (actors w1 ! a) = 1"
    and len: "length (actors w1) = length (actors (snd exampleEngine))"
    and "deletePointers (VTKReporter_copy 2 (fst exampleEngine), w1) = Ok w2"
    and twice: "\<forall>a \<in> set (ownedActors (fst exampleEngine)). deleteCalls (actors w2 ! a) = 2"
    and r: "rendererDeletes w2 = Suc (Suc (rendererDeletes (snd exampleEngine)))"
    by blast
  with orig_eq copy_eq have w: "w1 = afterOriginal" "w2 = afterCopy" by simp_all
  from once len have "deleteCalls (actors afterOriginal ! 0) = 1"
    by (simp add: w exampleEngine_colours(2))
  moreover from twice have "deleteCalls (actors afterCopy ! 0) = 2"
    by (simp add: w exampleEngine_owned)
  moreover from r have "rendererDeletes afterCopy = 2" by (simp add: w exampleEngine_def)
  ultimately show ?thesis
    using example_reachable orig_eq copy_eq exampleEngine_owned by simp
qed

text \<open>
  C9. While the window pointer is null (the engine is disposed of, or its window was
  closed), \<open>report\<close> returns at once: no error, and the engine and the backend, so the
  scene, the three stores and the camera flag, are as they were.
\<close>

theorem C9_report_disposed_is_noop:
  assumes "\<not> renWin (fst st)"
  shows "report mbs msgs s st = Ok st"
  using assms by (simp add: report_def)

theorem C9_witness:
  "\<not> renWin (fst closedEngine) \<and> report exampleSystem [] 1 closedEngine = Ok closedEngine"
  using C9_report_disposed_is_noop[of closedEngine exampleSystem "[]" 1]
  by (simp add: closedEngine_def)

text \<open>
  C10. \<open>addEphemeralDecoration\<close> appends the descriptor to the pending queue and leaves
  every other member of the engine as it was, the camera flag among them; it has no
  access to the backend. So when the flag is clear and any number of descriptors is
  queued, the next report creates the proxies of the queue and of the mined geometry but
  does not reset the camera, and leaves the flag clear. The setters of the body registry
  keep the flag as well; \<open>addDecoration\<close>, \<open>addRubberBandLine\<close> and \<open>resetCamera\<close> set it.
\<close>

theorem C10_ephemeral_decorations_never_reframe:
  assumes reach: "reachable mbs (rep, w)" and ready: "renWin rep"
    and clear: "\<not> cameraNeedsToBeReset rep"
    and ok: "report mbs msgs s (foldl (\<lambda>r g. addEphemeralDecoration g r) rep gs, w) = Ok st'"
  shows "ephemeralGeometry (addEphemeralDecoration g rep) = ephemeralGeometry rep @ [g] \<and>
    cameraNeedsToBeReset (addEphemeralDecoration g rep) = cameraNeedsToBeReset rep \<and>
    bodies (addEphemeralDecoration g rep) = bodies rep \<and>
    dynamicGeom (addEphemeralDecoration g rep) = dynamicGeom rep \<and>
    ephemeralActors (addEphemeralDecoration g rep) = ephemeralActors rep \<and>
    renWin (addEphemeralDecoration g rep) = renWin rep \<and>
    renderer (addEphemeralDecoration g rep) = renderer rep \<and>
    cameraResets (snd st') = cameraResets w \<and> \<not> cameraNeedsToBeReset (fst st') \<and>
    length (actors (snd st')) =
      length (actors w) + length (ephemeralGeometry rep) + length gs +
      length (minedGeometry mbs (realize mbs s Position)) \<and>
    (\<forall>b rgb rep'. setDefaultBodyColor b rgb rep = Ok rep' \<longrightarrow>
       cameraNeedsToBeReset rep' = cameraNeedsToBeReset rep) \<and>
    (\<forall>b sc rep'. setBodyScale b sc rep = Ok rep' \<longrightarrow>
       cameraNeedsToBeReset rep' = cameraNeedsToBeReset rep) \<and>
    cameraNeedsToBeReset (disableDefaultGeometry rep) = cameraNeedsToBeReset rep \<and>
    (\<forall>b X_GD d st1. addDecoration b X_GD d (rep, w) = Ok st1 \<longrightarrow> cameraNeedsToBeReset (fst st1)) \<and>
    (\<forall>b1 p1 b2 p2 d st1. addRubberBandLine b1 p1 b2 p2 d (rep, w) = Ok st1 \<longrightarrow>
       cameraNeedsToBeReset (fst st1)) \<and>
    cameraNeedsToBeReset (resetCamera rep)"
proof -
  let ?rep = "foldl (\<lambda>r g. addEphemeralDecoration g r) rep gs"
  have wf: "wellFormed mbs (rep, w)" by (rule reachable_wellFormed[OF reach])
  have wfq: "wellFormed mbs (?rep, w)" by (rule queue_wellFormed[OF wf])
  have r: "reported mbs msgs (realize mbs s Position) ?rep w (fst st') (snd st')"
    using report_reported(1)[OF wfq _ ok] ready by simp
  have cam: "cameraResets (snd st') = cameraResets w"
    using reported_counters(1)[OF r] clear by simp
  have flag: "\<not> cameraNeedsToBeReset (fst st')" using reported_rep(6)[OF r] by simp
  have len: "length (actors (snd st')) =
      length (actors w) + length (ephemeralGeometry rep) + length gs +
      length (minedGeometry mbs (realize mbs s Position))"
    using reported_length[OF r] by simp
  have ren: "renderer rep" using wf by (simp add: wellFormed_def)
  have col: "cameraNeedsToBeReset rep' = cameraNeedsToBeReset rep"
    if "setDefaultBodyColor b rgb rep = Ok rep'" for b rgb rep'
    using that by (auto simp: setDefaultBodyColor_def split: if_splits)
  have scl: "cameraNeedsToBeReset rep' = cameraNeedsToBeReset rep"
    if "setBodyScale b sc rep = Ok rep'" for b sc rep'
    using that by (auto simp: setBodyScale_def split: if_splits)
  have dec: "cameraNeedsToBeReset (fst st1)"
    if "addDecoration b X_GD d (rep, w) = Ok st1" for b X_GD d st1
  proof -
    have "inRange rep b" using that addDecoration_Undefined[of rep b X_GD d w] by auto
    from addDecoration_Ok[OF this ren, of X_GD d w] that show ?thesis by auto
  qed
  have band: "cameraNeedsToBeReset (fst st1)"
    if "addRubberBandLine b1 p1 b2 p2 d (rep, w) = Ok st1" for b1 p1 b2 p2 d st1
    using addRubberBandLine_Ok[OF ren, of b1 p1 b2 p2 d w] that by auto
  have queue: "ephemeralGeometry (addEphemeralDecoration g rep) = ephemeralGeometry rep @ [g] \<and>
    cameraNeedsToBeReset (addEphemeralDecoration g rep) = cameraNeedsToBeReset rep \<and>
    bodies (addEphemeralDecoration g rep) = bodies rep \<and>
    dynamicGeom (addEphemeralDecoration g rep) = dynamicGeom rep \<and>
    ephemeralActors (addEphemeralDecoration g rep) = ephemeralActors rep \<and>
    renWin (addEphemeralDecoration g rep) = renWin rep \<and>
    renderer (addEphemeralDecoration g rep) = renderer rep"
    by (simp add: addEphemeralDecoration_def)
  have others: "cameraNeedsToBeReset (disableDefaultGeometry rep) = cameraNeedsToBeReset rep"
    "cameraNeedsToBeReset (resetCamera rep)"
    by (simp_all add: disableDefaultGeometry_def resetCamera_def)
  from queue cam flag len col scl dec band others show ?thesis by blast
qed

theorem C10_witness:
  "reachable exampleSystem (fst reportedEngine, snd reportedEngine) \<and> renWin (fst reportedEngine) \<and>
   \<not> cameraNeedsToBeReset (fst reportedEngine) \<and>
   report exampleSystem [] 3
     (addEphemeralDecoration (DecorativeSphere 2) (fst reportedEngine), snd reportedEngine) =
     Ok queuedAgain \<and>
   cameraResets (snd reportedEngine) = 2 \<and> cameraResets (snd queuedAgain) = 2 \<and>
   \<not> cameraNeedsToBeReset (fst queuedAgain)"
  using C10_ephemeral_decorations_never_reframe[OF reportedEngine_reachable reportedEngine_live
      reportedEngine_flag,
      where msgs = "[]" and s = 3 and gs = "[DecorativeSphere 2]" and st' = queuedAgain]
    reportedEngine_reachable reportedEngine_live reportedEngine_flag again_queued_eq
  by (simp add: reportedEngine_cameraResets)

end
